theory Spec2Isabelle
  imports Complex_Main
begin

section \<open>Floating-point values\<close>

text \<open>
  Go's \<open>float64\<close> is modelled by the reals extended with the three special values of
  IEEE 754 that the code observes (\<open>math.IsNaN\<close>, division by zero): \<open>Fin x\<close> is the finite
  value \<open>x\<close>, \<open>PInf\<close> and \<open>NInf\<close> are the two infinities, \<open>NaN\<close> is not-a-number.
  Finite arithmetic is exact: rounding to 53 bits, overflow to infinity and the sign of
  zero are not part of the model (a zero divisor counts as \<open>+0\<close>).
  The operators follow IEEE 754 on the special values.
\<close>

datatype float64 = Fin real | PInf | NInf | NaN

instantiation float64 :: "{plus, minus, uminus, times, inverse, abs, ord}"
begin

fun uminus_float64 :: "float64 \<Rightarrow> float64" where
  "uminus_float64 (Fin x) = Fin (- x)"
| "uminus_float64 PInf = NInf"
| "uminus_float64 NInf = PInf"
| "uminus_float64 NaN = NaN"

fun plus_float64 :: "float64 \<Rightarrow> float64 \<Rightarrow> float64" where
  "plus_float64 NaN y = NaN"
| "plus_float64 x NaN = NaN"
| "plus_float64 (Fin x) (Fin y) = Fin (x + y)"
| "plus_float64 PInf NInf = NaN"
| "plus_float64 NInf PInf = NaN"
| "plus_float64 PInf y = PInf"
| "plus_float64 NInf y = NInf"
| "plus_float64 (Fin x) y = y"

definition minus_float64 :: "float64 \<Rightarrow> float64 \<Rightarrow> float64" where
  "minus_float64 x y = x + (- y)"

fun times_float64 :: "float64 \<Rightarrow> float64 \<Rightarrow> float64" where
  "times_float64 NaN y = NaN"
| "times_float64 x NaN = NaN"
| "times_float64 (Fin x) (Fin y) = Fin (x * y)"
| "times_float64 (Fin x) PInf = (if x = 0 then NaN else if 0 < x then PInf else NInf)"
| "times_float64 (Fin x) NInf = (if x = 0 then NaN else if 0 < x then NInf else PInf)"
| "times_float64 PInf (Fin y) = (if y = 0 then NaN else if 0 < y then PInf else NInf)"
| "times_float64 NInf (Fin y) = (if y = 0 then NaN else if 0 < y then NInf else PInf)"
| "times_float64 PInf PInf = PInf"
| "times_float64 PInf NInf = NInf"
| "times_float64 NInf PInf = NInf"
| "times_float64 NInf NInf = PInf"

fun divide_float64 :: "float64 \<Rightarrow> float64 \<Rightarrow> float64" where
  "divide_float64 NaN y = NaN"
| "divide_float64 x NaN = NaN"
| "divide_float64 (Fin x) (Fin y) =
     (if y \<noteq> 0 then Fin (x / y)
      else if x = 0 then NaN else if 0 < x then PInf else NInf)"
| "divide_float64 (Fin x) y = Fin 0"
| "divide_float64 PInf (Fin y) = (if 0 \<le> y then PInf else NInf)"
| "divide_float64 NInf (Fin y) = (if 0 \<le> y then NInf else PInf)"
| "divide_float64 x y = NaN"

definition inverse_float64 :: "float64 \<Rightarrow> float64" where
  "inverse_float64 x = divide (Fin 1) x"

fun abs_float64 :: "float64 \<Rightarrow> float64" where
  "abs_float64 (Fin x) = Fin \<bar>x\<bar>"
| "abs_float64 PInf = PInf"
| "abs_float64 NInf = PInf"
| "abs_float64 NaN = NaN"

fun less_float64 :: "float64 \<Rightarrow> float64 \<Rightarrow> bool" where
  "less_float64 NaN y = False"
| "less_float64 x NaN = False"
| "less_float64 (Fin x) (Fin y) = (x < y)"
| "less_float64 x NInf = False"
| "less_float64 PInf y = False"
| "less_float64 x y = True"

fun less_eq_float64 :: "float64 \<Rightarrow> float64 \<Rightarrow> bool" where
  "less_eq_float64 NaN y = False"
| "less_eq_float64 x NaN = False"
| "less_eq_float64 (Fin x) (Fin y) = (x \<le> y)"
| "less_eq_float64 NInf y = True"
| "less_eq_float64 x PInf = True"
| "less_eq_float64 x y = False"

instance ..

end

subsection \<open>The functions of Go's \<open>math\<close> package that the code calls\<close>

fun IsNaN :: "float64 \<Rightarrow> bool" where
  "IsNaN NaN = True"
| "IsNaN x = False"

fun Sqrt :: "float64 \<Rightarrow> float64" where
  "Sqrt (Fin x) = (if x < 0 then NaN else Fin (sqrt x))"
| "Sqrt PInf = PInf"
| "Sqrt x = NaN"

fun Sin :: "float64 \<Rightarrow> float64" where
  "Sin (Fin x) = Fin (sin x)"
| "Sin x = NaN"

fun Cos :: "float64 \<Rightarrow> float64" where
  "Cos (Fin x) = Fin (cos x)"
| "Cos x = NaN"

fun Tan :: "float64 \<Rightarrow> float64" where
  "Tan (Fin x) = Fin (tan x)"
| "Tan x = NaN"

text \<open>\<open>math.Pow(x, 1.5)\<close>, the only exponent the code uses.\<close>

fun Pow_1_5 :: "float64 \<Rightarrow> float64" where
  "Pow_1_5 (Fin x) = (if x < 0 then NaN else Fin (x powr (3 / 2)))"
| "Pow_1_5 PInf = PInf"
| "Pow_1_5 NInf = PInf"
| "Pow_1_5 NaN = NaN"

text \<open>The angle of the point \<open>(x, y)\<close> in \<open>(-\<pi>, \<pi>]\<close>, with \<open>atan2 0 0 = 0\<close>.\<close>

definition atan2 :: "real \<Rightarrow> real \<Rightarrow> real" where
  "atan2 y x =
     (if 0 < x then arctan (y / x)
      else if x < 0 then (if 0 \<le> y then arctan (y / x) + pi else arctan (y / x) - pi)
      else if 0 < y then pi / 2 else if y < 0 then - (pi / 2) else 0)"

fun Atan2 :: "float64 \<Rightarrow> float64 \<Rightarrow> float64" where
  "Atan2 NaN x = NaN"
| "Atan2 y NaN = NaN"
| "Atan2 (Fin y) (Fin x) = Fin (atan2 y x)"
| "Atan2 PInf PInf = Fin (pi / 4)"
| "Atan2 NInf PInf = Fin (- (pi / 4))"
| "Atan2 PInf NInf = Fin (3 * pi / 4)"
| "Atan2 NInf NInf = Fin (- (3 * pi / 4))"
| "Atan2 (Fin y) PInf = Fin 0"
| "Atan2 (Fin y) NInf = (if 0 \<le> y then Fin pi else Fin (- pi))"
| "Atan2 PInf (Fin x) = Fin (pi / 2)"
| "Atan2 NInf (Fin x) = Fin (- (pi / 2))"

text \<open>\<open>math.Mod\<close>: the remainder of the division truncated towards zero.\<close>

definition trunc :: "real \<Rightarrow> int" where
  "trunc q = (if 0 \<le> q then \<lfloor>q\<rfloor> else \<lceil>q\<rceil>)"

fun Mod :: "float64 \<Rightarrow> float64 \<Rightarrow> float64" where
  "Mod NaN y = NaN"
| "Mod x NaN = NaN"
| "Mod PInf y = NaN"
| "Mod NInf y = NaN"
| "Mod (Fin x) (Fin y) = (if y = 0 then NaN else Fin (x - y * of_int (trunc (x / y))))"
| "Mod (Fin x) y = Fin x"

section \<open>Grid references\<close>

text \<open>\<open>type OsGridRef struct { Easting, Northing int }\<close>\<close>

record OsGridRef =
  Easting :: int
  Northing :: int

text \<open>
  \<open>func (o OsGridRef) Valid() bool\<close>; the untyped constants \<open>700e3\<close> and \<open>1300e3\<close>
  are the integers 700000 and 1300000.
\<close>

definition Valid :: "OsGridRef \<Rightarrow> bool" where
  "Valid o' = (Easting o' \<ge> 0 \<and> Easting o' \<le> 700000 \<and> Northing o' \<ge> 0 \<and> Northing o' \<le> 1300000)"

text \<open>
  The package constants. They are untyped Go constants, so their values are exact.
  The single-letter constants \<open>a\<close>, \<open>b\<close> and \<open>n\<close> are named \<open>airy_a\<close>, \<open>airy_b\<close> and
  \<open>airy_n\<close> here, and \<open>\<lambda>0\<close> is \<open>lambda0\<close>.
\<close>

definition toRadians :: real where "toRadians = pi / 180"
definition toDegrees :: real where "toDegrees = 180 / pi"
definition airy_a :: real where "airy_a = 6377563.396"
definition airy_b :: real where "airy_b = 6356256.909"
definition F0 :: real where "F0 = 0.9996012717"
definition \<phi>0 :: real where "\<phi>0 = 49 * toRadians"
definition lambda0 :: real where "lambda0 = - 2 * toRadians"
definition N0 :: real where "N0 = - 100000"
definition E0 :: real where "E0 = 400000"
definition e2 :: real where "e2 = 1 - (airy_b * airy_b) / (airy_a * airy_a)"
definition airy_n :: real where "airy_n = (airy_a - airy_b) / (airy_a + airy_b)"
definition n2 :: real where "n2 = airy_n * airy_n"
definition n3 :: real where "n3 = airy_n * airy_n * airy_n"

text \<open>\<open>func (o OsGridRef) assertValid()\<close>: the panic is the value \<open>Inl\<close>.\<close>

datatype panic = Panic string

definition assertValid :: "OsGridRef \<Rightarrow> panic + unit" where
  "assertValid o' = (if \<not> Valid o' then Inl (Panic ''Invalid OS grid ref'') else Inr ())"

section \<open>Ellipsoids and datums\<close>

text \<open>
  \<open>type Ellipseoid struct{ a, b, f float64 }\<close>; the fields are named \<open>ell_a\<close>, \<open>ell_b\<close>
  and \<open>ell_f\<close>.
\<close>

record Ellipseoid =
  ell_a :: float64
  ell_b :: float64
  ell_f :: float64

text \<open>
  A Go map read at a key it does not hold gives the zero value of the element type.
\<close>

definition map_index :: "'v \<Rightarrow> (string \<times> 'v) list \<Rightarrow> string \<Rightarrow> 'v" where
  "map_index zero m k = (case map_of m k of Some v \<Rightarrow> v | None \<Rightarrow> zero)"

definition zero_Ellipseoid :: Ellipseoid where
  "zero_Ellipseoid = \<lparr>ell_a = Fin 0, ell_b = Fin 0, ell_f = Fin 0\<rparr>"

definition ellipsoids :: "(string \<times> Ellipseoid) list" where
  "ellipsoids =
    [(''WGS84'', \<lparr>ell_a = Fin 6378137, ell_b = Fin 6356752.314245, ell_f = Fin (1 / 298.257223563)\<rparr>),
     (''Airy1830'', \<lparr>ell_a = Fin 6377563.396, ell_b = Fin 6356256.909, ell_f = Fin (1 / 299.3249646)\<rparr>),
     (''AiryModified'', \<lparr>ell_a = Fin 6377340.189, ell_b = Fin 6356034.448, ell_f = Fin (1 / 299.3249646)\<rparr>),
     (''Bessel1841'', \<lparr>ell_a = Fin 6377397.155, ell_b = Fin 6356078.962818, ell_f = Fin (1 / 299.1528128)\<rparr>),
     (''Clarke1866'', \<lparr>ell_a = Fin 6378206.4, ell_b = Fin 6356583.8, ell_f = Fin (1 / 294.978698214)\<rparr>),
     (''Clarke1880IGN'', \<lparr>ell_a = Fin 6378249.2, ell_b = Fin 6356515.0, ell_f = Fin (1 / 293.466021294)\<rparr>),
     (''GRS80'', \<lparr>ell_a = Fin 6378137, ell_b = Fin 6356752.314140, ell_f = Fin (1 / 298.257222101)\<rparr>),
     (''Intl1924'', \<lparr>ell_a = Fin 6378388, ell_b = Fin 6356911.946, ell_f = Fin (1 / 297)\<rparr>),
     (''WGS72'', \<lparr>ell_a = Fin 6378135, ell_b = Fin 6356750.5, ell_f = Fin (1 / 298.26)\<rparr>)]"

text \<open>
  \<open>type Datum struct { Name string; Ellipsoid Ellipseoid; Transform [7]float64 }\<close>;
  the array is a list of seven values.
\<close>

record Datum =
  Name :: string
  Ellipsoid :: Ellipseoid
  Transform :: "float64 list"

definition zero_Datum :: Datum where
  "zero_Datum = \<lparr>Name = [], Ellipsoid = zero_Ellipseoid, Transform = replicate 7 (Fin 0)\<rparr>"

definition Datums :: "(string \<times> Datum) list" where
  "Datums =
    [(''ED50'', \<lparr>Name = ''ED50'', Ellipsoid = map_index zero_Ellipseoid ellipsoids ''Intl1924'',
        Transform = [Fin 89.5, Fin 93.8, Fin 123.1, Fin (- 1.2), Fin 0.0, Fin 0.0, Fin 0.156]\<rparr>),
     (''ETRS89'', \<lparr>Name = ''ETRS89'', Ellipsoid = map_index zero_Ellipseoid ellipsoids ''GRS80'',
        Transform = [Fin 0, Fin 0, Fin 0, Fin 0, Fin 0, Fin 0, Fin 0]\<rparr>),
     (''Irl1975'', \<lparr>Name = ''Irl1975'', Ellipsoid = map_index zero_Ellipseoid ellipsoids ''AiryModified'',
        Transform = [Fin (- 482.530), Fin 130.596, Fin (- 564.557), Fin (- 8.150), Fin 1.042, Fin 0.214, Fin 0.631]\<rparr>),
     (''NAD27'', \<lparr>Name = ''NAD27'', Ellipsoid = map_index zero_Ellipseoid ellipsoids ''Clarke1866'',
        Transform = [Fin 8, Fin (- 160), Fin (- 176), Fin 0, Fin 0, Fin 0, Fin 0]\<rparr>),
     (''NAD83'', \<lparr>Name = ''NAD83'', Ellipsoid = map_index zero_Ellipseoid ellipsoids ''GRS80'',
        Transform = [Fin 0.9956, Fin (- 1.9103), Fin (- 0.5215), Fin (- 0.00062), Fin 0.025915, Fin 0.009426, Fin 0.011599]\<rparr>),
     (''NTF'', \<lparr>Name = ''NTF'', Ellipsoid = map_index zero_Ellipseoid ellipsoids ''Clarke1880IGN'',
        Transform = [Fin 168, Fin 60, Fin (- 320), Fin 0, Fin 0, Fin 0, Fin 0]\<rparr>),
     (''OSGB36'', \<lparr>Name = ''OSGB36'', Ellipsoid = map_index zero_Ellipseoid ellipsoids ''Airy1830'',
        Transform = [Fin (- 446.448), Fin 125.157, Fin (- 542.060), Fin 20.4894, Fin (- 0.1502), Fin (- 0.2470), Fin (- 0.8421)]\<rparr>),
     (''Potsdam'', \<lparr>Name = ''Potsdam'', Ellipsoid = map_index zero_Ellipseoid ellipsoids ''Bessel1841'',
        Transform = [Fin (- 582), Fin (- 105), Fin (- 414), Fin (- 8.3), Fin 1.04, Fin 0.35, Fin (- 3.08)]\<rparr>),
     (''TokyoJapan'', \<lparr>Name = ''TokyoJapan'', Ellipsoid = map_index zero_Ellipseoid ellipsoids ''Bessel1841'',
        Transform = [Fin 148, Fin (- 507), Fin (- 685), Fin 0, Fin 0, Fin 0, Fin 0]\<rparr>),
     (''WGS72'', \<lparr>Name = ''WGS72'', Ellipsoid = map_index zero_Ellipseoid ellipsoids ''WGS72'',
        Transform = [Fin 0, Fin 0, Fin (- 4.5), Fin (- 0.22), Fin 0, Fin 0, Fin 0.554]\<rparr>),
     (''WGS84'', \<lparr>Name = ''WGS84'', Ellipsoid = map_index zero_Ellipseoid ellipsoids ''WGS84'',
        Transform = [Fin 0.0, Fin 0.0, Fin 0.0, Fin 0.0, Fin 0.0, Fin 0.0, Fin 0.0]\<rparr>)]"

definition OSGB36 :: Datum where
  "OSGB36 = map_index zero_Datum Datums ''OSGB36''"

definition WGS84 :: Datum where
  "WGS84 = map_index zero_Datum Datums ''WGS84''"

section \<open>Points\<close>

text \<open>\<open>type LatLonEllipsoidalDatum struct { Lat, Lon, Height float64; Datum Datum }\<close>\<close>

record LatLonEllipsoidalDatum =
  Lat :: float64
  Lon :: float64
  Height :: float64
  Datum :: Datum

text \<open>\<open>type Cartesian struct { X, Y, Z float64; Datum Datum }\<close>\<close>

record Cartesian =
  X :: float64
  Y :: float64
  Z :: float64
  Datum :: Datum

text \<open>\<open>func (l LatLonEllipsoidalDatum) ToCartesian() Cartesian\<close>\<close>

definition ToCartesian :: "LatLonEllipsoidalDatum \<Rightarrow> Cartesian" where
  "ToCartesian l =
    (let ellipsoid = Ellipsoid (LatLonEllipsoidalDatum.Datum l);
         \<phi> = Lat l * Fin toRadians;
         lam = Lon l * Fin toRadians;
         h = Height l;
         a = ell_a ellipsoid; f = ell_f ellipsoid;
         sin\<phi> = Sin \<phi>;
         cos\<phi> = Cos \<phi>;
         sinlam = Sin lam;
         coslam = Cos lam;
         eSq = Fin 2 * f - f * f;
         \<nu> = a / Sqrt (Fin 1 - eSq * sin\<phi> * sin\<phi>);
         x = (\<nu> + h) * cos\<phi> * coslam;
         y = (\<nu> + h) * cos\<phi> * sinlam;
         z = (\<nu> * (Fin 1 - eSq) + h) * sin\<phi>
     in \<lparr>X = x, Y = y, Z = z, Datum = LatLonEllipsoidalDatum.Datum l\<rparr>)"

text \<open>\<open>func (c Cartesian) ToLatLon() LatLonEllipsoidalDatum\<close> (Bowring's formulation)\<close>

definition Cartesian_ToLatLon :: "Cartesian \<Rightarrow> LatLonEllipsoidalDatum" where
  "Cartesian_ToLatLon c =
    (let x = X c; y = Y c; z = Z c;
         a = ell_a (Ellipsoid (Datum c)); b = ell_b (Ellipsoid (Datum c));
         f = ell_f (Ellipsoid (Datum c));
         e2' = Fin 2 * f - f * f;
         \<epsilon>2 = e2' / (Fin 1 - e2');
         p = Sqrt (x * x + y * y);
         R = Sqrt (p * p + z * z);
         tan\<beta> = (b * z) / (a * p) * (Fin 1 + \<epsilon>2 * b / R);
         sin\<beta> = tan\<beta> / Sqrt (Fin 1 + tan\<beta> * tan\<beta>);
         cos\<beta> = sin\<beta> / tan\<beta>;
         \<phi> = (if \<not> IsNaN cos\<beta>
              then Atan2 (z + \<epsilon>2 * b * sin\<beta> * sin\<beta> * sin\<beta>) (p - e2' * a * cos\<beta> * cos\<beta> * cos\<beta>)
              else Fin 0.0);
         lam = Atan2 y x;
         sin\<phi> = Sin \<phi>;
         cos\<phi> = Cos \<phi>;
         \<nu> = a / Sqrt (Fin 1 - e2' * sin\<phi> * sin\<phi>);
         h = p * cos\<phi> + z * sin\<phi> - (a * a / \<nu>)
     in \<lparr>Lat = \<phi> * Fin toDegrees, Lon = lam * Fin toDegrees, Height = h,
         Datum = Datum c\<rparr>)"

text \<open>
  \<open>func (c Cartesian) applyTransform(t [7]float64) Cartesian\<close>; the result's \<open>Datum\<close>
  field is left at its zero value.
\<close>

definition applyTransform :: "Cartesian \<Rightarrow> float64 list \<Rightarrow> Cartesian" where
  "applyTransform c t =
    (let x1 = X c; y1 = Y c; z1 = Z c;
         tx = t ! 0;
         ty = t ! 1;
         tz = t ! 2;
         s = t ! 3 / Fin 1000000 + Fin 1;
         rx = (t ! 4 / Fin 3600) * Fin toRadians;
         ry = (t ! 5 / Fin 3600) * Fin toRadians;
         rz = (t ! 6 / Fin 3600) * Fin toRadians;
         x2 = tx + x1 * s - y1 * rz + z1 * ry;
         y2 = ty + x1 * rz + y1 * s - z1 * rx;
         z2 = tz - x1 * ry + y1 * rx + z1 * s
     in \<lparr>X = x2, Y = y2, Z = z2, Datum = zero_Datum\<rparr>)"

text \<open>
  \<open>func (c Cartesian) ConvertDatum(toDatum Datum) Cartesian\<close>. The loop over the
  seven parameters that fills \<open>transform[i] = -c.Datum.Transform[i]\<close> is \<open>map uminus\<close>.
\<close>

function Cartesian_ConvertDatum :: "Cartesian \<Rightarrow> Datum \<Rightarrow> Cartesian" where
  "Cartesian_ConvertDatum c toDatum =
    (if Name (Datum c) = Name toDatum then c
     else
       (let (oldCartesian, transform) =
              (if Name (Datum c) = ''WGS84'' then (c, Transform toDatum)
               else if Name toDatum = ''WGS84'' then (c, map uminus (Transform (Datum c)))
               else (Cartesian_ConvertDatum c WGS84, Transform toDatum));
            newCartesian = applyTransform oldCartesian transform
        in newCartesian\<lparr>Datum := toDatum\<rparr>))"
  by pat_completeness auto
termination
  by (relation "measure (\<lambda>(c, d). if Name d = ''WGS84'' then 0 else 1)")
     (auto simp: WGS84_def Datums_def map_index_def)

text \<open>\<open>func (l LatLonEllipsoidalDatum) ConvertDatum(toDatum Datum) LatLonEllipsoidalDatum\<close>\<close>

definition LatLon_ConvertDatum :: "LatLonEllipsoidalDatum \<Rightarrow> Datum \<Rightarrow> LatLonEllipsoidalDatum" where
  "LatLon_ConvertDatum l toDatum =
    (let oldCartesian = ToCartesian l;
         newCartesian = Cartesian_ConvertDatum oldCartesian toDatum;
         newLatLon = Cartesian_ToLatLon newCartesian
     in newLatLon)"

text \<open>\<open>func osgb36ToWGS84(lat, lon float64) (float64, float64)\<close>\<close>

definition osgb36ToWGS84 :: "float64 \<Rightarrow> float64 \<Rightarrow> float64 \<times> float64" where
  "osgb36ToWGS84 lat lon =
    (let latLon = \<lparr>Lat = lat, Lon = lon, Height = Fin 0, Datum = OSGB36\<rparr>;
         converted = LatLon_ConvertDatum latLon WGS84
     in (Lat converted, Lon converted))"

section \<open>Wrapping of degrees\<close>

text \<open>\<open>func Wrap90(degrees float64) float64\<close>\<close>

definition Wrap90 :: "float64 \<Rightarrow> float64" where
  "Wrap90 degrees =
    (if Fin (- 90) \<le> degrees \<and> degrees \<le> Fin 90 then degrees
     else
       (let x = degrees; a = Fin 90.0; p = Fin 360.0
        in Fin 4 * a / p * abs (Mod (Mod (x - p / Fin 4) p + p) p - p / Fin 2) - a))"

text \<open>\<open>func Wrap180(degrees float64) float64\<close>\<close>

definition Wrap180 :: "float64 \<Rightarrow> float64" where
  "Wrap180 degrees =
    (if Fin (- 180) \<le> degrees \<and> degrees \<le> Fin 180 then degrees
     else
       (let x = degrees; a = Fin 180.0; p = Fin 360.0
        in Mod (Mod (Fin 2 * a * x / p - p / Fin 2) p + p) p - a))"

section \<open>From a grid reference to latitude and longitude\<close>

text \<open>
  The meridional arc \<open>M\<close> of the latitude \<open>\<phi>\<close>, the five lines \<open>Ma\<close>, \<open>Mb\<close>, \<open>Mc\<close>, \<open>Md\<close>,
  \<open>M\<close> of the loop body in \<open>OsGridRef.ToLatLon\<close>. The quotients \<open>5/4\<close>, \<open>21/8\<close>, \<open>15/8\<close>
  and \<open>35/24\<close> are divisions of untyped integer constants, which Go truncates.
\<close>

definition meridional_arc :: "float64 \<Rightarrow> float64" where
  "meridional_arc \<phi> =
    (let Ma = Fin (1 + airy_n + of_int (5 div 4) * n2 + of_int (5 div 4) * n3) * (\<phi> - Fin \<phi>0);
         Mb = Fin (3 * airy_n + 3 * airy_n * airy_n + of_int (21 div 8) * n3)
                * Sin (\<phi> - Fin \<phi>0) * Cos (\<phi> + Fin \<phi>0);
         Mc = Fin (of_int (15 div 8) * n2 + of_int (15 div 8) * n3)
                * Sin (Fin 2 * (\<phi> - Fin \<phi>0)) * Cos (Fin 2 * (\<phi> + Fin \<phi>0));
         Md = Fin (of_int (35 div 24) * n3)
                * Sin (Fin 3 * (\<phi> - Fin \<phi>0)) * Cos (Fin 3 * (\<phi> + Fin \<phi>0))
     in Fin (airy_b * F0) * (Ma - Mb + Mc - Md))"

text \<open>
  The loop \<open>for { ... if math.Abs(N-N0-M) < 0.00001 { break } }\<close> of
  \<open>OsGridRef.ToLatLon\<close>, which has no bound on its iterations: \<open>None\<close> is the loop that
  never reaches its \<open>break\<close>. The result is the latitude \<open>\<phi>\<close> at the \<open>break\<close>.
\<close>

partial_function (option) latlon_loop :: "float64 \<Rightarrow> float64 \<Rightarrow> float64 \<Rightarrow> float64 option" where
  "latlon_loop N \<phi> M =
    (let \<phi>' = (N - Fin N0 - M) / Fin (airy_a * F0) + \<phi>;
         M' = meridional_arc \<phi>'
     in if abs (N - Fin N0 - M') < Fin 0.00001 then Some \<phi>' else latlon_loop N \<phi>' M')"

text \<open>
  The same loop stopped after at most \<open>k\<close> executions of its body: \<open>Some \<phi>\<close> when the
  \<open>break\<close> is reached within them.
\<close>

fun latlon_loop_upto :: "nat \<Rightarrow> float64 \<Rightarrow> float64 \<Rightarrow> float64 \<Rightarrow> float64 option" where
  "latlon_loop_upto 0 N \<phi> M = None"
| "latlon_loop_upto (Suc k) N \<phi> M =
    (let \<phi>' = (N - Fin N0 - M) / Fin (airy_a * F0) + \<phi>;
         M' = meridional_arc \<phi>'
     in if abs (N - Fin N0 - M') < Fin 0.00001 then Some \<phi>' else latlon_loop_upto k N \<phi>' M')"

text \<open>
  \<open>func (o OsGridRef) ToLatLon() (float64, float64)\<close>. The function has no error
  result and does not call \<open>assertValid\<close>; it returns when its loop does.
\<close>

definition OsGridRef_ToLatLon :: "OsGridRef \<Rightarrow> (float64 \<times> float64) option" where
  "OsGridRef_ToLatLon o' =
    (let E = Fin (of_int (Easting o'));
         N = Fin (of_int (Northing o'))
     in case latlon_loop N (Fin \<phi>0) (Fin 0) of
          None \<Rightarrow> None
        | Some \<phi> \<Rightarrow>
           (let cos\<phi> = Cos \<phi>;
                sin\<phi> = Sin \<phi>;
                \<nu> = Fin (airy_a * F0) / Sqrt (Fin 1 - Fin e2 * sin\<phi> * sin\<phi>);
                \<rho> = Fin (airy_a * F0 * (1 - e2)) / Pow_1_5 (Fin 1 - Fin e2 * sin\<phi> * sin\<phi>);
                \<eta>2 = \<nu> / \<rho> - Fin 1;
                tan\<phi> = Tan \<phi>;
                tan2\<phi> = tan\<phi> * tan\<phi>;
                tan4\<phi> = tan2\<phi> * tan2\<phi>;
                tan6\<phi> = tan4\<phi> * tan2\<phi>;
                sec\<phi> = Fin 1 / cos\<phi>;
                \<nu>3 = \<nu> * \<nu> * \<nu>;
                \<nu>5 = \<nu>3 * \<nu> * \<nu>;
                \<nu>7 = \<nu>5 * \<nu> * \<nu>;
                VII = tan\<phi> / (Fin 2 * \<rho> * \<nu>);
                VIII = tan\<phi> / (Fin 24 * \<rho> * \<nu>3) * (Fin 5 + Fin 3 * tan2\<phi> + \<eta>2 - Fin 9 * tan2\<phi> * \<eta>2);
                IX = tan\<phi> / (Fin 720 * \<rho> * \<nu>5) * (Fin 61 + Fin 90 * tan2\<phi> + Fin 45 * tan4\<phi>);
                X' = sec\<phi> / \<nu>;
                XI = sec\<phi> / (Fin 6 * \<nu>3) * (\<nu> / \<rho> + Fin 2 * tan2\<phi>);
                XII = sec\<phi> / (Fin 120 * \<nu>5) * (Fin 5 + Fin 28 * tan2\<phi> + Fin 24 * tan4\<phi>);
                XIIA = sec\<phi> / (Fin 5040 * \<nu>7)
                         * (Fin 61 + Fin 662 * tan2\<phi> + Fin 1320 * tan4\<phi> + Fin 720 * tan6\<phi>);
                dE = E - Fin E0;
                dE2 = dE * dE;
                dE3 = dE2 * dE;
                dE4 = dE2 * dE2;
                dE5 = dE3 * dE2;
                dE6 = dE4 * dE2;
                dE7 = dE5 * dE2;
                \<phi>'' = \<phi> - VII * dE2 + VIII * dE4 - IX * dE6;
                lam = Fin lambda0 + X' * dE - XI * dE3 + XII * dE5 - XIIA * dE7
            in Some (osgb36ToWGS84 (\<phi>'' * Fin toDegrees) (lam * Fin toDegrees))))"

section \<open>The meridional arc over the reals\<close>

text \<open>
  On finite values \<open>meridional_arc\<close> is the real function \<open>arc_real\<close>, with the
  coefficients \<open>arc_c1\<close>, \<open>arc_c2\<close>, \<open>arc_c3\<close> and \<open>n3\<close> that the truncated quotients
  leave; \<open>arc_deriv\<close> is its derivative. \<open>contraction\<close> bounds the factor by which one
  execution of the loop body shrinks the residual \<open>N - N0 - M\<close>.
\<close>

definition arc_c1 :: real where "arc_c1 = 1 + airy_n + n2 + n3"
definition arc_c2 :: real where "arc_c2 = 3 * airy_n + 3 * airy_n * airy_n + 2 * n3"
definition arc_c3 :: real where "arc_c3 = n2 + n3"

definition arc_real :: "real \<Rightarrow> real" where
  "arc_real \<phi> = airy_b * F0 *
     (arc_c1 * (\<phi> - \<phi>0) - arc_c2 * sin (\<phi> - \<phi>0) * cos (\<phi> + \<phi>0)
      + arc_c3 * sin (2 * (\<phi> - \<phi>0)) * cos (2 * (\<phi> + \<phi>0))
      - n3 * sin (3 * (\<phi> - \<phi>0)) * cos (3 * (\<phi> + \<phi>0)))"

definition arc_deriv :: "real \<Rightarrow> real" where
  "arc_deriv \<phi> = airy_b * F0 *
     (arc_c1 - arc_c2 * cos (2 * \<phi>) + 2 * arc_c3 * cos (4 * \<phi>) - 3 * n3 * cos (6 * \<phi>))"

definition contraction :: real where "contraction = 67 / 10000"

section \<open>Enclosures\<close>

text \<open>
  The tools for bounding a computed value: \<open>fin_in x l u\<close> says that the float \<open>x\<close> is
  finite and lies in \<open>[l, u]\<close>. \<open>sin_poly\<close> is the Taylor polynomial of the sine of degree
  15, \<open>sin_nest\<close> its nested form, \<open>sin_lo\<close> and \<open>sin_hi\<close> enclose the sine;
  \<open>atn_lo\<close> and \<open>atn_hi\<close> enclose the arc tangent, and \<open>pi_lo\<close>, \<open>pi_hi\<close> enclose \<open>\<pi>\<close>.
\<close>

definition sin_poly :: "real \<Rightarrow> real" where
  "sin_poly x = x - x^3 / 6 + x^5 / 120 - x^7 / 5040 + x^9 / 362880 - x^11 / 39916800
     + x^13 / 6227020800 - x^15 / 1307674368000"

definition atn_lo :: "real \<Rightarrow> real" where
  "atn_lo x = x - x^3 / 3 + x^5 / 5 - x^7 / 7 + x^9 / 9 - x^11 / 11 + x^13 / 13 - x^15 / 15"

definition atn_hi :: "real \<Rightarrow> real" where
  "atn_hi x = atn_lo x + x^17 / 17"

definition pi_lo :: real where "pi_lo = 3.1415926535886"
definition pi_hi :: real where "pi_hi = 3.1415926535899"

definition fin_in :: "float64 \<Rightarrow> real \<Rightarrow> real \<Rightarrow> bool" where
  "fin_in x l u = (\<exists>r. x = Fin r \<and> l \<le> r \<and> r \<le> u)"

definition sin_lo :: "real \<Rightarrow> real" where
  "sin_lo a = sin_poly a - \<bar>a\<bar> ^ 17 / 355687428096000"

definition sin_hi :: "real \<Rightarrow> real" where
  "sin_hi a = sin_poly a + \<bar>a\<bar> ^ 17 / 355687428096000"

definition sin_nest :: "real \<Rightarrow> real" where
  "sin_nest t = 1 - t * (1 / 6 - t * (1 / 120 - t * (1 / 5040 - t * (1 / 362880
      - t * (1 / 39916800 - t * (1 / 6227020800 - t * (1 / 1307674368000)))))))"

section \<open>Lemmas\<close>

subsection \<open>The datum table\<close>

lemma WGS84_eq: "WGS84 = \<lparr>Name = ''WGS84'',
   Ellipsoid = \<lparr>ell_a = Fin 6378137, ell_b = Fin 6356752.314245, ell_f = Fin (1 / 298.257223563)\<rparr>,
   Transform = [Fin 0, Fin 0, Fin 0, Fin 0, Fin 0, Fin 0, Fin 0]\<rparr>"
  by (simp add: WGS84_def Datums_def map_index_def ellipsoids_def)

lemma OSGB36_eq: "OSGB36 = \<lparr>Name = ''OSGB36'',
   Ellipsoid = \<lparr>ell_a = Fin 6377563.396, ell_b = Fin 6356256.909, ell_f = Fin (1 / 299.3249646)\<rparr>,
   Transform = [Fin (- 446.448), Fin 125.157, Fin (- 542.060), Fin 20.4894, Fin (- 0.1502),
     Fin (- 0.2470), Fin (- 0.8421)]\<rparr>"
  by (simp add: OSGB36_def Datums_def map_index_def ellipsoids_def)

subsection \<open>The datum of a converted point\<close>

lemma ToCartesian_Datum: "Datum (ToCartesian l) = LatLonEllipsoidalDatum.Datum l"
  unfolding ToCartesian_def
  apply (subst Let_def)+
  apply (rule Cartesian.select_convs)
  done

lemma Cartesian_ToLatLon_Datum: "LatLonEllipsoidalDatum.Datum (Cartesian_ToLatLon c) = Datum c"
  unfolding Cartesian_ToLatLon_def
  apply (subst Let_def)+
  apply (rule LatLonEllipsoidalDatum.select_convs)
  done

subsection \<open>The meridional arc and its derivative\<close>

lemma meridional_arc_Fin: "meridional_arc (Fin \<phi>) = Fin (arc_real \<phi>)"
  by (simp add: meridional_arc_def arc_real_def arc_c1_def arc_c2_def arc_c3_def
      minus_float64_def Let_def)

lemma arc_real_origin: "arc_real \<phi>0 = 0"
  by (simp add: arc_real_def)

lemma arc_real_deriv: "(arc_real has_real_derivative arc_deriv \<phi>) (at \<phi>)"
proof -
  have k: "cos (k * (\<phi> - \<phi>0)) * cos (k * (\<phi> + \<phi>0)) - sin (k * (\<phi> - \<phi>0)) * sin (k * (\<phi> + \<phi>0))
      = cos (2 * k * \<phi>)" for k :: real
    by (simp add: cos_add [symmetric] algebra_simps)
  show ?thesis
    unfolding arc_real_def arc_deriv_def
    apply (rule derivative_eq_intros refl | simp)+
    using k[of 1] k[of 2] k[of 3]
    apply (simp add: algebra_simps)
    done
qed

lemma scaled_cos: "0 \<le> c \<Longrightarrow> - c \<le> c * cos (x::real) \<and> c * cos x \<le> c"
  using mult_left_mono[of "cos x" 1 c] mult_left_mono[of "-1" "cos x" c] by simp

lemma arc_consts_pos: "0 \<le> arc_c2" "0 \<le> 2 * arc_c3" "0 \<le> 3 * n3"
  by (simp_all add: arc_c2_def arc_c3_def n2_def n3_def airy_n_def airy_a_def airy_b_def)

lemma arc_upper: "airy_b * (arc_c1 + arc_c2 + 2 * arc_c3 + 3 * n3) \<le> (1 + contraction) * airy_a"
  by (simp add: arc_c1_def arc_c2_def arc_c3_def n2_def n3_def airy_n_def airy_a_def airy_b_def
      contraction_def)

lemma arc_lower: "(1 - contraction) * airy_a \<le> airy_b * (arc_c1 - arc_c2 - 2 * arc_c3 - 3 * n3)"
  by (simp add: arc_c1_def arc_c2_def arc_c3_def n2_def n3_def airy_n_def airy_a_def airy_b_def
      contraction_def)

lemma arc_deriv_bound: "\<bar>airy_a * F0 - arc_deriv \<phi>\<bar> \<le> contraction * (airy_a * F0)"
proof -
  define B where
    "B = arc_c1 - arc_c2 * cos (2 * \<phi>) + 2 * arc_c3 * cos (4 * \<phi>) - 3 * n3 * cos (6 * \<phi>)"
  have F: "0 < F0" by (simp add: F0_def)
  have b: "0 < airy_b" by (simp add: airy_b_def)
  have "B \<le> arc_c1 + arc_c2 + 2 * arc_c3 + 3 * n3" "arc_c1 - arc_c2 - 2 * arc_c3 - 3 * n3 \<le> B"
    using scaled_cos[OF arc_consts_pos(1), of "2 * \<phi>"] scaled_cos[OF arc_consts_pos(2), of "4 * \<phi>"]
      scaled_cos[OF arc_consts_pos(3), of "6 * \<phi>"]
    by (simp_all add: B_def)
  then have "airy_b * B \<le> airy_b * (arc_c1 + arc_c2 + 2 * arc_c3 + 3 * n3)"
    "airy_b * (arc_c1 - arc_c2 - 2 * arc_c3 - 3 * n3) \<le> airy_b * B"
    using b by simp_all
  with arc_upper arc_lower have "\<bar>airy_a - airy_b * B\<bar> \<le> contraction * airy_a"
    by (simp add: algebra_simps abs_le_iff)
  then have le: "F0 * \<bar>airy_a - airy_b * B\<bar> \<le> F0 * (contraction * airy_a)"
    using F by (rule_tac mult_left_mono) simp_all
  have "airy_a * F0 - arc_deriv \<phi> = F0 * (airy_a - airy_b * B)"
    by (simp add: arc_deriv_def B_def algebra_simps)
  then have "\<bar>airy_a * F0 - arc_deriv \<phi>\<bar> = F0 * \<bar>airy_a - airy_b * B\<bar>"
    using F by (simp only: abs_mult abs_of_pos)
  also note le
  also have "F0 * (contraction * airy_a) = contraction * (airy_a * F0)"
    by (simp only: mult.commute mult.left_commute)
  finally show ?thesis .
qed

text \<open>The map \<open>\<phi> \<mapsto> a F0 \<phi> - M \<phi>\<close> is Lipschitz with constant \<open>contraction \<cdot> a F0\<close>.\<close>

lemma arc_gap_lipschitz:
  "\<bar>(airy_a * F0 * y - arc_real y) - (airy_a * F0 * x - arc_real x)\<bar>
     \<le> contraction * (airy_a * F0) * \<bar>y - x\<bar>"
proof -
  define g where "g = (\<lambda>z. airy_a * F0 * z - arc_real z)"
  have d: "(g has_real_derivative (airy_a * F0 - arc_deriv z)) (at z)" for z
    unfolding g_def by (rule derivative_eq_intros arc_real_deriv refl | simp)+
  have lt: "\<bar>g v - g u\<bar> \<le> contraction * (airy_a * F0) * \<bar>v - u\<bar>" if "u < v" for u v
  proof -
    note uv = that
    obtain z where "g v - g u = (v - u) * (airy_a * F0 - arc_deriv z)"
      using MVT2[OF uv, of g "\<lambda>z. airy_a * F0 - arc_deriv z"] d by blast
    then have "\<bar>g v - g u\<bar> = \<bar>v - u\<bar> * \<bar>airy_a * F0 - arc_deriv z\<bar>"
      by (simp add: abs_mult)
    also have "\<dots> \<le> \<bar>v - u\<bar> * (contraction * (airy_a * F0))"
      by (rule mult_left_mono[OF arc_deriv_bound]) simp
    finally show ?thesis by (simp add: mult.commute)
  qed
  consider "x < y" | "x = y" | "y < x" by linarith
  then have "\<bar>g y - g x\<bar> \<le> contraction * (airy_a * F0) * \<bar>y - x\<bar>"
  proof cases
    case 1
    then show ?thesis by (rule lt)
  next
    case 2
    then show ?thesis by simp
  next
    case 3
    from lt[OF 3] show ?thesis by (simp add: abs_minus_commute)
  qed
  then show ?thesis by (simp add: g_def)
qed

text \<open>One execution of the loop body shrinks the residual by the factor \<open>contraction\<close>.\<close>

lemma arc_step_contracts:
  assumes "\<phi>' = (D - arc_real \<phi>) / (airy_a * F0) + \<phi>"
  shows "\<bar>D - arc_real \<phi>'\<bar> \<le> contraction * \<bar>D - arc_real \<phi>\<bar>"
proof -
  define K where "K = airy_a * F0"
  have K: "0 < K" by (simp add: K_def airy_a_def F0_def)
  have p: "\<phi>' = (D - arc_real \<phi>) / K + \<phi>" by (simp add: assms K_def)
  have e: "K * \<phi>' = D - arc_real \<phi> + K * \<phi>"
    using K by (simp add: p field_simps)
  have "D - arc_real \<phi>' = (K * \<phi>' - arc_real \<phi>') - (K * \<phi> - arc_real \<phi>)"
    using e by simp
  then have "\<bar>D - arc_real \<phi>'\<bar> \<le> contraction * K * \<bar>\<phi>' - \<phi>\<bar>"
    using arc_gap_lipschitz[of \<phi>' \<phi>] by (simp add: K_def)
  also have "\<bar>\<phi>' - \<phi>\<bar> = \<bar>D - arc_real \<phi>\<bar> / K"
    using K by (simp add: p)
  finally show ?thesis using K by simp
qed

subsection \<open>The loop\<close>

lemma loop_body_Fin:
  "(Fin N - Fin N0 - Fin M) / Fin (airy_a * F0) + Fin \<phi> = Fin ((N - N0 - M) / (airy_a * F0) + \<phi>)"
  by (simp add: minus_float64_def airy_a_def F0_def)

lemma loop_test_Fin:
  "(abs (Fin N - Fin N0 - Fin M) < Fin t) = (\<bar>N - N0 - M\<bar> < t)"
  by (simp add: minus_float64_def)

lemma latlon_loop_upto_converges:
  "0 < k \<Longrightarrow> \<bar>N - N0 - arc_real \<phi>\<bar> * contraction ^ k < 0.00001 \<Longrightarrow>
   \<exists>\<phi>'. latlon_loop_upto k (Fin N) (Fin \<phi>) (Fin (arc_real \<phi>)) = Some (Fin \<phi>')
        \<and> \<bar>N - N0 - arc_real \<phi>'\<bar> < 0.00001"
proof (induction k arbitrary: \<phi>)
  case 0
  then show ?case by simp
next
  case (Suc k)
  define \<phi>1 where "\<phi>1 = (N - N0 - arc_real \<phi>) / (airy_a * F0) + \<phi>"
  have step: "\<bar>N - N0 - arc_real \<phi>1\<bar> \<le> contraction * \<bar>N - N0 - arc_real \<phi>\<bar>"
    using arc_step_contracts[of \<phi>1 "N - N0" \<phi>] by (simp add: \<phi>1_def)
  have unf: "latlon_loop_upto (Suc k) (Fin N) (Fin \<phi>) (Fin (arc_real \<phi>)) =
       (if \<bar>N - N0 - arc_real \<phi>1\<bar> < 0.00001 then Some (Fin \<phi>1)
        else latlon_loop_upto k (Fin N) (Fin \<phi>1) (Fin (arc_real \<phi>1)))"
    by (simp add: loop_body_Fin meridional_arc_Fin loop_test_Fin \<phi>1_def Let_def)
  show ?case
  proof (cases "\<bar>N - N0 - arc_real \<phi>1\<bar> < 0.00001")
    case True
    then show ?thesis unfolding unf by auto
  next
    case False
    have c0: "0 \<le> contraction ^ k" by (simp add: contraction_def)
    have "\<bar>N - N0 - arc_real \<phi>1\<bar> * contraction ^ k
        \<le> (contraction * \<bar>N - N0 - arc_real \<phi>\<bar>) * contraction ^ k"
      by (rule mult_right_mono[OF step c0])
    also have "\<dots> = \<bar>N - N0 - arc_real \<phi>\<bar> * contraction ^ Suc k" by simp
    finally have small: "\<bar>N - N0 - arc_real \<phi>1\<bar> * contraction ^ k < 0.00001"
      using Suc.prems(2) by linarith
    have "0 < k"
    proof (rule ccontr)
      assume "\<not> 0 < k"
      then have "k = 0" by simp
      with small False show False by simp
    qed
    from Suc.IH[OF this small] False show ?thesis unfolding unf by simp
  qed
qed

lemma latlon_loop_upto_imp_loop:
  "latlon_loop_upto k N \<phi> M = Some r \<Longrightarrow> latlon_loop N \<phi> M = Some r"
proof (induction k arbitrary: \<phi> M)
  case 0
  then show ?case by simp
next
  case (Suc k)
  show ?case
    apply (subst latlon_loop.simps)
    using Suc.prems Suc.IH
    apply (auto simp: Let_def split: if_splits)
    done
qed

lemma contraction_pow_small: "0 < (e::real) \<Longrightarrow> \<exists>k>0. d * contraction ^ k < e"
proof (cases "d \<le> 0")
  case True
  assume e: "0 < e"
  have "d * contraction ^ 1 \<le> 0"
    using True by (simp add: contraction_def mult_le_0_iff)
  with e show ?thesis by (intro exI[of _ 1]) simp
next
  case False
  assume e: "0 < e"
  from False have d: "0 < d" by simp
  obtain n where n: "contraction ^ n < e / d"
    using real_arch_pow_inv[of "e / d" contraction] e d by (auto simp: contraction_def)
  have "contraction ^ Suc n \<le> contraction ^ n"
    by (simp add: contraction_def mult_left_le_one_le)
  with n have "contraction ^ Suc n < e / d" by linarith
  then have "d * contraction ^ Suc n < e"
    using d by (simp add: field_simps)
  then show ?thesis by blast
qed

text \<open>The loop reaches its \<open>break\<close> for every northing, inside the grid or not.\<close>

lemma latlon_loop_returns:
  "\<exists>\<phi>. latlon_loop (Fin N) (Fin \<phi>0) (Fin 0) = Some (Fin \<phi>)"
proof -
  obtain k where k: "0 < k" "\<bar>N - N0 - arc_real \<phi>0\<bar> * contraction ^ k < 0.00001"
    using contraction_pow_small[of "0.00001" "\<bar>N - N0 - arc_real \<phi>0\<bar>"] by auto
  from latlon_loop_upto_converges[OF k] obtain \<phi>' where
    "latlon_loop_upto k (Fin N) (Fin \<phi>0) (Fin 0) = Some (Fin \<phi>')"
    by (auto simp: arc_real_origin)
  then show ?thesis by (blast dest: latlon_loop_upto_imp_loop)
qed

lemma OsGridRef_ToLatLon_returns: "\<exists>lat lon. OsGridRef_ToLatLon g = Some (lat, lon)"
proof -
  obtain \<phi> where "latlon_loop (Fin (of_int (Northing g))) (Fin \<phi>0) (Fin 0) = Some (Fin \<phi>)"
    using latlon_loop_returns by blast
  then have "OsGridRef_ToLatLon g \<noteq> None"
    unfolding OsGridRef_ToLatLon_def
    apply (subst Let_def)
    apply (subst Let_def)
    apply (simp only: option.case)
    apply (subst Let_def)+
    apply (rule option.distinct)
    done
  then show ?thesis by (cases "OsGridRef_ToLatLon g") auto
qed

subsection \<open>Enclosures of the elementary functions\<close>

lemma sum_upto_17: "(\<Sum>m<(17::nat). g m) = g 0 + g 1 + g 2 + g 3 + g 4 + g 5 + g 6 + g 7 + g 8 + g 9
    + g 10 + g 11 + g 12 + g 13 + g 14 + g 15 + (g 16 :: real)"
  by (simp add: eval_nat_numeral lessThan_Suc)

lemma sin_poly_sum: "(\<Sum>m<17. sin_coeff m * x ^ m) = sin_poly x"
  unfolding sum_upto_17 by (simp add: sin_poly_def sin_coeff_def fact_numeral)

lemma fact_17: "fact 17 = (355687428096000::real)"
  by (simp add: fact_numeral)

lemma sin_poly_bound: "\<bar>sin x - sin_poly x\<bar> \<le> \<bar>x\<bar> ^ 17 / 355687428096000"
proof -
  have "\<bar>sin x - sin_poly x\<bar> \<le> inverse 355687428096000 * \<bar>x\<bar> ^ 17"
    using Maclaurin_sin_bound[of x 17] unfolding sin_poly_sum fact_17 .
  then show ?thesis by (simp only: divide_inverse mult.commute)
qed

lemma geometric_16: "(1 + t\<^sup>2) * (1 - t^2 + t^4 - t^6 + t^8 - t^10 + t^12 - t^14) = 1 - (t::real)^16"
  by (simp add: algebra_simps power2_eq_square eval_nat_numeral)

lemma arctan_lower: assumes "0 \<le> x" shows "atn_lo x \<le> arctan x"
proof -
  define f where "f = (\<lambda>t. arctan t - atn_lo t)"
  have d: "(f has_real_derivative (inverse (1 + t\<^sup>2) - (1 - t^2 + t^4 - t^6 + t^8 - t^10 + t^12 - t^14))) (at t)" for t
    unfolding f_def atn_lo_def
    by (rule derivative_eq_intros refl | simp)+
  have nn: "0 \<le> inverse (1 + t\<^sup>2) - (1 - t^2 + t^4 - t^6 + t^8 - t^10 + t^12 - t^14)" for t :: real
  proof -
    have p: "0 < 1 + t\<^sup>2" by (simp add: add_pos_nonneg)
    have "inverse (1 + t\<^sup>2) - (1 - t^2 + t^4 - t^6 + t^8 - t^10 + t^12 - t^14)
        = (1 - (1 + t\<^sup>2) * (1 - t^2 + t^4 - t^6 + t^8 - t^10 + t^12 - t^14)) / (1 + t\<^sup>2)"
      using p by (simp add: field_simps)
    also have "\<dots> = t^16 / (1 + t\<^sup>2)" unfolding geometric_16 by simp
    also have "\<dots> \<ge> 0" using p by simp
    finally show ?thesis .
  qed
  have "f 0 \<le> f x"
    by (rule DERIV_nonneg_imp_nondecreasing[OF assms]) (use d nn in blast)
  then show ?thesis by (simp add: f_def atn_lo_def)
qed

lemma arctan_upper: assumes "0 \<le> x" shows "arctan x \<le> atn_hi x"
proof -
  define f where "f = (\<lambda>t. atn_hi t - arctan t)"
  have d: "(f has_real_derivative ((1 - t^2 + t^4 - t^6 + t^8 - t^10 + t^12 - t^14 + t^16) - inverse (1 + t\<^sup>2))) (at t)" for t
    unfolding f_def atn_hi_def atn_lo_def
    by (rule derivative_eq_intros refl | simp)+
  have nn: "0 \<le> (1 - t^2 + t^4 - t^6 + t^8 - t^10 + t^12 - t^14 + t^16) - inverse (1 + t\<^sup>2)" for t :: real
  proof -
    have p: "0 < 1 + t\<^sup>2" by (simp add: add_pos_nonneg)
    have "(1 - t^2 + t^4 - t^6 + t^8 - t^10 + t^12 - t^14 + t^16) - inverse (1 + t\<^sup>2)
        = ((1 + t\<^sup>2) * (1 - t^2 + t^4 - t^6 + t^8 - t^10 + t^12 - t^14) + (1 + t\<^sup>2) * t^16 - 1) / (1 + t\<^sup>2)"
      using p by (simp add: field_simps)
    also have "\<dots> = t^18 / (1 + t\<^sup>2)" unfolding geometric_16 by (simp add: algebra_simps power2_eq_square eval_nat_numeral)
    also have "\<dots> \<ge> 0" using p by simp
    finally show ?thesis .
  qed
  have "f 0 \<le> f x"
    by (rule DERIV_nonneg_imp_nondecreasing[OF assms]) (use d nn in blast)
  then show ?thesis by (simp add: f_def atn_hi_def atn_lo_def)
qed

lemma pi_bounds: "pi_lo \<le> pi" "pi \<le> pi_hi"
proof -
  have m: "pi = 16 * arctan (1 / 5) - 4 * arctan (1 / 239)"
    using machin by simp
  have "16 * atn_lo (1 / 5) - 4 * atn_hi (1 / 239) \<le> pi"
    unfolding m using arctan_lower[of "1 / 5"] arctan_upper[of "1 / 239"] by simp
  moreover have "pi_lo \<le> 16 * atn_lo (1 / 5) - 4 * atn_hi (1 / 239)"
    by (simp add: pi_lo_def atn_lo_def atn_hi_def power_divide)
  ultimately show "pi_lo \<le> pi" by linarith
  have "pi \<le> 16 * atn_hi (1 / 5) - 4 * atn_lo (1 / 239)"
    unfolding m using arctan_upper[of "1 / 5"] arctan_lower[of "1 / 239"] by simp
  moreover have "16 * atn_hi (1 / 5) - 4 * atn_lo (1 / 239) \<le> pi_hi"
    by (simp add: pi_hi_def atn_lo_def atn_hi_def power_divide)
  ultimately show "pi \<le> pi_hi" by linarith
qed

lemma fin_in_Fin: "l \<le> r \<Longrightarrow> r \<le> u \<Longrightarrow> fin_in (Fin r) l u"
  by (simp add: fin_in_def)

lemma fin_in_weaken: "fin_in x l1 u1 \<Longrightarrow> l \<le> l1 \<Longrightarrow> u1 \<le> u \<Longrightarrow> fin_in x l u"
  by (auto simp: fin_in_def)

lemma fin_in_add:
  "fin_in x l1 u1 \<Longrightarrow> fin_in y l2 u2 \<Longrightarrow> l \<le> l1 + l2 \<Longrightarrow> u1 + u2 \<le> u \<Longrightarrow> fin_in (x + y) l u"
  by (auto simp: fin_in_def)

lemma fin_in_sub:
  "fin_in x l1 u1 \<Longrightarrow> fin_in y l2 u2 \<Longrightarrow> l \<le> l1 - u2 \<Longrightarrow> u1 - l2 \<le> u \<Longrightarrow> fin_in (x - y) l u"
  by (auto simp: fin_in_def minus_float64_def)

lemma mult_corners:
  fixes x y :: real
  assumes "l1 \<le> x" "x \<le> u1" "l2 \<le> y" "y \<le> u2"
  shows "min (min (l1 * l2) (l1 * u2)) (min (u1 * l2) (u1 * u2)) \<le> x * y"
    and "x * y \<le> max (max (l1 * l2) (l1 * u2)) (max (u1 * l2) (u1 * u2))"
proof -
  have a: "min (l1 * y) (u1 * y) \<le> x * y \<and> x * y \<le> max (l1 * y) (u1 * y)"
  proof (cases "0 \<le> y")
    case True
    then have "l1 * y \<le> x * y" "x * y \<le> u1 * y"
      using assms by (simp_all add: mult_right_mono)
    then show ?thesis by linarith
  next
    case False
    then have "u1 * y \<le> x * y" "x * y \<le> l1 * y"
      using assms by (simp_all add: mult_right_mono_neg)
    then show ?thesis by linarith
  qed
  have b: "min (c * l2) (c * u2) \<le> c * y \<and> c * y \<le> max (c * l2) (c * u2)" for c
  proof (cases "0 \<le> c")
    case True
    then have "c * l2 \<le> c * y" "c * y \<le> c * u2"
      using assms by (simp_all add: mult_left_mono)
    then show ?thesis by linarith
  next
    case False
    then have "c * u2 \<le> c * y" "c * y \<le> c * l2"
      using assms by (simp_all add: mult_left_mono_neg)
    then show ?thesis by linarith
  qed
  from a b[of l1] b[of u1]
  show "min (min (l1 * l2) (l1 * u2)) (min (u1 * l2) (u1 * u2)) \<le> x * y"
    and "x * y \<le> max (max (l1 * l2) (l1 * u2)) (max (u1 * l2) (u1 * u2))"
    by linarith+
qed

lemma fin_in_mul:
  assumes "fin_in x l1 u1" "fin_in y l2 u2"
    and "l \<le> l1 * l2" "l \<le> l1 * u2" "l \<le> u1 * l2" "l \<le> u1 * u2"
    and "l1 * l2 \<le> u" "l1 * u2 \<le> u" "u1 * l2 \<le> u" "u1 * u2 \<le> u"
  shows "fin_in (x * y) l u"
proof -
  obtain r s where r: "x = Fin r" "l1 \<le> r" "r \<le> u1" and s: "y = Fin s" "l2 \<le> s" "s \<le> u2"
    using assms(1,2) by (auto simp: fin_in_def)
  from mult_corners[OF r(2,3) s(2,3)] assms(3-10)
  have "l \<le> r * s" "r * s \<le> u" by linarith+
  then show ?thesis by (simp add: fin_in_def r s)
qed

lemma fin_in_div:
  assumes "fin_in x l1 u1" "fin_in y l2 u2" "0 < l2"
    and "l * l2 \<le> l1" "l * u2 \<le> l1" "u1 \<le> u * l2" "u1 \<le> u * u2"
  shows "fin_in (x / y) l u"
proof -
  obtain r s where r: "x = Fin r" "l1 \<le> r" "r \<le> u1" and s: "y = Fin s" "l2 \<le> s" "s \<le> u2"
    using assms(1,2) by (auto simp: fin_in_def)
  have sp: "0 < s" using s assms(3) by linarith
  have "l * s \<le> r"
  proof (cases "0 \<le> l")
    case True
    then have "l * s \<le> l * u2" using s by (simp add: mult_left_mono)
    with assms r show ?thesis by linarith
  next
    case False
    then have "l * s \<le> l * l2" using s by (simp add: mult_left_mono_neg)
    with assms r show ?thesis by linarith
  qed
  moreover have "r \<le> u * s"
  proof (cases "0 \<le> u")
    case True
    then have "u * l2 \<le> u * s" using s by (simp add: mult_left_mono)
    with assms r show ?thesis by linarith
  next
    case False
    then have "u * u2 \<le> u * s" using s by (simp add: mult_left_mono_neg)
    with assms r show ?thesis by linarith
  qed
  ultimately have "l \<le> r / s" "r / s \<le> u"
    using sp by (simp_all add: field_simps)
  then show ?thesis using sp by (simp add: fin_in_def r s)
qed

lemma fin_in_Sqrt:
  assumes "fin_in x l1 u1" "0 \<le> l" "l * l \<le> l1" "0 \<le> u" "u1 \<le> u * u"
  shows "fin_in (Sqrt x) l u"
proof -
  obtain r where r: "x = Fin r" "l1 \<le> r" "r \<le> u1"
    using assms(1) by (auto simp: fin_in_def)
  have r0: "0 \<le> r" using r assms(2,3) by (smt (verit) mult_nonneg_nonneg)
  have "l \<le> sqrt r"
    using assms(2,3) r by (intro real_le_rsqrt) (simp add: power2_eq_square)
  moreover have "sqrt r \<le> u"
    using assms(4,5) r by (intro real_le_lsqrt) (simp_all add: power2_eq_square r0)
  ultimately show ?thesis using r0 by (simp add: fin_in_def r)
qed

lemma half_pi_gt: "157 / 100 < pi / 2"
  using pi_bounds(1) by (simp add: pi_lo_def)

lemma sin_enclosure:
  assumes "a \<le> r" "r \<le> b" "- (157 / 100) \<le> a" "b \<le> 157 / 100"
  shows "sin_lo a \<le> sin r" "sin r \<le> sin_hi b"
proof -
  have "sin a \<le> sin r" "sin r \<le> sin b"
    using assms half_pi_gt by (auto intro!: sin_monotone_2pi_le)
  moreover have "sin_lo a \<le> sin a" "sin b \<le> sin_hi b"
    unfolding sin_lo_def sin_hi_def using sin_poly_bound[of a] sin_poly_bound[of b] by linarith+
  ultimately show "sin_lo a \<le> sin r" "sin r \<le> sin_hi b" by linarith+
qed

lemma fin_in_Sin:
  assumes "fin_in x l1 u1" "- (157 / 100) \<le> l1" "u1 \<le> 157 / 100" "l \<le> sin_lo l1" "sin_hi u1 \<le> u"
  shows "fin_in (Sin x) l u"
proof -
  obtain r where r: "x = Fin r" "l1 \<le> r" "r \<le> u1"
    using assms(1) by (auto simp: fin_in_def)
  from sin_enclosure[OF r(2,3) assms(2,3)] assms(4,5) show ?thesis
    by (simp add: fin_in_def r)
qed

text \<open>cos r = sin (r + pi/2)\<close>
lemma fin_in_Cos_a:
  assumes "fin_in x l1 u1" "a \<le> l1 + pi_lo / 2" "u1 + pi_hi / 2 \<le> b"
    "- (157 / 100) \<le> a" "b \<le> 157 / 100" "l \<le> sin_lo a" "sin_hi b \<le> u"
  shows "fin_in (Cos x) l u"
proof -
  obtain r where r: "x = Fin r" "l1 \<le> r" "r \<le> u1"
    using assms(1) by (auto simp: fin_in_def)
  have "a \<le> r + pi / 2" "r + pi / 2 \<le> b"
    using r assms(2,3) pi_bounds by linarith+
  from sin_enclosure[OF this assms(4,5)] assms(6,7) show ?thesis
    by (simp add: fin_in_def r sin_add)
qed

text \<open>cos r = - sin (r - pi/2)\<close>
lemma fin_in_Cos_b:
  assumes "fin_in x l1 u1" "a \<le> l1 - pi_hi / 2" "u1 - pi_lo / 2 \<le> b"
    "- (157 / 100) \<le> a" "b \<le> 157 / 100" "sa \<le> sin_lo a" "sin_hi b \<le> sb"
    "l \<le> - sb" "- sa \<le> u"
  shows "fin_in (Cos x) l u"
proof -
  obtain r where r: "x = Fin r" "l1 \<le> r" "r \<le> u1"
    using assms(1) by (auto simp: fin_in_def)
  have "a \<le> r - pi / 2" "r - pi / 2 \<le> b"
    using r assms(2,3) pi_bounds by linarith+
  from sin_enclosure[OF this assms(4,5)] assms(6-9) show ?thesis
    by (simp add: fin_in_def r sin_diff)
qed

text \<open>cos r = sin (r - 3 pi/2)\<close>
lemma fin_in_Cos_c:
  assumes "fin_in x l1 u1" "a \<le> l1 - 3 * pi_hi / 2" "u1 - 3 * pi_lo / 2 \<le> b"
    "- (157 / 100) \<le> a" "b \<le> 157 / 100" "l \<le> sin_lo a" "sin_hi b \<le> u"
  shows "fin_in (Cos x) l u"
proof -
  obtain r where r: "x = Fin r" "l1 \<le> r" "r \<le> u1"
    using assms(1) by (auto simp: fin_in_def)
  have "a \<le> r - 3 * pi / 2" "r - 3 * pi / 2 \<le> b"
    using r assms(2,3) pi_bounds by linarith+
  from sin_enclosure[OF this assms(4,5)] assms(6,7)
  have "l \<le> sin (r - 3 * pi / 2)" "sin (r - 3 * pi / 2) \<le> u" by linarith+
  moreover have "sin (r - 3 * pi / 2) = cos r"
  proof -
    have "sin (r - 3 * pi / 2) = sin ((r + pi / 2) - 2 * pi)" by (simp add: algebra_simps)
    also have "\<dots> = sin (r + pi / 2)" by (simp only: sin_diff sin_two_pi cos_two_pi mult_1_right mult_zero_right diff_zero)
    also have "\<dots> = cos r" by (simp add: sin_add)
    finally show ?thesis .
  qed
  ultimately show ?thesis by (simp add: fin_in_def r)
qed

lemma fin_in_Tan:
  assumes "fin_in (Sin x) ls us" "fin_in (Cos x) lc uc" "0 < lc"
    and "l * lc \<le> ls" "l * uc \<le> ls" "us \<le> u * lc" "us \<le> u * uc"
  shows "fin_in (Tan x) l u"
proof -
  obtain r where r: "x = Fin r"
    using assms(1) by (cases x) (simp_all add: fin_in_def)
  from fin_in_div[OF assms] show ?thesis
    using assms(2,3) by (auto simp: r tan_def fin_in_def)
qed

lemma fin_in_Pow_1_5:
  assumes "fin_in x l1 u1" "0 \<le> sl" "sl * sl \<le> l1" "0 \<le> su" "u1 \<le> su * su"
    and "l \<le> l1 * sl" "u1 * su \<le> u"
  shows "fin_in (Pow_1_5 x) l u"
proof -
  obtain r where r: "x = Fin r" "l1 \<le> r" "r \<le> u1"
    using assms(1) by (auto simp: fin_in_def)
  have l10: "0 \<le> l1" using assms(2,3) by (smt (verit) mult_nonneg_nonneg)
  then have r0: "0 \<le> r" using r by linarith
  have s: "sl \<le> sqrt r" "sqrt r \<le> su"
    using assms(2-5) r r0 by (auto intro!: real_le_rsqrt real_le_lsqrt simp: power2_eq_square)
  have "r powr (3 / 2) = r * sqrt r"
  proof (cases "r = 0")
    case True then show ?thesis by simp
  next
    case False
    then have "0 < r" using r0 by simp
    then have "r powr (1 + 1 / 2) = r powr 1 * r powr (1 / 2)" by (simp only: powr_add)
    then show ?thesis using \<open>0 < r\<close> by (simp add: powr_half_sqrt)
  qed
  moreover have "l1 * sl \<le> r * sqrt r"
    using l10 assms(2) r s by (intro mult_mono) auto
  moreover have "r * sqrt r \<le> u1 * su"
    using r0 assms(4) r s by (intro mult_mono) auto
  ultimately show ?thesis using assms(6,7) r0 by (simp add: fin_in_def r)
qed

lemma sin_poly_nest: "sin_poly a = a * sin_nest (a * a)"
  by (simp add: sin_poly_def sin_nest_def algebra_simps power2_eq_square power3_eq_cube
      power_numeral_even power_numeral_odd)

lemma horner_step:
  fixes t :: real
  assumes "ta \<le> t" "t \<le> tb" "0 \<le> ta" "bl \<le> B" "B \<le> bu" "0 \<le> bl"
    and "l \<le> c - tb * bu" "c - ta * bl \<le> u"
  shows "l \<le> c - t * B \<and> c - t * B \<le> u"
proof -
  have "ta * bl \<le> t * B" using assms by (intro mult_mono) auto
  moreover have "t * B \<le> tb * bu" using assms by (intro mult_mono) auto
  ultimately show ?thesis using assms(7,8) by linarith
qed

lemma sin_nest_bounds:
  assumes t: "ta \<le> t" "t \<le> tb" "0 \<le> ta"
    and b6: "0 \<le> b6l" "b6l \<le> 1 / 6227020800 - tb * (1 / 1307674368000)"
            "1 / 6227020800 - ta * (1 / 1307674368000) \<le> b6u"
    and b5: "0 \<le> b5l" "b5l \<le> 1 / 39916800 - tb * b6u" "1 / 39916800 - ta * b6l \<le> b5u"
    and b4: "0 \<le> b4l" "b4l \<le> 1 / 362880 - tb * b5u" "1 / 362880 - ta * b5l \<le> b4u"
    and b3: "0 \<le> b3l" "b3l \<le> 1 / 5040 - tb * b4u" "1 / 5040 - ta * b4l \<le> b3u"
    and b2: "0 \<le> b2l" "b2l \<le> 1 / 120 - tb * b3u" "1 / 120 - ta * b3l \<le> b2u"
    and b1: "0 \<le> b1l" "b1l \<le> 1 / 6 - tb * b2u" "1 / 6 - ta * b2l \<le> b1u"
    and b0: "b0l \<le> 1 - tb * b1u" "1 - ta * b1l \<le> b0u"
  shows "b0l \<le> sin_nest t \<and> sin_nest t \<le> b0u"
proof -
  have c7: "(1 / 1307674368000 :: real) \<le> 1 / 1307674368000" "(0::real) \<le> 1 / 1307674368000" by simp_all
  note s6 = horner_step[OF t c7(1) c7(1) c7(2) b6(2,3)]
  note s5 = horner_step[OF t conjunct1[OF s6] conjunct2[OF s6] b6(1) b5(2,3)]
  note s4 = horner_step[OF t conjunct1[OF s5] conjunct2[OF s5] b5(1) b4(2,3)]
  note s3 = horner_step[OF t conjunct1[OF s4] conjunct2[OF s4] b4(1) b3(2,3)]
  note s2 = horner_step[OF t conjunct1[OF s3] conjunct2[OF s3] b3(1) b2(2,3)]
  note s1 = horner_step[OF t conjunct1[OF s2] conjunct2[OF s2] b2(1) b1(2,3)]
  note s0 = horner_step[OF t conjunct1[OF s1] conjunct2[OF s1] b1(1) b0]
  show ?thesis unfolding sin_nest_def by (rule s0)
qed

lemma sin_remainder_small:
  fixes a :: real
  assumes "\<bar>a\<bar> \<le> 157 / 100"
  shows "\<bar>a\<bar> ^ 17 / 355687428096000 \<le> 1 / 10 ^ 11"
proof -
  have "\<bar>a\<bar> ^ 17 \<le> (157 / 100) ^ 17"
    by (rule power_mono[OF assms]) simp
  also have "\<dots> \<le> 355687428096000 / 10 ^ 11"
    by (simp add: power_divide)
  finally show ?thesis by (simp add: field_simps)
qed

lemma sin_lo_horner:
  assumes "\<bar>a\<bar> \<le> 157 / 100" "b0l \<le> sin_nest (a * a) \<and> sin_nest (a * a) \<le> b0u"
    and "L \<le> a * b0l - 1 / 10 ^ 11" "L \<le> a * b0u - 1 / 10 ^ 11"
  shows "L \<le> sin_lo a"
proof -
  have "min (a * b0l) (a * b0u) \<le> a * sin_nest (a * a)"
  proof (cases "0 \<le> a")
    case True
    then have "a * b0l \<le> a * sin_nest (a * a)" using assms(2) by (simp add: mult_left_mono)
    then show ?thesis by linarith
  next
    case False
    then have "a * b0u \<le> a * sin_nest (a * a)" using assms(2) by (simp add: mult_left_mono_neg)
    then show ?thesis by linarith
  qed
  with sin_remainder_small[OF assms(1)] assms(3,4) show ?thesis
    unfolding sin_lo_def sin_poly_nest by linarith
qed

lemma sin_hi_horner:
  assumes "\<bar>a\<bar> \<le> 157 / 100" "b0l \<le> sin_nest (a * a) \<and> sin_nest (a * a) \<le> b0u"
    and "a * b0l + 1 / 10 ^ 11 \<le> U" "a * b0u + 1 / 10 ^ 11 \<le> U"
  shows "sin_hi a \<le> U"
proof -
  have "a * sin_nest (a * a) \<le> max (a * b0l) (a * b0u)"
  proof (cases "0 \<le> a")
    case True
    then have "a * sin_nest (a * a) \<le> a * b0u" using assms(2) by (simp add: mult_left_mono)
    then show ?thesis by linarith
  next
    case False
    then have "a * sin_nest (a * a) \<le> a * b0l" using assms(2) by (simp add: mult_left_mono_neg)
    then show ?thesis by linarith
  qed
  with sin_remainder_small[OF assms(1)] assms(3,4) show ?thesis
    unfolding sin_hi_def sin_poly_nest by linarith
qed

lemma fin_in_toRadians: "l \<le> pi_lo / 180 \<Longrightarrow> pi_hi / 180 \<le> u \<Longrightarrow> fin_in (Fin toRadians) l u"
  unfolding toRadians_def using pi_bounds by (intro fin_in_Fin) linarith+

lemma fin_in_toDegrees:
  assumes "l \<le> 180 / pi_hi" "180 / pi_lo \<le> u"
  shows "fin_in (Fin toDegrees) l u"
proof -
  have "0 < pi_lo" by (simp add: pi_lo_def)
  then have "180 / pi_hi \<le> 180 / pi" "180 / pi \<le> 180 / pi_lo"
    using pi_bounds by (simp_all add: frac_le)
  with assms show ?thesis by (simp add: fin_in_def toDegrees_def)
qed

lemma fin_in_if_not_NaN:
  "fin_in c lc uc \<Longrightarrow> fin_in t l u \<Longrightarrow> fin_in (if \<not> IsNaN c then t else e) l u"
  by (auto simp: fin_in_def)

lemma sin_pt:
  assumes "\<bar>l\<bar> \<le> 157 / 100" "sa \<le> sin_lo l" "sin_hi l \<le> sb"
  shows "sa \<le> sin l \<and> sin l \<le> sb"
proof -
  have "- (157 / 100) \<le> l" "l \<le> 157 / 100" using assms(1) by linarith+
  from sin_enclosure[OF order_refl order_refl this] assms(2,3) show ?thesis by linarith
qed

text \<open>cos l = sin (pi/2 - l)\<close>
lemma cos_pt_pos:
  assumes "a \<le> pi_lo / 2 - l" "pi_hi / 2 - l \<le> b" "- (157 / 100) \<le> a" "b \<le> 157 / 100"
    "sa \<le> sin_lo a" "sin_hi b \<le> sb"
  shows "sa \<le> cos l \<and> cos l \<le> sb"
proof -
  have "a \<le> pi / 2 - l" "pi / 2 - l \<le> b" using assms(1,2) pi_bounds by linarith+
  from sin_enclosure[OF this assms(3,4)] assms(5,6) show ?thesis
    by (simp add: sin_diff)
qed

text \<open>cos l = sin (pi/2 + l)\<close>
lemma cos_pt_neg:
  assumes "a \<le> pi_lo / 2 + l" "pi_hi / 2 + l \<le> b" "- (157 / 100) \<le> a" "b \<le> 157 / 100"
    "sa \<le> sin_lo a" "sin_hi b \<le> sb"
  shows "sa \<le> cos l \<and> cos l \<le> sb"
proof -
  have "a \<le> pi / 2 + l" "pi / 2 + l \<le> b" using assms(1,2) pi_bounds by linarith+
  from sin_enclosure[OF this assms(3,4)] assms(5,6) show ?thesis
    by (simp add: sin_add)
qed

lemma arctan_ge:
  assumes "0 < x" "\<bar>l\<bar> \<le> 157 / 100" "0 < cos l" "sin l * x \<le> y * cos l"
  shows "l \<le> arctan (y / x)"
proof -
  have r: "- (pi / 2) < l" "l < pi / 2" using assms(2) half_pi_gt by (auto simp: abs_le_iff)
  have "tan l \<le> y / x"
    using assms(1,3,4) by (simp add: tan_def field_simps)
  then have "arctan (tan l) \<le> arctan (y / x)" by (simp only: arctan_le_iff)
  then show ?thesis using r by (simp add: arctan_tan)
qed

lemma arctan_le:
  assumes "0 < x" "\<bar>u\<bar> \<le> 157 / 100" "0 < cos u" "y * cos u \<le> sin u * x"
  shows "arctan (y / x) \<le> u"
proof -
  have r: "- (pi / 2) < u" "u < pi / 2" using assms(2) half_pi_gt by (auto simp: abs_le_iff)
  have "y / x \<le> tan u"
    using assms(1,3,4) by (simp add: tan_def field_simps)
  then have "arctan (y / x) \<le> arctan (tan u)" by (simp only: arctan_le_iff)
  then show ?thesis using r by (simp add: arctan_tan)
qed

lemma fin_in_Atan2:
  assumes "fin_in y ly uy" "fin_in x lx ux" "0 < lx"
    and "\<bar>l\<bar> \<le> 157 / 100" "\<bar>u\<bar> \<le> 157 / 100"
    and sl: "sll \<le> sin l \<and> sin l \<le> slu" and cl: "cll \<le> cos l \<and> cos l \<le> clu" and "0 < cll"
    and su: "sul \<le> sin u \<and> sin u \<le> suu" and cu: "cul \<le> cos u \<and> cos u \<le> cuu" and "0 < cul"
    and lower: "sll * lx \<le> P" "sll * ux \<le> P" "slu * lx \<le> P" "slu * ux \<le> P"
               "P \<le> ly * cll" "P \<le> ly * clu" "P \<le> uy * cll" "P \<le> uy * clu"
    and upper: "ly * cul \<le> Q" "ly * cuu \<le> Q" "uy * cul \<le> Q" "uy * cuu \<le> Q"
               "Q \<le> sul * lx" "Q \<le> sul * ux" "Q \<le> suu * lx" "Q \<le> suu * ux"
  shows "fin_in (Atan2 y x) l u"
proof -
  obtain ry rx where r: "y = Fin ry" "ly \<le> ry" "ry \<le> uy" "x = Fin rx" "lx \<le> rx" "rx \<le> ux"
    using assms(1,2) by (auto simp: fin_in_def)
  have xp: "0 < rx" using r assms(3) by linarith
  have "sin l * rx \<le> P"
    using mult_corners(2)[of sll "sin l" slu lx rx ux] sl r lower(1-4) by linarith
  moreover have "P \<le> ry * cos l"
    using mult_corners(1)[of ly ry uy cll "cos l" clu] cl r lower(5-8) by linarith
  ultimately have 1: "sin l * rx \<le> ry * cos l" by linarith
  have "ry * cos u \<le> Q"
    using mult_corners(2)[of ly ry uy cul "cos u" cuu] cu r upper(1-4) by linarith
  moreover have "Q \<le> sin u * rx"
    using mult_corners(1)[of sul "sin u" suu lx rx ux] su r upper(5-8) by linarith
  ultimately have 2: "ry * cos u \<le> sin u * rx" by linarith
  have cl0: "0 < cos l" using cl assms(8) by linarith
  have cu0: "0 < cos u" using cu assms(11) by linarith
  have "l \<le> arctan (ry / rx)" by (rule arctan_ge[OF xp assms(4) cl0 1])
  moreover have "arctan (ry / rx) \<le> u" by (rule arctan_le[OF xp assms(5) cu0 2])
  ultimately show ?thesis using xp by (simp add: fin_in_def r atan2_def)
qed

lemma arc_deriv_nonneg: "0 \<le> arc_deriv \<phi>"
proof -
  have "0 \<le> (1 - contraction) * (airy_a * F0)"
    by (simp add: contraction_def airy_a_def F0_def)
  with arc_deriv_bound[of \<phi>] show ?thesis by (simp add: abs_le_iff algebra_simps)
qed

lemma arc_real_mono: "x \<le> y \<Longrightarrow> arc_real x \<le> arc_real y"
  by (rule DERIV_nonneg_imp_nondecreasing[of x y arc_real]) (use arc_real_deriv arc_deriv_nonneg in blast)+

subsection \<open>The conversion of the reference SJ 92395 52997, step by step\<close>

text \<open>
  Each lemma follows one function of the code through its assignments, in their order,
  and encloses every intermediate value of the conversion of
  \<open>OsGridRef{392395, 352997}\<close> in an interval with decimal end points.
\<close>

lemma C2_arc_lo: "fin_in (meridional_arc (Fin (\<phi>0 + 0.07110278))) 452996.937258 452996.9372654"
proof -
  have f1: "fin_in (Fin (\<phi>0 + 0.07110278)) 0.9263141134768 0.9263141134773"
    by (rule fin_in_Fin) (insert pi_bounds, simp_all add: \<phi>0_def toRadians_def pi_lo_def pi_hi_def)
  have f2: "fin_in (Fin \<phi>0) 0.8552113334768 0.8552113334773"
    by (rule fin_in_Fin) (insert pi_bounds, simp_all add: \<phi>0_def toRadians_def pi_lo_def pi_hi_def)
  have f3: "fin_in ((Fin (\<phi>0 + 0.07110278)) - (Fin \<phi>0)) 0.0711027799995 0.0711027800005" by (rule fin_in_sub[OF f1 f2]) simp_all
  have f4: "fin_in ((Fin (\<phi>0 + 0.07110278)) + (Fin \<phi>0)) 1.781525446953 1.781525446955" by (rule fin_in_add[OF f1 f2]) simp_all
  have f5: "fin_in (Fin (1 + airy_n + of_int (5 div 4) * n2 + of_int (5 div 4) * n3)) 1.001676024679 1.00167602468" by (rule fin_in_Fin) (simp_all add: airy_n_def n2_def n3_def airy_a_def airy_b_def F0_def)
  have f6: "fin_in ((Fin (1 + airy_n + of_int (5 div 4) * n2 + of_int (5 div 4) * n3)) * ((Fin (\<phi>0 + 0.07110278)) - (Fin \<phi>0))) 0.07122195001352 0.0712219500146" by (rule fin_in_mul[OF f5 f3]) simp_all
  define Ma where "Ma = ((Fin (1 + airy_n + of_int (5 div 4) * n2 + of_int (5 div 4) * n3)) * ((Fin (\<phi>0 + 0.07110278)) - (Fin \<phi>0)))"
  have b_Ma: "fin_in (Ma) 0.07122195001352 0.0712219500146" unfolding Ma_def by (rule f6)
  have f7: "fin_in (Fin (3 * airy_n + 3 * airy_n * airy_n + of_int (21 div 8) * n3)) 0.005028069354687 0.005028069354688" by (rule fin_in_Fin) (simp_all add: airy_n_def n2_def n3_def airy_a_def airy_b_def F0_def)
  have f8: "0.9991576120799 \<le> sin_nest (0.0711027799995 * 0.0711027799995) \<and> sin_nest (0.0711027799995 * 0.0711027799995) \<le> 0.99915761208"
    by (rule sin_nest_bounds[where t="0.0711027799995 * 0.0711027799995" and ta="0.005055605323657" and tb="0.005055605323658" and b6l="0.000000000160586572264" and b6u="0.0000000001605865722641" and b5l="0.00000002505129652311" and b5u="0.00000002505129652312" and b4l="0.00000275560527293" and b4u="0.000002755605272931" and b3l="0.00019839876716" and b3u="0.0001983987671601" and b2l="0.008332330307469" and b2u="0.00833233030747" and b1l="0.1666245416932" and b1u="0.1666245416933"]) simp_all
  have f9: "0.07104288386654 \<le> sin_lo 0.0711027799995" by (rule sin_lo_horner[OF _ f8]) simp_all
  have f10: "0.9991576120799 \<le> sin_nest (0.0711027800005 * 0.0711027800005) \<and> sin_nest (0.0711027800005 * 0.0711027800005) \<le> 0.99915761208"
    by (rule sin_nest_bounds[where t="0.0711027800005 * 0.0711027800005" and ta="0.005055605323799" and tb="0.0050556053238" and b6l="0.000000000160586572264" and b6u="0.0000000001605865722641" and b5l="0.00000002505129652311" and b5u="0.00000002505129652312" and b4l="0.00000275560527293" and b4u="0.000002755605272931" and b3l="0.00019839876716" and b3u="0.0001983987671601" and b2l="0.008332330307469" and b2u="0.00833233030747" and b1l="0.1666245416932" and b1u="0.1666245416933"]) simp_all
  have f11: "sin_hi 0.0711027800005 \<le> 0.07104288388755" by (rule sin_hi_horner[OF _ f10]) simp_all
  have f12: "fin_in (Sin ((Fin (\<phi>0 + 0.07110278)) - (Fin \<phi>0))) 0.07104288386654 0.07104288388755" by (rule fin_in_Sin[OF f3 _ _ f9 f11]) simp_all
  have f13: "fin_in ((Fin (3 * airy_n + 3 * airy_n * airy_n + of_int (21 div 8) * n3)) * (Sin ((Fin (\<phi>0 + 0.07110278)) - (Fin \<phi>0)))) 0.0003572085472379 0.0003572085473437" by (rule fin_in_mul[OF f7 f12]) simp_all
  have f14: "0.9926152886265 \<le> sin_nest (0.210729120158 * 0.210729120158) \<and> sin_nest (0.210729120158 * 0.210729120158) \<le> 0.9926152886266"
    by (rule sin_nest_bounds[where t="0.210729120158 * 0.210729120158" and ta="0.04440676208256" and tb="0.04440676208257" and b6l="0.0000000001605564797901" and b6u="0.0000000001605564797902" and b5l="0.00000002504497859204" and b5u="0.00000002504497859205" and b4l="0.000002754619755992" and b4u="0.000002754619755993" and b3l="0.0001982903746685" and b3u="0.0001982903746686" and b2l="0.008324527899842" and b2u="0.008324527899843" and b1l="0.1662970013367" and b1u="0.1662970013368"]) simp_all
  have f15: "0.2091729464176 \<le> sin_lo 0.210729120158" by (rule sin_lo_horner[OF _ f14]) simp_all
  have f16: "0.9926152886264 \<le> sin_nest (0.2107291201607 * 0.2107291201607) \<and> sin_nest (0.2107291201607 * 0.2107291201607) \<le> 0.9926152886265"
    by (rule sin_nest_bounds[where t="0.2107291201607 * 0.2107291201607" and ta="0.0444067620837" and tb="0.04440676208371" and b6l="0.0000000001605564797901" and b6u="0.0000000001605564797902" and b5l="0.00000002504497859204" and b5u="0.00000002504497859205" and b4l="0.000002754619755992" and b4u="0.000002754619755993" and b3l="0.0001982903746685" and b3u="0.0001982903746686" and b2l="0.008324527899841" and b2u="0.008324527899842" and b1l="0.1662970013367" and b1u="0.1662970013368"]) simp_all
  have f17: "sin_hi 0.2107291201607 \<le> 0.2091729464404" by (rule sin_hi_horner[OF _ f16]) simp_all
  have f18: "fin_in (Cos ((Fin (\<phi>0 + 0.07110278)) + (Fin \<phi>0))) (- 0.2091729464404) (- 0.2091729464176)"
    by (rule fin_in_Cos_b[OF f4 _ _ _ _ f15 f17]) (simp_all add: pi_lo_def pi_hi_def)
  have f19: "fin_in (((Fin (3 * airy_n + 3 * airy_n * airy_n + of_int (21 div 8) * n3)) * (Sin ((Fin (\<phi>0 + 0.07110278)) - (Fin \<phi>0)))) * (Cos ((Fin (\<phi>0 + 0.07110278)) + (Fin \<phi>0)))) (- 0.00007471836434158) (- 0.0000747183643113)" by (rule fin_in_mul[OF f13 f18]) simp_all
  define Mb where "Mb = (((Fin (3 * airy_n + 3 * airy_n * airy_n + of_int (21 div 8) * n3)) * (Sin ((Fin (\<phi>0 + 0.07110278)) - (Fin \<phi>0)))) * (Cos ((Fin (\<phi>0 + 0.07110278)) + (Fin \<phi>0))))"
  have b_Mb: "fin_in (Mb) (- 0.00007471836434158) (- 0.0000747183643113)" unfolding Mb_def by (rule f19)
  have f20: "fin_in (Fin (of_int (15 div 8) * n2 + of_int (15 div 8) * n3)) 0.000002804350727853 0.000002804350727854" by (rule fin_in_Fin) (simp_all add: airy_n_def n2_def n3_def airy_a_def airy_b_def F0_def)
  have f21: "fin_in (Fin 2) 2 2" by (rule fin_in_Fin) (simp_all)
  have f22: "fin_in ((Fin 2) * ((Fin (\<phi>0 + 0.07110278)) - (Fin \<phi>0))) 0.142205559999 0.142205560001" by (rule fin_in_mul[OF f21 f3]) simp_all
  have f23: "0.9966330026965 \<le> sin_nest (0.142205559999 * 0.142205559999) \<and> sin_nest (0.142205559999 * 0.142205559999) \<le> 0.9966330026966"
    by (rule sin_nest_bounds[where t="0.142205559999 * 0.142205559999" and ta="0.02022242129462" and tb="0.02022242129463" and b6l="0.0000000001605749739515" and b6u="0.0000000001605749739516" and b5l="0.00000002504886117066" and b5u="0.00000002504886117067" and b4l="0.000002755225373775" and b4u="0.000002755225373776" and b3l="0.0001983569810844" and b3u="0.0001983569810845" and b2l="0.008329322074895" and b2u="0.008329322074896" and b1l="0.1664982276065" and b1u="0.1664982276066"]) simp_all
  have f24: "0.1417267542519 \<le> sin_lo 0.142205559999" by (rule sin_lo_horner[OF _ f23]) simp_all
  have f25: "0.9966330026964 \<le> sin_nest (0.142205560001 * 0.142205560001) \<and> sin_nest (0.142205560001 * 0.142205560001) \<le> 0.9966330026965"
    by (rule sin_nest_bounds[where t="0.142205560001 * 0.142205560001" and ta="0.02022242129519" and tb="0.0202224212952" and b6l="0.0000000001605749739515" and b6u="0.0000000001605749739516" and b5l="0.00000002504886117066" and b5u="0.00000002504886117067" and b4l="0.000002755225373775" and b4u="0.000002755225373776" and b3l="0.0001983569810844" and b3u="0.0001983569810845" and b2l="0.008329322074894" and b2u="0.008329322074896" and b1l="0.1664982276065" and b1u="0.1664982276066"]) simp_all
  have f26: "sin_hi 0.142205560001 \<le> 0.141726754274" by (rule sin_hi_horner[OF _ f25]) simp_all
  have f27: "fin_in (Sin ((Fin 2) * ((Fin (\<phi>0 + 0.07110278)) - (Fin \<phi>0)))) 0.1417267542519 0.141726754274" by (rule fin_in_Sin[OF f22 _ _ f24 f26]) simp_all
  have f28: "fin_in ((Fin (of_int (15 div 8) * n2 + of_int (15 div 8) * n3)) * (Sin ((Fin 2) * ((Fin (\<phi>0 + 0.07110278)) - (Fin \<phi>0))))) 0.0000003974515264425 0.0000003974515265047" by (rule fin_in_mul[OF f20 f27]) simp_all
  have f29: "fin_in ((Fin 2) * ((Fin (\<phi>0 + 0.07110278)) + (Fin \<phi>0))) 3.563050893906 3.56305089391" by (rule fin_in_mul[OF f21 f4]) simp_all
  have f30: "0.7939294518297 \<le> sin_nest ((- 1.149338086479) * (- 1.149338086479)) \<and> sin_nest ((- 1.149338086479) * (- 1.149338086479)) \<le> 0.7939294518301"
    by (rule sin_nest_bounds[where t="(- 1.149338086479) * (- 1.149338086479)" and ta="1.320978037031" and tb="1.320978037032" and b6l="0.0000000001595802648346" and b6u="0.0000000001595802648347" and b5l="0.00000002484130636045" and b5u="0.00000002484130636046" and b4l="0.000002722917102285" and b4u="0.000002722917102286" and b3l="0.0001948157847239" and b3u="0.000194815784724" and b2l="0.008075985960445" and b2u="0.008075985960447" and b1l="0.1559984665855" and b1u="0.1559984665856"]) simp_all
  have f31: "(- 0.9124933569758) \<le> sin_lo (- 1.149338086479)" by (rule sin_lo_horner[OF _ f30]) simp_all
  have f32: "0.7939294518321 \<le> sin_nest ((- 1.149338086472) * (- 1.149338086472)) \<and> sin_nest ((- 1.149338086472) * (- 1.149338086472)) \<le> 0.7939294518325"
    by (rule sin_nest_bounds[where t="(- 1.149338086472) * (- 1.149338086472)" and ta="1.320978037015" and tb="1.320978037016" and b6l="0.0000000001595802648346" and b6u="0.0000000001595802648347" and b5l="0.00000002484130636045" and b5u="0.00000002484130636046" and b4l="0.000002722917102285" and b4u="0.000002722917102286" and b3l="0.0001948157847239" and b3u="0.000194815784724" and b2l="0.008075985960448" and b2u="0.00807598596045" and b1l="0.1559984665856" and b1u="0.1559984665857"]) simp_all
  have f33: "sin_hi (- 1.149338086472) \<le> (- 0.9124933569524)" by (rule sin_hi_horner[OF _ f32]) simp_all
  have f34: "fin_in (Cos ((Fin 2) * ((Fin (\<phi>0 + 0.07110278)) + (Fin \<phi>0)))) (- 0.9124933569758) (- 0.9124933569524)"
    by (rule fin_in_Cos_c[OF f29 _ _ _ _ f31 f33]) (simp_all add: pi_lo_def pi_hi_def)
  have f35: "fin_in (((Fin (of_int (15 div 8) * n2 + of_int (15 div 8) * n3)) * (Sin ((Fin 2) * ((Fin (\<phi>0 + 0.07110278)) - (Fin \<phi>0))))) * (Cos ((Fin 2) * ((Fin (\<phi>0 + 0.07110278)) + (Fin \<phi>0))))) (- 0.0000003626718776555) (- 0.0000003626718775893)" by (rule fin_in_mul[OF f28 f34]) simp_all
  define Mc where "Mc = (((Fin (of_int (15 div 8) * n2 + of_int (15 div 8) * n3)) * (Sin ((Fin 2) * ((Fin (\<phi>0 + 0.07110278)) - (Fin \<phi>0))))) * (Cos ((Fin 2) * ((Fin (\<phi>0 + 0.07110278)) + (Fin \<phi>0)))))"
  have b_Mc: "fin_in (Mc) (- 0.0000003626718776555) (- 0.0000003626718775893)" unfolding Mc_def by (rule f35)
  have f36: "fin_in (Fin (of_int (35 div 24) * n3)) 0.000000004684458516235 0.000000004684458516236" by (rule fin_in_Fin) (simp_all add: airy_n_def n2_def n3_def airy_a_def airy_b_def F0_def)
  have f37: "fin_in (Fin 3) 3 3" by (rule fin_in_Fin) (simp_all)
  have f38: "fin_in ((Fin 3) * ((Fin (\<phi>0 + 0.07110278)) - (Fin \<phi>0))) 0.2133083399985 0.2133083400015" by (rule fin_in_mul[OF f37 f3]) simp_all
  have f39: "0.992433825759 \<le> sin_nest (0.2133083399985 * 0.2133083399985) \<and> sin_nest (0.2133083399985 * 0.2133083399985) \<le> 0.9924338257591"
    by (rule sin_nest_bounds[where t="0.2133083399985 * 0.2133083399985" and ta="0.04550044791291" and tb="0.04550044791292" and b6l="0.0000000001605556434307" and b6u="0.0000000001605556434308" and b5l="0.00000002504480303175" and b5u="0.00000002504480303176" and b4l="0.000002754592372642" and b4u="0.000002754592372643" and b3l="0.0001982873632259" and b3u="0.000198287363226" and b2l="0.008324311169491" and b2u="0.008324311169492" and b1l="0.1662879067798" and b1u="0.1662879067799"]) simp_all
  have f40: "0.211694411921 \<le> sin_lo 0.2133083399985" by (rule sin_lo_horner[OF _ f39]) simp_all
  have f41: "0.9924338257587 \<le> sin_nest (0.2133083400015 * 0.2133083400015) \<and> sin_nest (0.2133083400015 * 0.2133083400015) \<le> 0.9924338257589"
    by (rule sin_nest_bounds[where t="0.2133083400015 * 0.2133083400015" and ta="0.04550044791419" and tb="0.0455004479142" and b6l="0.0000000001605556434307" and b6u="0.0000000001605556434308" and b5l="0.00000002504480303175" and b5u="0.00000002504480303176" and b4l="0.000002754592372642" and b4u="0.000002754592372643" and b3l="0.0001982873632259" and b3u="0.000198287363226" and b2l="0.00832431116949" and b2u="0.008324311169491" and b1l="0.1662879067798" and b1u="0.1662879067799"]) simp_all
  have f42: "sin_hi 0.2133083400015 \<le> 0.211694411944" by (rule sin_hi_horner[OF _ f41]) simp_all
  have f43: "fin_in (Sin ((Fin 3) * ((Fin (\<phi>0 + 0.07110278)) - (Fin \<phi>0)))) 0.211694411921 0.211694411944" by (rule fin_in_Sin[OF f38 _ _ f40 f42]) simp_all
  have f44: "fin_in ((Fin (of_int (35 div 24) * n3)) * (Sin ((Fin 3) * ((Fin (\<phi>0 + 0.07110278)) - (Fin \<phi>0))))) 0.0000000009916736907626 0.0000000009916736908707" by (rule fin_in_mul[OF f36 f43]) simp_all
  have f45: "fin_in ((Fin 3) * ((Fin (\<phi>0 + 0.07110278)) + (Fin \<phi>0))) 5.344576340859 5.344576340865" by (rule fin_in_mul[OF f37 f4]) simp_all
  have f46: "0.9347083341382 \<le> sin_nest (0.6321873604741 * 0.6321873604741) \<and> sin_nest (0.6321873604741 * 0.6321873604741) \<le> 0.9347083341384"
    by (rule sin_nest_bounds[where t="0.6321873604741 * 0.6321873604741" and ta="0.3996608587432" and tb="0.3996608587433" and b6l="0.0000000001602848111658" and b6u="0.0000000001602848111659" and b5l="0.00000002498804882016" and b5u="0.00000002498804882017" and b4l="0.000002745745177348" and b4u="0.000002745745177349" and b3l="0.0001973153315372" and b3u="0.0001973153315373" and b2l="0.008254474118487" and b2u="0.008254474118488" and b1l="0.1633676764519" and b1u="0.163367676452"]) simp_all
  have f47: "0.5909107945619 \<le> sin_lo 0.6321873604741" by (rule sin_lo_horner[OF _ f46]) simp_all
  have f48: "0.9347083341366 \<le> sin_nest (0.6321873604821 * 0.6321873604821) \<and> sin_nest (0.6321873604821 * 0.6321873604821) \<le> 0.9347083341368"
    by (rule sin_nest_bounds[where t="0.6321873604821 * 0.6321873604821" and ta="0.3996608587533" and tb="0.3996608587534" and b6l="0.0000000001602848111658" and b6u="0.0000000001602848111659" and b5l="0.00000002498804882016" and b5u="0.00000002498804882017" and b4l="0.000002745745177348" and b4u="0.000002745745177349" and b3l="0.0001973153315372" and b3u="0.0001973153315373" and b2l="0.008254474118485" and b2u="0.008254474118486" and b1l="0.1633676764519" and b1u="0.163367676452"]) simp_all
  have f49: "sin_hi 0.6321873604821 \<le> 0.5909107945886" by (rule sin_hi_horner[OF _ f48]) simp_all
  have f50: "fin_in (Cos ((Fin 3) * ((Fin (\<phi>0 + 0.07110278)) + (Fin \<phi>0)))) 0.5909107945619 0.5909107945886"
    by (rule fin_in_Cos_c[OF f45 _ _ _ _ f47 f49]) (simp_all add: pi_lo_def pi_hi_def)
  have f51: "fin_in (((Fin (of_int (35 div 24) * n3)) * (Sin ((Fin 3) * ((Fin (\<phi>0 + 0.07110278)) - (Fin \<phi>0))))) * (Cos ((Fin 3) * ((Fin (\<phi>0 + 0.07110278)) + (Fin \<phi>0))))) 0.0000000005859906885546 0.0000000005859906886451" by (rule fin_in_mul[OF f44 f50]) simp_all
  define Md where "Md = (((Fin (of_int (35 div 24) * n3)) * (Sin ((Fin 3) * ((Fin (\<phi>0 + 0.07110278)) - (Fin \<phi>0))))) * (Cos ((Fin 3) * ((Fin (\<phi>0 + 0.07110278)) + (Fin \<phi>0)))))"
  have b_Md: "fin_in (Md) 0.0000000005859906885546 0.0000000005859906886451" unfolding Md_def by (rule f51)
  have f52: "fin_in (Fin (airy_b * F0)) 6353722.489488 6353722.489489" by (rule fin_in_Fin) (simp_all add: airy_n_def n2_def n3_def airy_a_def airy_b_def F0_def)
  have f53: "fin_in ((Ma) - (Mb)) 0.07129666837783 0.07129666837895" by (rule fin_in_sub[OF b_Ma b_Mb]) simp_all
  have f54: "fin_in (((Ma) - (Mb)) + (Mc)) 0.07129630570595 0.07129630570708" by (rule fin_in_add[OF f53 b_Mc]) simp_all
  have f55: "fin_in ((((Ma) - (Mb)) + (Mc)) - (Md)) 0.07129630511995 0.07129630512109" by (rule fin_in_sub[OF f54 b_Md]) simp_all
  have f56: "fin_in ((Fin (airy_b * F0)) * ((((Ma) - (Mb)) + (Mc)) - (Md))) 452996.937258 452996.9372654" by (rule fin_in_mul[OF f52 f55]) simp_all
  show ?thesis
    unfolding meridional_arc_def Let_def using f56[unfolded Ma_def Mb_def Mc_def Md_def] .
qed

lemma C2_arc_hi: "fin_in (meridional_arc (Fin (\<phi>0 + 0.0711028))) 452997.0647224 452997.0647298"
proof -
  have f1: "fin_in (Fin (\<phi>0 + 0.0711028)) 0.9263141334768 0.9263141334773"
    by (rule fin_in_Fin) (insert pi_bounds, simp_all add: \<phi>0_def toRadians_def pi_lo_def pi_hi_def)
  have f2: "fin_in (Fin \<phi>0) 0.8552113334768 0.8552113334773"
    by (rule fin_in_Fin) (insert pi_bounds, simp_all add: \<phi>0_def toRadians_def pi_lo_def pi_hi_def)
  have f3: "fin_in ((Fin (\<phi>0 + 0.0711028)) - (Fin \<phi>0)) 0.0711027999995 0.0711028000005" by (rule fin_in_sub[OF f1 f2]) simp_all
  have f4: "fin_in ((Fin (\<phi>0 + 0.0711028)) + (Fin \<phi>0)) 1.781525466953 1.781525466955" by (rule fin_in_add[OF f1 f2]) simp_all
  have f5: "fin_in (Fin (1 + airy_n + of_int (5 div 4) * n2 + of_int (5 div 4) * n3)) 1.001676024679 1.00167602468" by (rule fin_in_Fin) (simp_all add: airy_n_def n2_def n3_def airy_a_def airy_b_def F0_def)
  have f6: "fin_in ((Fin (1 + airy_n + of_int (5 div 4) * n2 + of_int (5 div 4) * n3)) * ((Fin (\<phi>0 + 0.0711028)) - (Fin \<phi>0))) 0.07122197004704 0.07122197004812" by (rule fin_in_mul[OF f5 f3]) simp_all
  define Ma where "Ma = ((Fin (1 + airy_n + of_int (5 div 4) * n2 + of_int (5 div 4) * n3)) * ((Fin (\<phi>0 + 0.0711028)) - (Fin \<phi>0)))"
  have b_Ma: "fin_in (Ma) 0.07122197004704 0.07122197004812" unfolding Ma_def by (rule f6)
  have f7: "fin_in (Fin (3 * airy_n + 3 * airy_n * airy_n + of_int (21 div 8) * n3)) 0.005028069354687 0.005028069354688" by (rule fin_in_Fin) (simp_all add: airy_n_def n2_def n3_def airy_a_def airy_b_def F0_def)
  have f8: "0.9991576116061 \<le> sin_nest (0.0711027999995 * 0.0711027999995) \<and> sin_nest (0.0711027999995 * 0.0711027999995) \<le> 0.9991576116062"
    by (rule sin_nest_bounds[where t="0.0711027999995 * 0.0711027999995" and ta="0.005055608167768" and tb="0.005055608167769" and b6l="0.0000000001605865722618" and b6u="0.0000000001605865722619" and b5l="0.00000002505129652265" and b5u="0.00000002505129652266" and b4l="0.000002755605272859" and b4u="0.00000275560527286" and b3l="0.0001983987671521" and b3u="0.0001983987671522" and b2l="0.008332330306905" and b2u="0.008332330306906" and b1l="0.1666245416695" and b1u="0.1666245416696"]) simp_all
  have f9: "0.071042903816 \<le> sin_lo 0.0711027999995" by (rule sin_lo_horner[OF _ f8]) simp_all
  have f10: "0.9991576116061 \<le> sin_nest (0.0711028000005 * 0.0711028000005) \<and> sin_nest (0.0711028000005 * 0.0711028000005) \<le> 0.9991576116062"
    by (rule sin_nest_bounds[where t="0.0711028000005 * 0.0711028000005" and ta="0.005055608167911" and tb="0.005055608167912" and b6l="0.0000000001605865722618" and b6u="0.0000000001605865722619" and b5l="0.00000002505129652265" and b5u="0.00000002505129652266" and b4l="0.000002755605272859" and b4u="0.00000275560527286" and b3l="0.0001983987671521" and b3u="0.0001983987671522" and b2l="0.008332330306905" and b2u="0.008332330306906" and b1l="0.1666245416695" and b1u="0.1666245416696"]) simp_all
  have f11: "sin_hi 0.0711028000005 \<le> 0.07104290383702" by (rule sin_hi_horner[OF _ f10]) simp_all
  have f12: "fin_in (Sin ((Fin (\<phi>0 + 0.0711028)) - (Fin \<phi>0))) 0.071042903816 0.07104290383702" by (rule fin_in_Sin[OF f3 _ _ f9 f11]) simp_all
  have f13: "fin_in ((Fin (3 * airy_n + 3 * airy_n * airy_n + of_int (21 div 8) * n3)) * (Sin ((Fin (\<phi>0 + 0.0711028)) - (Fin \<phi>0)))) 0.0003572086475452 0.000357208647651" by (rule fin_in_mul[OF f7 f12]) simp_all
  have f14: "0.9926152872279 \<le> sin_nest (0.210729140158 * 0.210729140158) \<and> sin_nest (0.210729140158 * 0.210729140158) \<le> 0.992615287228"
    by (rule sin_nest_bounds[where t="0.210729140158 * 0.210729140158" and ta="0.04440677051173" and tb="0.04440677051174" and b6l="0.0000000001605564797837" and b6u="0.0000000001605564797838" and b5l="0.00000002504497859068" and b5u="0.00000002504497859069" and b4l="0.000002754619755781" and b4u="0.000002754619755782" and b3l="0.0001982903746453" and b3u="0.0001982903746454" and b2l="0.008324527898171" and b2u="0.008324527898172" and b1l="0.1662970012666" and b1u="0.1662970012667"]) simp_all
  have f15: "0.2091729659752 \<le> sin_lo 0.210729140158" by (rule sin_lo_horner[OF _ f14]) simp_all
  have f16: "0.9926152872277 \<le> sin_nest (0.2107291401607 * 0.2107291401607) \<and> sin_nest (0.2107291401607 * 0.2107291401607) \<le> 0.9926152872278"
    by (rule sin_nest_bounds[where t="0.2107291401607 * 0.2107291401607" and ta="0.04440677051286" and tb="0.04440677051287" and b6l="0.0000000001605564797837" and b6u="0.0000000001605564797838" and b5l="0.00000002504497859068" and b5u="0.00000002504497859069" and b4l="0.000002754619755781" and b4u="0.000002754619755782" and b3l="0.0001982903746453" and b3u="0.0001982903746454" and b2l="0.008324527898171" and b2u="0.008324527898172" and b1l="0.1662970012666" and b1u="0.1662970012667"]) simp_all
  have f17: "sin_hi 0.2107291401607 \<le> 0.2091729659979" by (rule sin_hi_horner[OF _ f16]) simp_all
  have f18: "fin_in (Cos ((Fin (\<phi>0 + 0.0711028)) + (Fin \<phi>0))) (- 0.2091729659979) (- 0.2091729659752)"
    by (rule fin_in_Cos_b[OF f4 _ _ _ _ f15 f17]) (simp_all add: pi_lo_def pi_hi_def)
  have f19: "fin_in (((Fin (3 * airy_n + 3 * airy_n * airy_n + of_int (21 div 8) * n3)) * (Sin ((Fin (\<phi>0 + 0.0711028)) - (Fin \<phi>0)))) * (Cos ((Fin (\<phi>0 + 0.0711028)) + (Fin \<phi>0)))) (- 0.00007471839230926) (- 0.00007471839227901)" by (rule fin_in_mul[OF f13 f18]) simp_all
  define Mb where "Mb = (((Fin (3 * airy_n + 3 * airy_n * airy_n + of_int (21 div 8) * n3)) * (Sin ((Fin (\<phi>0 + 0.0711028)) - (Fin \<phi>0)))) * (Cos ((Fin (\<phi>0 + 0.0711028)) + (Fin \<phi>0))))"
  have b_Mb: "fin_in (Mb) (- 0.00007471839230926) (- 0.00007471839227901)" unfolding Mb_def by (rule f19)
  have f20: "fin_in (Fin (of_int (15 div 8) * n2 + of_int (15 div 8) * n3)) 0.000002804350727853 0.000002804350727854" by (rule fin_in_Fin) (simp_all add: airy_n_def n2_def n3_def airy_a_def airy_b_def F0_def)
  have f21: "fin_in (Fin 2) 2 2" by (rule fin_in_Fin) (simp_all)
  have f22: "fin_in ((Fin 2) * ((Fin (\<phi>0 + 0.0711028)) - (Fin \<phi>0))) 0.142205599999 0.142205600001" by (rule fin_in_mul[OF f21 f3]) simp_all
  have f23: "0.9966330008042 \<le> sin_nest (0.142205599999 * 0.142205599999) \<and> sin_nest (0.142205599999 * 0.142205599999) \<le> 0.9966330008043"
    by (rule sin_nest_bounds[where t="0.142205599999 * 0.142205599999" and ta="0.02022243267107" and tb="0.02022243267108" and b6l="0.0000000001605749739428" and b6u="0.0000000001605749739429" and b5l="0.00000002504886116884" and b5u="0.00000002504886116885" and b4l="0.00000275522537349" and b4u="0.000002755225373491" and b3l="0.000198356981053" and b3u="0.0001983569810531" and b2l="0.008329322072639" and b2u="0.00832932207264" and b1l="0.1664982275118" and b1u="0.1664982275119"]) simp_all
  have f24: "0.1417267938481 \<le> sin_lo 0.142205599999" by (rule sin_lo_horner[OF _ f23]) simp_all
  have f25: "0.9966330008041 \<le> sin_nest (0.142205600001 * 0.142205600001) \<and> sin_nest (0.142205600001 * 0.142205600001) \<le> 0.9966330008042"
    by (rule sin_nest_bounds[where t="0.142205600001 * 0.142205600001" and ta="0.02022243267164" and tb="0.02022243267165" and b6l="0.0000000001605749739428" and b6u="0.0000000001605749739429" and b5l="0.00000002504886116884" and b5u="0.00000002504886116885" and b4l="0.00000275522537349" and b4u="0.000002755225373491" and b3l="0.000198356981053" and b3u="0.0001983569810531" and b2l="0.008329322072639" and b2u="0.00832932207264" and b1l="0.1664982275118" and b1u="0.1664982275119"]) simp_all
  have f26: "sin_hi 0.142205600001 \<le> 0.1417267938702" by (rule sin_hi_horner[OF _ f25]) simp_all
  have f27: "fin_in (Sin ((Fin 2) * ((Fin (\<phi>0 + 0.0711028)) - (Fin \<phi>0)))) 0.1417267938481 0.1417267938702" by (rule fin_in_Sin[OF f22 _ _ f24 f26]) simp_all
  have f28: "fin_in ((Fin (of_int (15 div 8) * n2 + of_int (15 div 8) * n3)) * (Sin ((Fin 2) * ((Fin (\<phi>0 + 0.0711028)) - (Fin \<phi>0))))) 0.0000003974516374841 0.0000003974516375464" by (rule fin_in_mul[OF f20 f27]) simp_all
  have f29: "fin_in ((Fin 2) * ((Fin (\<phi>0 + 0.0711028)) + (Fin \<phi>0))) 3.563050933906 3.56305093391" by (rule fin_in_mul[OF f21 f4]) simp_all
  have f30: "0.7939294652231 \<le> sin_nest ((- 1.149338046479) * (- 1.149338046479)) \<and> sin_nest ((- 1.149338046479) * (- 1.149338046479)) \<le> 0.7939294652235"
    by (rule sin_nest_bounds[where t="(- 1.149338046479) * (- 1.149338046479)" and ta="1.320977945084" and tb="1.320977945085" and b6l="0.0000000001595802649049" and b6u="0.000000000159580264905" and b5l="0.00000002484130637503" and b5u="0.00000002484130637504" and b4l="0.00000272291710455" and b4u="0.000002722917104551" and b3l="0.0001948157849712" and b3u="0.0001948157849713" and b2l="0.008075985978031" and b2u="0.008075985978033" and b1l="0.1559984673048" and b1u="0.1559984673049"]) simp_all
  have f31: "(- 0.9124933406121) \<le> sin_lo (- 1.149338046479)" by (rule sin_lo_horner[OF _ f30]) simp_all
  have f32: "0.7939294652253 \<le> sin_nest ((- 1.149338046472) * (- 1.149338046472)) \<and> sin_nest ((- 1.149338046472) * (- 1.149338046472)) \<le> 0.7939294652259"
    by (rule sin_nest_bounds[where t="(- 1.149338046472) * (- 1.149338046472)" and ta="1.320977945068" and tb="1.320977945069" and b6l="0.000000000159580264905" and b6u="0.0000000001595802649051" and b5l="0.00000002484130637503" and b5u="0.00000002484130637504" and b4l="0.00000272291710455" and b4u="0.000002722917104551" and b3l="0.0001948157849713" and b3u="0.0001948157849714" and b2l="0.008075985978034" and b2u="0.008075985978036" and b1l="0.1559984673049" and b1u="0.1559984673051"]) simp_all
  have f33: "sin_hi (- 1.149338046472) \<le> (- 0.9124933405886)" by (rule sin_hi_horner[OF _ f32]) simp_all
  have f34: "fin_in (Cos ((Fin 2) * ((Fin (\<phi>0 + 0.0711028)) + (Fin \<phi>0)))) (- 0.9124933406121) (- 0.9124933405886)"
    by (rule fin_in_Cos_c[OF f29 _ _ _ _ f31 f33]) (simp_all add: pi_lo_def pi_hi_def)
  have f35: "fin_in (((Fin (of_int (15 div 8) * n2 + of_int (15 div 8) * n3)) * (Sin ((Fin 2) * ((Fin (\<phi>0 + 0.0711028)) - (Fin \<phi>0))))) * (Cos ((Fin 2) * ((Fin (\<phi>0 + 0.0711028)) + (Fin \<phi>0))))) (- 0.0000003626719724765) (- 0.0000003626719724102)" by (rule fin_in_mul[OF f28 f34]) simp_all
  define Mc where "Mc = (((Fin (of_int (15 div 8) * n2 + of_int (15 div 8) * n3)) * (Sin ((Fin 2) * ((Fin (\<phi>0 + 0.0711028)) - (Fin \<phi>0))))) * (Cos ((Fin 2) * ((Fin (\<phi>0 + 0.0711028)) + (Fin \<phi>0)))))"
  have b_Mc: "fin_in (Mc) (- 0.0000003626719724765) (- 0.0000003626719724102)" unfolding Mc_def by (rule f35)
  have f36: "fin_in (Fin (of_int (35 div 24) * n3)) 0.000000004684458516235 0.000000004684458516236" by (rule fin_in_Fin) (simp_all add: airy_n_def n2_def n3_def airy_a_def airy_b_def F0_def)
  have f37: "fin_in (Fin 3) 3 3" by (rule fin_in_Fin) (simp_all)
  have f38: "fin_in ((Fin 3) * ((Fin (\<phi>0 + 0.0711028)) - (Fin \<phi>0))) 0.2133083999985 0.2133084000015" by (rule fin_in_mul[OF f37 f3]) simp_all
  have f39: "0.9924338215122 \<le> sin_nest (0.2133083999985 * 0.2133083999985) \<and> sin_nest (0.2133083999985 * 0.2133083999985) \<le> 0.9924338215123"
    by (rule sin_nest_bounds[where t="0.2133083999985 * 0.2133083999985" and ta="0.04550047350992" and tb="0.04550047350993" and b6l="0.0000000001605556434111" and b6u="0.0000000001605556434112" and b5l="0.00000002504480302764" and b5u="0.00000002504480302765" and b4l="0.000002754592372001" and b4u="0.000002754592372002" and b3l="0.0001982873631554" and b3u="0.0001982873631555" and b2l="0.008324311164418" and b2u="0.008324311164419" and b1l="0.166287906567" and b1u="0.1662879065671"]) simp_all
  have f40: "0.2116944705611 \<le> sin_lo 0.2133083999985" by (rule sin_lo_horner[OF _ f39]) simp_all
  have f41: "0.992433821512 \<le> sin_nest (0.2133084000015 * 0.2133084000015) \<and> sin_nest (0.2133084000015 * 0.2133084000015) \<le> 0.9924338215121"
    by (rule sin_nest_bounds[where t="0.2133084000015 * 0.2133084000015" and ta="0.04550047351119" and tb="0.0455004735112" and b6l="0.0000000001605556434111" and b6u="0.0000000001605556434112" and b5l="0.00000002504480302764" and b5u="0.00000002504480302765" and b4l="0.000002754592372001" and b4u="0.000002754592372002" and b3l="0.0001982873631554" and b3u="0.0001982873631555" and b2l="0.008324311164418" and b2u="0.008324311164419" and b1l="0.166287906567" and b1u="0.1662879065671"]) simp_all
  have f42: "sin_hi 0.2133084000015 \<le> 0.2116944705842" by (rule sin_hi_horner[OF _ f41]) simp_all
  have f43: "fin_in (Sin ((Fin 3) * ((Fin (\<phi>0 + 0.0711028)) - (Fin \<phi>0)))) 0.2116944705611 0.2116944705842" by (rule fin_in_Sin[OF f38 _ _ f40 f42]) simp_all
  have f44: "fin_in ((Fin (of_int (35 div 24) * n3)) * (Sin ((Fin 3) * ((Fin (\<phi>0 + 0.0711028)) - (Fin \<phi>0))))) 0.0000000009916739654598 0.0000000009916739655683" by (rule fin_in_mul[OF f36 f43]) simp_all
  have f45: "fin_in ((Fin 3) * ((Fin (\<phi>0 + 0.0711028)) + (Fin \<phi>0))) 5.344576400859 5.344576400865" by (rule fin_in_mul[OF f37 f4]) simp_all
  have f46: "0.9347083219927 \<le> sin_nest (0.6321874204741 * 0.6321874204741) \<and> sin_nest (0.6321874204741 * 0.6321874204741) \<le> 0.9347083219928"
    by (rule sin_nest_bounds[where t="0.6321874204741 * 0.6321874204741" and ta="0.3996609346056" and tb="0.3996609346057" and b6l="0.0000000001602848111078" and b6u="0.0000000001602848111079" and b5l="0.00000002498804880803" and b5u="0.00000002498804880804" and b4l="0.000002745745175457" and b4u="0.000002745745175459" and b3l="0.0001973153313296" and b3u="0.0001973153313297" and b2l="0.008254474103602" and b2u="0.008254474103603" and b1l="0.1633676758317" and b1u="0.1633676758318"]) simp_all
  have f47: "0.5909108429662 \<le> sin_lo 0.6321874204741" by (rule sin_lo_horner[OF _ f46]) simp_all
  have f48: "0.934708321991 \<le> sin_nest (0.6321874204821 * 0.6321874204821) \<and> sin_nest (0.6321874204821 * 0.6321874204821) \<le> 0.9347083219912"
    by (rule sin_nest_bounds[where t="0.6321874204821 * 0.6321874204821" and ta="0.3996609346158" and tb="0.3996609346159" and b6l="0.0000000001602848111077" and b6u="0.0000000001602848111078" and b5l="0.00000002498804880802" and b5u="0.00000002498804880803" and b4l="0.000002745745175457" and b4u="0.000002745745175458" and b3l="0.0001973153313296" and b3u="0.0001973153313297" and b2l="0.0082544741036" and b2u="0.008254474103601" and b1l="0.1633676758316" and b1u="0.1633676758317"]) simp_all
  have f49: "sin_hi 0.6321874204821 \<le> 0.5909108429928" by (rule sin_hi_horner[OF _ f48]) simp_all
  have f50: "fin_in (Cos ((Fin 3) * ((Fin (\<phi>0 + 0.0711028)) + (Fin \<phi>0)))) 0.5909108429662 0.5909108429928"
    by (rule fin_in_Cos_c[OF f45 _ _ _ _ f47 f49]) (simp_all add: pi_lo_def pi_hi_def)
  have f51: "fin_in (((Fin (of_int (35 div 24) * n3)) * (Sin ((Fin 3) * ((Fin (\<phi>0 + 0.0711028)) - (Fin \<phi>0))))) * (Cos ((Fin 3) * ((Fin (\<phi>0 + 0.0711028)) + (Fin \<phi>0))))) 0.0000000005859908988774 0.000000000585990898968" by (rule fin_in_mul[OF f44 f50]) simp_all
  define Md where "Md = (((Fin (of_int (35 div 24) * n3)) * (Sin ((Fin 3) * ((Fin (\<phi>0 + 0.0711028)) - (Fin \<phi>0))))) * (Cos ((Fin 3) * ((Fin (\<phi>0 + 0.0711028)) + (Fin \<phi>0)))))"
  have b_Md: "fin_in (Md) 0.0000000005859908988774 0.000000000585990898968" unfolding Md_def by (rule f51)
  have f52: "fin_in (Fin (airy_b * F0)) 6353722.489488 6353722.489489" by (rule fin_in_Fin) (simp_all add: airy_n_def n2_def n3_def airy_a_def airy_b_def F0_def)
  have f53: "fin_in ((Ma) - (Mb)) 0.07129668843931 0.07129668844043" by (rule fin_in_sub[OF b_Ma b_Mb]) simp_all
  have f54: "fin_in (((Ma) - (Mb)) + (Mc)) 0.07129632576733 0.07129632576846" by (rule fin_in_add[OF f53 b_Mc]) simp_all
  have f55: "fin_in ((((Ma) - (Mb)) + (Mc)) - (Md)) 0.07129632518133 0.07129632518247" by (rule fin_in_sub[OF f54 b_Md]) simp_all
  have f56: "fin_in ((Fin (airy_b * F0)) * ((((Ma) - (Mb)) + (Mc)) - (Md))) 452997.0647224 452997.0647298" by (rule fin_in_mul[OF f52 f55]) simp_all
  show ?thesis
    unfolding meridional_arc_def Let_def using f56[unfolded Ma_def Mb_def Mc_def Md_def] .
qed

lemma C2_tail:
  assumes loop: "latlon_loop (Fin (real_of_int (Northing \<lparr>Easting = 392395, Northing = 352997\<rparr>))) (Fin \<phi>0) (Fin 0) = Some \<phi>"
    and phi: "fin_in \<phi> 0.9263141134768 0.9263141334773"
  shows "\<exists>latd lond. OsGridRef_ToLatLon \<lparr>Easting = 392395, Northing = 352997\<rparr> = Some (osgb36ToWGS84 latd lond)
    \<and> fin_in latd 53.07383505855 53.07383620455 \<and> fin_in lond (- 2.113525487847) (- 2.113525484809)"
proof -
  define E where "E = Fin (real_of_int (Easting \<lparr>Easting = 392395, Northing = 352997\<rparr>))"
  have b_E: "fin_in E 392395 392395" by (simp add: E_def fin_in_def)
  have f1: "0.9321973241603 \<le> sin_nest ((- 0.6444822133182) * (- 0.6444822133182)) \<and> sin_nest ((- 0.6444822133182) * (- 0.6444822133182)) \<le> 0.9321973241605"
    by (rule sin_nest_bounds[where t="(- 0.6444822133182) * (- 0.6444822133182)" and ta="0.4153573232835" and tb="0.4153573232836" and b6l="0.0000000001602728078223" and b6u="0.0000000001602728078224" and b5l="0.00000002498553790098" and b5u="0.00000002498553790099" and b4l="0.000002745353996255" and b4u="0.000002745353996256" and b3l="0.0001972723955253" and b3u="0.0001972723955254" and b2l="0.00825139479917" and b2u="0.008251394799171" and b1l="0.1632393894095" and b1u="0.1632393894096"]) simp_all
  have f2: "(- 0.6007845947343) \<le> sin_lo (- 0.6444822133182)" by (rule sin_lo_horner[OF _ f1]) simp_all
  have f3: "0.9321973282813 \<le> sin_nest ((- 0.644482193317) * (- 0.644482193317)) \<and> sin_nest ((- 0.644482193317) * (- 0.644482193317)) \<le> 0.9321973282815"
    by (rule sin_nest_bounds[where t="(- 0.644482193317) * (- 0.644482193317)" and ta="0.4153572975026" and tb="0.4153572975027" and b6l="0.000000000160272807842" and b6u="0.0000000001602728078421" and b5l="0.00000002498553790511" and b5u="0.00000002498553790512" and b4l="0.000002745353996897" and b4u="0.000002745353996898" and b3l="0.0001972723955958" and b3u="0.0001972723955959" and b2l="0.008251394804226" and b2u="0.008251394804227" and b1l="0.1632393896201" and b1u="0.1632393896202"]) simp_all
  have f4: "sin_hi (- 0.644482193317) \<le> (- 0.6007845787249)" by (rule sin_hi_horner[OF _ f3]) simp_all
  have f5: "fin_in (Cos (\<phi>)) 0.6007845787249 0.6007845947343"
    by (rule fin_in_Cos_b[OF phi _ _ _ _ f2 f4]) (simp_all add: pi_lo_def pi_hi_def)
  have f6: "0.863002021369 \<le> sin_nest (0.9263141134768 * 0.9263141134768) \<and> sin_nest (0.9263141134768 * 0.9263141134768) \<le> 0.8630020213692"
    by (rule sin_nest_bounds[where t="0.9263141134768 * 0.9263141134768" and ta="0.8580578368263" and tb="0.8580578368264" and b6l="0.0000000001599342674912" and b6u="0.0000000001599342674913" and b5l="0.00000002491487553384" and b5u="0.00000002491487553385" and b4l="0.000002734353518193" and b4u="0.000002734353518194" and b3l="0.0001960664649477" and b3u="0.0001960664649478" and b2l="0.008165096966546" and b2u="0.008165096966547" and b1l="0.159660541226" and b1u="0.1596605412261"]) simp_all
  have f7: "0.7994109523431 \<le> sin_lo 0.9263141134768" by (rule sin_lo_horner[OF _ f6]) simp_all
  have f8: "0.8630020157073 \<le> sin_nest (0.9263141334773 * 0.9263141334773) \<and> sin_nest (0.9263141334773 * 0.9263141334773) \<le> 0.8630020157075"
    by (rule sin_nest_bounds[where t="0.9263141334773 * 0.9263141334773" and ta="0.8580578738798" and tb="0.8580578738799" and b6l="0.0000000001599342674629" and b6u="0.000000000159934267463" and b5l="0.00000002491487552794" and b5u="0.00000002491487552795" and b4l="0.000002734353517275" and b4u="0.000002734353517276" and b3l="0.0001960664648472" and b3u="0.0001960664648473" and b2l="0.008165096959367" and b2u="0.008165096959368" and b1l="0.1596605409296" and b1u="0.1596605409297"]) simp_all
  have f9: "sin_hi 0.9263141334773 \<le> 0.7994109643793" by (rule sin_hi_horner[OF _ f8]) simp_all
  have f10: "fin_in (Sin (\<phi>)) 0.7994109523431 0.7994109643793" by (rule fin_in_Sin[OF phi _ _ f7 f9]) simp_all
  define cos\<phi> where "cos\<phi> = (Cos (\<phi>))"
  have b_cosphi: "fin_in (cos\<phi>) 0.6007845787249 0.6007845947343" unfolding cos\<phi>_def by (rule f5)
  define sin\<phi> where "sin\<phi> = (Sin (\<phi>))"
  have b_sinphi: "fin_in (sin\<phi>) 0.7994109523431 0.7994109643793" unfolding sin\<phi>_def by (rule f10)
  have f11: "fin_in (Fin 1) 1 1" by (rule fin_in_Fin) (simp_all)
  have f12: "fin_in (Fin e2) 0.006670540074149 0.00667054007415" by (rule fin_in_Fin) (simp_all add: e2_def airy_a_def airy_b_def)
  have f13: "fin_in ((Fin e2) * (sin\<phi>)) 0.005332502793318 0.005332502873608" by (rule fin_in_mul[OF f12 b_sinphi]) simp_all
  have f14: "fin_in (((Fin e2) * (sin\<phi>)) * (sin\<phi>)) 0.004262861136378 0.004262861264747" by (rule fin_in_mul[OF f13 b_sinphi]) simp_all
  have f15: "fin_in ((Fin 1) - (((Fin e2) * (sin\<phi>)) * (sin\<phi>))) 0.9957371387352 0.9957371388637" by (rule fin_in_sub[OF f11 f14]) simp_all
  have f16: "fin_in (Fin (airy_a * F0)) 6375020.480988 6375020.480989" by (rule fin_in_Fin) (simp_all add: airy_a_def F0_def)
  have f17: "fin_in (Sqrt ((Fin 1) - (((Fin e2) * (sin\<phi>)) * (sin\<phi>)))) 0.99786629301485 0.99786629307924" by (rule fin_in_Sqrt[OF f15]) simp_all
  have f18: "fin_in ((Fin (airy_a * F0)) / (Sqrt ((Fin 1) - (((Fin e2) * (sin\<phi>)) * (sin\<phi>))))) 6388651.991957 6388651.992371" by (rule fin_in_div[OF f16 f17]) simp_all
  define \<nu> where "\<nu> = ((Fin (airy_a * F0)) / (Sqrt ((Fin 1) - (((Fin e2) * (sin\<phi>)) * (sin\<phi>)))))"
  have b_nu: "fin_in (\<nu>) 6388651.991957 6388651.992371" unfolding \<nu>_def by (rule f18)
  have f19: "fin_in (Fin (airy_a * F0 * (1 - e2))) 6332495.651397 6332495.651398" by (rule fin_in_Fin) (simp_all add: e2_def airy_a_def airy_b_def F0_def)
  have f20: "fin_in (Pow_1_5 ((Fin 1) - (((Fin e2) * (sin\<phi>)) * (sin\<phi>)))) 0.9936125274469 0.9936125276393"
    by (rule fin_in_Pow_1_5[OF f15, where sl="0.99786629301485" and su="0.99786629307924"]) simp_all
  have f21: "fin_in ((Fin (airy_a * F0 * (1 - e2))) / (Pow_1_5 ((Fin 1) - (((Fin e2) * (sin\<phi>)) * (sin\<phi>))))) 6373204.317826 6373204.319062" by (rule fin_in_div[OF f19 f20]) simp_all
  define \<rho> where "\<rho> = ((Fin (airy_a * F0 * (1 - e2))) / (Pow_1_5 ((Fin 1) - (((Fin e2) * (sin\<phi>)) * (sin\<phi>)))))"
  have b_rho: "fin_in (\<rho>) 6373204.317826 6373204.319062" unfolding \<rho>_def by (rule f21)
  have f22: "fin_in ((\<nu>) / (\<rho>)) 1.002423847113 1.002423847374" by (rule fin_in_div[OF b_nu b_rho]) simp_all
  have f23: "fin_in (((\<nu>) / (\<rho>)) - (Fin 1)) 0.002423847113 0.002423847374" by (rule fin_in_sub[OF f22 f11]) simp_all
  define \<eta>2 where "\<eta>2 = (((\<nu>) / (\<rho>)) - (Fin 1))"
  have b_eta2: "fin_in (\<eta>2) 0.002423847113 0.002423847374" unfolding \<eta>2_def by (rule f23)
  have f24: "fin_in (Tan (\<phi>)) 1.330611602477 1.330611657969" by (rule fin_in_Tan[OF f10 f5]) simp_all
  define tan\<phi> where "tan\<phi> = (Tan (\<phi>))"
  have b_tanphi: "fin_in (tan\<phi>) 1.330611602477 1.330611657969" unfolding tan\<phi>_def by (rule f24)
  have f25: "fin_in ((tan\<phi>) * (tan\<phi>)) 1.770527236646 1.770527384324" by (rule fin_in_mul[OF b_tanphi b_tanphi]) simp_all
  define tan2\<phi> where "tan2\<phi> = ((tan\<phi>) * (tan\<phi>))"
  have b_tan2phi: "fin_in (tan2\<phi>) 1.770527236646 1.770527384324" unfolding tan2\<phi>_def by (rule f25)
  have f26: "fin_in ((tan2\<phi>) * (tan2\<phi>)) 3.134766695705 3.134767218642" by (rule fin_in_mul[OF b_tan2phi b_tan2phi]) simp_all
  define tan4\<phi> where "tan4\<phi> = ((tan2\<phi>) * (tan2\<phi>))"
  have b_tan4phi: "fin_in (tan4\<phi>) 3.134766695705 3.134767218642" unfolding tan4\<phi>_def by (rule f26)
  have f27: "fin_in ((tan4\<phi>) * (tan2\<phi>)) 5.550189815276 5.550191204087" by (rule fin_in_mul[OF b_tan4phi b_tan2phi]) simp_all
  define tan6\<phi> where "tan6\<phi> = ((tan4\<phi>) * (tan2\<phi>))"
  have b_tan6phi: "fin_in (tan6\<phi>) 5.550189815276 5.550191204087" unfolding tan6\<phi>_def by (rule f27)
  have f28: "fin_in ((Fin 1) / (cos\<phi>)) 1.664490083075 1.664490127431" by (rule fin_in_div[OF f11 b_cosphi]) simp_all
  define sec\<phi> where "sec\<phi> = ((Fin 1) / (cos\<phi>))"
  have b_secphi: "fin_in (sec\<phi>) 1.664490083075 1.664490127431" unfolding sec\<phi>_def by (rule f28)
  have f29: "fin_in ((\<nu>) * (\<nu>)) 40814874274330 40814874279630" by (rule fin_in_mul[OF b_nu b_nu]) simp_all
  have f30: "fin_in (((\<nu>) * (\<nu>)) * (\<nu>)) 260752027834100000000 260752027885000000000" by (rule fin_in_mul[OF f29 b_nu]) simp_all
  define \<nu>3 where "\<nu>3 = (((\<nu>) * (\<nu>)) * (\<nu>))"
  have b_nu3: "fin_in (\<nu>3) 260752027834100000000 260752027885000000000" unfolding \<nu>3_def by (rule f30)
  have f31: "fin_in ((\<nu>3) * (\<nu>)) 1665853962029000000000000000 1665853962463000000000000000" by (rule fin_in_mul[OF b_nu3 b_nu]) simp_all
  have f32: "fin_in (((\<nu>3) * (\<nu>)) * (\<nu>)) 10642561232820000000000000000000000 10642561236290000000000000000000000" by (rule fin_in_mul[OF f31 b_nu]) simp_all
  define \<nu>5 where "\<nu>5 = (((\<nu>3) * (\<nu>)) * (\<nu>))"
  have b_nu5: "fin_in (\<nu>5) 10642561232820000000000000000000000 10642561236290000000000000000000000" unfolding \<nu>5_def by (rule f32)
  have f33: "fin_in ((\<nu>5) * (\<nu>)) 67991620019570000000000000000000000000000 67991620046160000000000000000000000000000" by (rule fin_in_mul[OF b_nu5 b_nu]) simp_all
  have f34: "fin_in (((\<nu>5) * (\<nu>)) * (\<nu>)) 434374798674400000000000000000000000000000000000 434374798872500000000000000000000000000000000000" by (rule fin_in_mul[OF f33 b_nu]) simp_all
  define \<nu>7 where "\<nu>7 = (((\<nu>5) * (\<nu>)) * (\<nu>))"
  have b_nu7: "fin_in (\<nu>7) 434374798674400000000000000000000000000000000000 434374798872500000000000000000000000000000000000" unfolding \<nu>7_def by (rule f34)
  have f35: "fin_in (Fin 2) 2 2" by (rule fin_in_Fin) (simp_all)
  have f36: "fin_in ((Fin 2) * (\<rho>)) 12746408.63565 12746408.63813" by (rule fin_in_mul[OF f35 b_rho]) simp_all
  have f37: "fin_in (((Fin 2) * (\<rho>)) * (\<nu>)) 81432368920440 81432368941570" by (rule fin_in_mul[OF f36 b_nu]) simp_all
  have f38: "fin_in ((tan\<phi>) / (((Fin 2) * (\<rho>)) * (\<nu>))) 0.00000000000001634008220283 0.00000000000001634008288853" by (rule fin_in_div[OF b_tanphi f37]) simp_all
  define VII where "VII = ((tan\<phi>) / (((Fin 2) * (\<rho>)) * (\<nu>)))"
  have b_VII: "fin_in (VII) 0.00000000000001634008220283 0.00000000000001634008288853" unfolding VII_def by (rule f38)
  have f39: "fin_in (Fin 24) 24 24" by (rule fin_in_Fin) (simp_all)
  have f40: "fin_in ((Fin 24) * (\<rho>)) 152956903.6278 152956903.6575" by (rule fin_in_mul[OF f39 b_rho]) simp_all
  have f41: "fin_in (((Fin 24) * (\<rho>)) * (\<nu>3)) 39883822792170000000000000000 39883822807710000000000000000" by (rule fin_in_mul[OF f40 b_nu3]) simp_all
  have f42: "fin_in ((tan\<phi>) / (((Fin 24) * (\<rho>)) * (\<nu>3))) 0.00000000000000000000000000003336218819575 0.0000000000000000000000000000333621896001" by (rule fin_in_div[OF b_tanphi f41]) simp_all
  have f43: "fin_in (Fin 5) 5 5" by (rule fin_in_Fin) (simp_all)
  have f44: "fin_in (Fin 3) 3 3" by (rule fin_in_Fin) (simp_all)
  have f45: "fin_in ((Fin 3) * (tan2\<phi>)) 5.311581709938 5.311582152972" by (rule fin_in_mul[OF f44 b_tan2phi]) simp_all
  have f46: "fin_in ((Fin 5) + ((Fin 3) * (tan2\<phi>))) 10.31158170993 10.31158215298" by (rule fin_in_add[OF f43 f45]) simp_all
  have f47: "fin_in (((Fin 5) + ((Fin 3) * (tan2\<phi>))) + (\<eta>2)) 10.31400555704 10.31400600036" by (rule fin_in_add[OF f46 b_eta2]) simp_all
  have f48: "fin_in (Fin 9) 9 9" by (rule fin_in_Fin) (simp_all)
  have f49: "fin_in ((Fin 9) * (tan2\<phi>)) 15.93474512981 15.93474645892" by (rule fin_in_mul[OF f48 b_tan2phi]) simp_all
  have f50: "fin_in (((Fin 9) * (tan2\<phi>)) * (\<eta>2)) 0.03862338597928 0.03862339335981" by (rule fin_in_mul[OF f49 b_eta2]) simp_all
  have f51: "fin_in ((((Fin 5) + ((Fin 3) * (tan2\<phi>))) + (\<eta>2)) - (((Fin 9) * (tan2\<phi>)) * (\<eta>2))) 10.27538216368 10.27538261439" by (rule fin_in_sub[OF f47 f50]) simp_all
  have f52: "fin_in (((tan\<phi>) / (((Fin 24) * (\<rho>)) * (\<nu>3))) * ((((Fin 5) + ((Fin 3) * (tan2\<phi>))) + (\<eta>2)) - (((Fin 9) * (tan2\<phi>)) * (\<eta>2)))) 0.0000000000000000000000000003428092335279 0.0000000000000000000000000003428092629949" by (rule fin_in_mul[OF f42 f51]) simp_all
  define VIII where "VIII = (((tan\<phi>) / (((Fin 24) * (\<rho>)) * (\<nu>3))) * ((((Fin 5) + ((Fin 3) * (tan2\<phi>))) + (\<eta>2)) - (((Fin 9) * (tan2\<phi>)) * (\<eta>2))))"
  have b_VIII: "fin_in (VIII) 0.0000000000000000000000000003428092335279 0.0000000000000000000000000003428092629949" unfolding VIII_def by (rule f52)
  have f53: "fin_in (Fin 720) 720 720" by (rule fin_in_Fin) (simp_all)
  have f54: "fin_in ((Fin 720) * (\<rho>)) 4588707108.834 4588707109.725" by (rule fin_in_mul[OF f53 b_rho]) simp_all
  have f55: "fin_in (((Fin 720) * (\<rho>)) * (\<nu>5)) 48835596385240000000000000000000000000000000 48835596410650000000000000000000000000000000" by (rule fin_in_mul[OF f54 b_nu5]) simp_all
  have f56: "fin_in ((tan\<phi>) / (((Fin 720) * (\<rho>)) * (\<nu>5))) 0.00000000000000000000000000000000000000000002724675647018 0.00000000000000000000000000000000000000000002724675762066" by (rule fin_in_div[OF b_tanphi f55]) simp_all
  have f57: "fin_in (Fin 61) 61 61" by (rule fin_in_Fin) (simp_all)
  have f58: "fin_in (Fin 90) 90 90" by (rule fin_in_Fin) (simp_all)
  have f59: "fin_in ((Fin 90) * (tan2\<phi>)) 159.3474512981 159.3474645892" by (rule fin_in_mul[OF f58 b_tan2phi]) simp_all
  have f60: "fin_in ((Fin 61) + ((Fin 90) * (tan2\<phi>))) 220.3474512981 220.3474645892" by (rule fin_in_add[OF f57 f59]) simp_all
  have f61: "fin_in (Fin 45) 45 45" by (rule fin_in_Fin) (simp_all)
  have f62: "fin_in ((Fin 45) * (tan4\<phi>)) 141.0645013067 141.0645248389" by (rule fin_in_mul[OF f61 b_tan4phi]) simp_all
  have f63: "fin_in (((Fin 61) + ((Fin 90) * (tan2\<phi>))) + ((Fin 45) * (tan4\<phi>))) 361.4119526048 361.4119894281" by (rule fin_in_add[OF f60 f62]) simp_all
  have f64: "fin_in (((tan\<phi>) / (((Fin 720) * (\<rho>)) * (\<nu>5))) * (((Fin 61) + ((Fin 90) * (tan2\<phi>))) + ((Fin 45) * (tan4\<phi>)))) 0.000000000000000000000000000000000000000009847303458035 0.000000000000000000000000000000000000000009847304877148" by (rule fin_in_mul[OF f56 f63]) simp_all
  define IX where "IX = (((tan\<phi>) / (((Fin 720) * (\<rho>)) * (\<nu>5))) * (((Fin 61) + ((Fin 90) * (tan2\<phi>))) + ((Fin 45) * (tan4\<phi>))))"
  have b_IX: "fin_in (IX) 0.000000000000000000000000000000000000000009847303458035 0.000000000000000000000000000000000000000009847304877148" unfolding IX_def by (rule f64)
  have f65: "fin_in ((sec\<phi>) / (\<nu>)) 0.0000002605385431954 0.0000002605385501553" by (rule fin_in_div[OF b_secphi b_nu]) simp_all
  define X' where "X' = ((sec\<phi>) / (\<nu>))"
  have b_Xp: "fin_in (X') 0.0000002605385431954 0.0000002605385501553" unfolding X'_def by (rule f65)
  have f66: "fin_in (Fin 6) 6 6" by (rule fin_in_Fin) (simp_all)
  have f67: "fin_in ((Fin 6) * (\<nu>3)) 1564512167004000000000 1564512167310000000000" by (rule fin_in_mul[OF f66 b_nu3]) simp_all
  have f68: "fin_in ((sec\<phi>) / ((Fin 6) * (\<nu>3))) 0.000000000000000000001063903571895 0.000000000000000000001063903600455" by (rule fin_in_div[OF b_secphi f67]) simp_all
  have f69: "fin_in ((\<nu>) / (\<rho>)) 1.002423847113 1.002423847374" by (rule fin_in_div[OF b_nu b_rho]) simp_all
  have f70: "fin_in (Fin 2) 2 2" by (rule fin_in_Fin) (simp_all)
  have f71: "fin_in ((Fin 2) * (tan2\<phi>)) 3.541054473292 3.541054768648" by (rule fin_in_mul[OF f70 b_tan2phi]) simp_all
  have f72: "fin_in (((\<nu>) / (\<rho>)) + ((Fin 2) * (tan2\<phi>))) 4.543478320405 4.543478616022" by (rule fin_in_add[OF f69 f71]) simp_all
  have f73: "fin_in (((sec\<phi>) / ((Fin 6) * (\<nu>3))) * (((\<nu>) / (\<rho>)) + ((Fin 2) * (tan2\<phi>)))) 0.000000000000000000004833822813906 0.000000000000000000004833823258177" by (rule fin_in_mul[OF f68 f72]) simp_all
  define XI where "XI = (((sec\<phi>) / ((Fin 6) * (\<nu>3))) * (((\<nu>) / (\<rho>)) + ((Fin 2) * (tan2\<phi>))))"
  have b_XI: "fin_in (XI) 0.000000000000000000004833822813906 0.000000000000000000004833823258177" unfolding XI_def by (rule f73)
  have f74: "fin_in (Fin 120) 120 120" by (rule fin_in_Fin) (simp_all)
  have f75: "fin_in ((Fin 120) * (\<nu>5)) 1277107347938000000000000000000000000 1277107348355000000000000000000000000" by (rule fin_in_mul[OF f74 b_nu5]) simp_all
  have f76: "fin_in ((sec\<phi>) / ((Fin 120) * (\<nu>5))) 0.000000000000000000000000000000000001303328248184 0.000000000000000000000000000000000001303328283342" by (rule fin_in_div[OF b_secphi f75]) simp_all
  have f77: "fin_in (Fin 5) 5 5" by (rule fin_in_Fin) (simp_all)
  have f78: "fin_in (Fin 28) 28 28" by (rule fin_in_Fin) (simp_all)
  have f79: "fin_in ((Fin 28) * (tan2\<phi>)) 49.57476262608 49.57476676108" by (rule fin_in_mul[OF f78 b_tan2phi]) simp_all
  have f80: "fin_in ((Fin 5) + ((Fin 28) * (tan2\<phi>))) 54.57476262608 54.57476676108" by (rule fin_in_add[OF f77 f79]) simp_all
  have f81: "fin_in (Fin 24) 24 24" by (rule fin_in_Fin) (simp_all)
  have f82: "fin_in ((Fin 24) * (tan4\<phi>)) 75.23440069692 75.23441324741" by (rule fin_in_mul[OF f81 b_tan4phi]) simp_all
  have f83: "fin_in (((Fin 5) + ((Fin 28) * (tan2\<phi>))) + ((Fin 24) * (tan4\<phi>))) 129.809163323 129.8091800085" by (rule fin_in_add[OF f80 f82]) simp_all
  have f84: "fin_in (((sec\<phi>) / ((Fin 120) * (\<nu>5))) * (((Fin 5) + ((Fin 28) * (tan2\<phi>))) + ((Fin 24) * (tan4\<phi>)))) 0.0000000000000000000000000000000001691839494319 0.0000000000000000000000000000000001691839757426" by (rule fin_in_mul[OF f76 f83]) simp_all
  define XII where "XII = (((sec\<phi>) / ((Fin 120) * (\<nu>5))) * (((Fin 5) + ((Fin 28) * (tan2\<phi>))) + ((Fin 24) * (tan4\<phi>))))"
  have b_XII: "fin_in (XII) 0.0000000000000000000000000000000001691839494319 0.0000000000000000000000000000000001691839757426" unfolding XII_def by (rule f84)
  have f85: "fin_in (Fin 5040) 5040 5040" by (rule fin_in_Fin) (simp_all)
  have f86: "fin_in ((Fin 5040) * (\<nu>7)) 2189248985318000000000000000000000000000000000000000 2189248986318000000000000000000000000000000000000000" by (rule fin_in_mul[OF f85 b_nu7]) simp_all
  have f87: "fin_in ((sec\<phi>) / ((Fin 5040) * (\<nu>7))) 0.0000000000000000000000000000000000000000000000000007603018630943 0.0000000000000000000000000000000000000000000000000007603018837025" by (rule fin_in_div[OF b_secphi f86]) simp_all
  have f88: "fin_in (Fin 61) 61 61" by (rule fin_in_Fin) (simp_all)
  have f89: "fin_in (Fin 662) 662 662" by (rule fin_in_Fin) (simp_all)
  have f90: "fin_in ((Fin 662) * (tan2\<phi>)) 1172.089030659 1172.089128423" by (rule fin_in_mul[OF f89 b_tan2phi]) simp_all
  have f91: "fin_in ((Fin 61) + ((Fin 662) * (tan2\<phi>))) 1233.089030659 1233.089128423" by (rule fin_in_add[OF f88 f90]) simp_all
  have f92: "fin_in (Fin 1320) 1320 1320" by (rule fin_in_Fin) (simp_all)
  have f93: "fin_in ((Fin 1320) * (tan4\<phi>)) 4137.89203833 4137.892728608" by (rule fin_in_mul[OF f92 b_tan4phi]) simp_all
  have f94: "fin_in (((Fin 61) + ((Fin 662) * (tan2\<phi>))) + ((Fin 1320) * (tan4\<phi>))) 5370.981068989 5370.981857031" by (rule fin_in_add[OF f91 f93]) simp_all
  have f95: "fin_in (Fin 720) 720 720" by (rule fin_in_Fin) (simp_all)
  have f96: "fin_in ((Fin 720) * (tan6\<phi>)) 3996.136666998 3996.137666943" by (rule fin_in_mul[OF f95 b_tan6phi]) simp_all
  have f97: "fin_in ((((Fin 61) + ((Fin 662) * (tan2\<phi>))) + ((Fin 1320) * (tan4\<phi>))) + ((Fin 720) * (tan6\<phi>))) 9367.117735987 9367.119523974" by (rule fin_in_add[OF f94 f96]) simp_all
  have f98: "fin_in (((sec\<phi>) / ((Fin 5040) * (\<nu>7))) * ((((Fin 61) + ((Fin 662) * (tan2\<phi>))) + ((Fin 1320) * (tan4\<phi>))) + ((Fin 720) * (tan6\<phi>)))) 0.000000000000000000000000000000000000000000000007121837066494 0.000000000000000000000000000000000000000000000007121838618944" by (rule fin_in_mul[OF f87 f97]) simp_all
  define XIIA where "XIIA = (((sec\<phi>) / ((Fin 5040) * (\<nu>7))) * ((((Fin 61) + ((Fin 662) * (tan2\<phi>))) + ((Fin 1320) * (tan4\<phi>))) + ((Fin 720) * (tan6\<phi>))))"
  have b_XIIA: "fin_in (XIIA) 0.000000000000000000000000000000000000000000000007121837066494 0.000000000000000000000000000000000000000000000007121838618944" unfolding XIIA_def by (rule f98)
  have f99: "fin_in (Fin E0) 400000 400000" by (rule fin_in_Fin) (simp_all add: E0_def)
  have f100: "fin_in ((E) - (Fin E0)) (- 7605) (- 7605)" by (rule fin_in_sub[OF b_E f99]) simp_all
  define dE where "dE = ((E) - (Fin E0))"
  have b_dE: "fin_in (dE) (- 7605) (- 7605)" unfolding dE_def by (rule f100)
  have f101: "fin_in ((dE) * (dE)) 57836025 57836025" by (rule fin_in_mul[OF b_dE b_dE]) simp_all
  define dE2 where "dE2 = ((dE) * (dE))"
  have b_dE2: "fin_in (dE2) 57836025 57836025" unfolding dE2_def by (rule f101)
  have f102: "fin_in ((dE2) * (dE)) (- 439842970125) (- 439842970125)" by (rule fin_in_mul[OF b_dE2 b_dE]) simp_all
  define dE3 where "dE3 = ((dE2) * (dE))"
  have b_dE3: "fin_in (dE3) (- 439842970125) (- 439842970125)" unfolding dE3_def by (rule f102)
  have f103: "fin_in ((dE2) * (dE2)) 3345005787800000 3345005787801000" by (rule fin_in_mul[OF b_dE2 b_dE2]) simp_all
  define dE4 where "dE4 = ((dE2) * (dE2))"
  have b_dE4: "fin_in (dE4) 3345005787800000 3345005787801000" unfolding dE4_def by (rule f103)
  have f104: "fin_in ((dE3) * (dE2)) (- 25438769016230000000) (- 25438769016220000000)" by (rule fin_in_mul[OF b_dE3 b_dE2]) simp_all
  define dE5 where "dE5 = ((dE3) * (dE2))"
  have b_dE5: "fin_in (dE5) (- 25438769016230000000) (- 25438769016220000000)" unfolding dE5_def by (rule f104)
  have f105: "fin_in ((dE4) * (dE2)) 193461838368300000000000 193461838368500000000000" by (rule fin_in_mul[OF b_dE4 b_dE2]) simp_all
  define dE6 where "dE6 = ((dE4) * (dE2))"
  have b_dE6: "fin_in (dE6) 193461838368300000000000 193461838368500000000000" unfolding dE6_def by (rule f105)
  have f106: "fin_in ((dE5) * (dE2)) (- 1471277280792000000000000000) (- 1471277280791000000000000000)" by (rule fin_in_mul[OF b_dE5 b_dE2]) simp_all
  define dE7 where "dE7 = ((dE5) * (dE2))"
  have b_dE7: "fin_in (dE7) (- 1471277280792000000000000000) (- 1471277280791000000000000000)" unfolding dE7_def by (rule f106)
  have f107: "fin_in ((VII) * (dE2)) 0.0000009450454027849 0.0000009450454424431" by (rule fin_in_mul[OF b_VII b_dE2]) simp_all
  have f108: "fin_in ((\<phi>) - ((VII) * (dE2))) 0.9263131684313 0.9263131884319" by (rule fin_in_sub[OF phi f107]) simp_all
  have f109: "fin_in ((VIII) * (dE4)) 0.000000000001146698870262 0.00000000000114669896883" by (rule fin_in_mul[OF b_VIII b_dE4]) simp_all
  have f110: "fin_in (((\<phi>) - ((VII) * (dE2))) + ((VIII) * (dE4))) 0.9263131684324 0.9263131884331" by (rule fin_in_add[OF f108 f109]) simp_all
  have f111: "fin_in ((IX) * (dE6)) 0.000000000000000001905077429961 0.000000000000000001905077704509" by (rule fin_in_mul[OF b_IX b_dE6]) simp_all
  have f112: "fin_in ((((\<phi>) - ((VII) * (dE2))) + ((VIII) * (dE4))) - ((IX) * (dE6))) 0.9263131684323 0.9263131884331" by (rule fin_in_sub[OF f110 f111]) simp_all
  define \<phi>'' where "\<phi>'' = ((((\<phi>) - ((VII) * (dE2))) + ((VIII) * (dE4))) - ((IX) * (dE6)))"
  have b_phipp: "fin_in (\<phi>'') 0.9263131684323 0.9263131884331" unfolding \<phi>''_def by (rule f112)
  have f113: "fin_in (Fin lambda0) (- 0.03490658503989) (- 0.03490658503987)"
    by (rule fin_in_Fin) (insert pi_bounds, simp_all add: lambda0_def toRadians_def pi_lo_def pi_hi_def)
  have f114: "fin_in ((X') * (dE)) (- 0.001981395673932) (- 0.001981395621001)" by (rule fin_in_mul[OF b_Xp b_dE]) simp_all
  have f115: "fin_in ((Fin lambda0) + ((X') * (dE))) (- 0.03688798071383) (- 0.03688798066087)" by (rule fin_in_add[OF f113 f114]) simp_all
  have f116: "fin_in ((XI) * (dE3)) (- 0.000000002126123178936) (- 0.000000002126122983526)" by (rule fin_in_mul[OF b_XI b_dE3]) simp_all
  have f117: "fin_in (((Fin lambda0) + ((X') * (dE))) - ((XI) * (dE3))) (- 0.03688797858771) (- 0.03688797853474)" by (rule fin_in_sub[OF f115 f116]) simp_all
  have f118: "fin_in ((XII) * (dE5)) (- 0.000000000000004303832080164) (- 0.000000000000004303831410849)" by (rule fin_in_mul[OF b_XII b_dE5]) simp_all
  have f119: "fin_in ((((Fin lambda0) + ((X') * (dE))) - ((XI) * (dE3))) + ((XII) * (dE5))) (- 0.03688797858772) (- 0.03688797853474)" by (rule fin_in_add[OF f117 f118]) simp_all
  have f120: "fin_in ((XIIA) * (dE7)) (- 0.00000000000000000001047819935752) (- 0.00000000000000000001047819707342)" by (rule fin_in_mul[OF b_XIIA b_dE7]) simp_all
  have f121: "fin_in (((((Fin lambda0) + ((X') * (dE))) - ((XI) * (dE3))) + ((XII) * (dE5))) - ((XIIA) * (dE7))) (- 0.03688797858772) (- 0.03688797853473)" by (rule fin_in_sub[OF f119 f120]) simp_all
  define lam where "lam = (((((Fin lambda0) + ((X') * (dE))) - ((XI) * (dE3))) + ((XII) * (dE5))) - ((XIIA) * (dE7)))"
  have b_lam: "fin_in (lam) (- 0.03688797858772) (- 0.03688797853473)" unfolding lam_def by (rule f121)
  have f122: "fin_in (Fin toDegrees) 57.29577951308 57.29577951311" by (rule fin_in_toDegrees) (simp_all add: pi_lo_def pi_hi_def)
  have f123: "fin_in ((\<phi>'') * (Fin toDegrees)) 53.07383505855 53.07383620455" by (rule fin_in_mul[OF b_phipp f122]) simp_all
  have f124: "fin_in (Fin toDegrees) 57.29577951308 57.29577951311" by (rule fin_in_toDegrees) (simp_all add: pi_lo_def pi_hi_def)
  have f125: "fin_in ((lam) * (Fin toDegrees)) (- 2.113525487847) (- 2.113525484809)" by (rule fin_in_mul[OF b_lam f124]) simp_all
  have r: "OsGridRef_ToLatLon \<lparr>Easting = 392395, Northing = 352997\<rparr> = Some (osgb36ToWGS84 ((\<phi>'') * (Fin toDegrees)) ((lam) * (Fin toDegrees)))"
    unfolding OsGridRef_ToLatLon_def Let_def loop option.case E_def cos\<phi>_def sin\<phi>_def \<nu>_def \<rho>_def \<eta>2_def tan\<phi>_def tan2\<phi>_def tan4\<phi>_def tan6\<phi>_def sec\<phi>_def \<nu>3_def \<nu>5_def \<nu>7_def VII_def VIII_def IX_def X'_def XI_def XII_def XIIA_def dE_def dE2_def dE3_def dE4_def dE5_def dE6_def dE7_def \<phi>''_def lam_def by (rule refl)
  from r f123 f125 show ?thesis by blast
qed

lemma C2_ToCartesian:
  assumes lat: "fin_in latd 53.07383505855 53.07383620455" and lon: "fin_in lond (- 2.113525487847) (- 2.113525484809)"
  shows "\<exists>x y z. ToCartesian \<lparr>Lat = latd, Lon = lond, Height = Fin 0, Datum = OSGB36\<rparr> = \<lparr>X = x, Y = y, Z = z, Datum = OSGB36\<rparr>
    \<and> fin_in x 3837127.308459 3837127.411058 \<and> fin_in y (- 141608.1094444) (- 141608.1053807) \<and> fin_in z 5075110.840552 5075110.917306"
proof -
  define ellipsoid where "ellipsoid = Ellipsoid (LatLonEllipsoidalDatum.Datum \<lparr>Lat = latd, Lon = lond, Height = Fin 0, Datum = OSGB36\<rparr>)"
  have f1: "fin_in (Lat \<lparr>Lat = latd, Lon = lond, Height = Fin 0, Datum = OSGB36\<rparr>) 53.07383505855 53.07383620455" using lat by simp
  have f2: "fin_in (Lon \<lparr>Lat = latd, Lon = lond, Height = Fin 0, Datum = OSGB36\<rparr>) (- 2.113525487847) (- 2.113525484809)" using lon by simp
  have f3: "fin_in (Fin toRadians) 0.01745329251993 0.01745329251995" by (rule fin_in_toRadians) (simp_all add: pi_lo_def pi_hi_def)
  have f4: "fin_in ((Lat \<lparr>Lat = latd, Lon = lond, Height = Fin 0, Datum = OSGB36\<rparr>) * (Fin toRadians)) 0.9263131684313 0.926313188434" by (rule fin_in_mul[OF f1 f3]) simp_all
  define \<phi> where "\<phi> = ((Lat \<lparr>Lat = latd, Lon = lond, Height = Fin 0, Datum = OSGB36\<rparr>) * (Fin toRadians))"
  have b_phi: "fin_in (\<phi>) 0.9263131684313 0.926313188434" unfolding \<phi>_def by (rule f4)
  have f5: "fin_in (Fin toRadians) 0.01745329251993 0.01745329251995" by (rule fin_in_toRadians) (simp_all add: pi_lo_def pi_hi_def)
  have f6: "fin_in ((Lon \<lparr>Lat = latd, Lon = lond, Height = Fin 0, Datum = OSGB36\<rparr>) * (Fin toRadians)) (- 0.03688797858777) (- 0.03688797853469)" by (rule fin_in_mul[OF f2 f5]) simp_all
  define lam where "lam = ((Lon \<lparr>Lat = latd, Lon = lond, Height = Fin 0, Datum = OSGB36\<rparr>) * (Fin toRadians))"
  have b_lam: "fin_in (lam) (- 0.03688797858777) (- 0.03688797853469)" unfolding lam_def by (rule f6)
  have f7: "fin_in (Height \<lparr>Lat = latd, Lon = lond, Height = Fin 0, Datum = OSGB36\<rparr>) 0 0" by (simp, rule fin_in_Fin, simp_all)
  define h where "h = (Height \<lparr>Lat = latd, Lon = lond, Height = Fin 0, Datum = OSGB36\<rparr>)"
  have b_h: "fin_in (h) 0 0" unfolding h_def by (rule f7)
  have f8: "fin_in (ell_a ellipsoid) 6377563.396 6377563.396" by (simp add: ellipsoid_def OSGB36_eq, rule fin_in_Fin, simp_all)
  define a where "a = (ell_a ellipsoid)"
  have b_a: "fin_in (a) 6377563.396 6377563.396" unfolding a_def by (rule f8)
  have f9: "fin_in (ell_f ellipsoid) 0.003340850641497 0.003340850641498" by (simp add: ellipsoid_def OSGB36_eq, rule fin_in_Fin, simp_all)
  define f where "f = (ell_f ellipsoid)"
  have b_f: "fin_in (f) 0.003340850641497 0.003340850641498" unfolding f_def by (rule f9)
  have f10: "0.8630022888886 \<le> sin_nest (0.9263131684313 * 0.9263131684313) \<and> sin_nest (0.9263131684313 * 0.9263131684313) \<le> 0.8630022888888"
    by (rule sin_nest_bounds[where t="0.9263131684313 * 0.9263131684313" and ta="0.8580560860092" and tb="0.8580560860093" and b6l="0.0000000001599342688301" and b6u="0.0000000001599342688302" and b5l="0.00000002491487581271" and b5u="0.00000002491487581272" and b4l="0.000002734353561575" and b4u="0.000002734353561576" and b3l="0.0001960664696978" and b3u="0.0001960664696979" and b2l="0.008165097305746" and b2u="0.008165097305747" and b1l="0.1596605552306" and b1u="0.1596605552307"]) simp_all
  have f11: "0.7994103845738 \<le> sin_lo 0.9263131684313" by (rule sin_lo_horner[OF _ f10]) simp_all
  have f12: "0.8630022832264 \<le> sin_nest (0.926313188434 * 0.926313188434) \<and> sin_nest (0.926313188434 * 0.926313188434) \<le> 0.8630022832266"
    by (rule sin_nest_bounds[where t="0.926313188434 * 0.926313188434" and ta="0.8580561230667" and tb="0.8580561230668" and b6l="0.0000000001599342688017" and b6u="0.0000000001599342688018" and b5l="0.0000000249148758068" and b5u="0.00000002491487580681" and b4l="0.000002734353560657" and b4u="0.000002734353560658" and b3l="0.0001960664695973" and b3u="0.0001960664695974" and b2l="0.008165097298567" and b2u="0.008165097298568" and b1l="0.1596605549341" and b1u="0.1596605549342"]) simp_all
  have f13: "sin_hi 0.926313188434 \<le> 0.7994103966115" by (rule sin_hi_horner[OF _ f12]) simp_all
  have f14: "fin_in (Sin (\<phi>)) 0.7994103845738 0.7994103966115" by (rule fin_in_Sin[OF b_phi _ _ f11 f13]) simp_all
  define sin\<phi> where "sin\<phi> = (Sin (\<phi>))"
  have b_sinphi: "fin_in (sin\<phi>) 0.7994103845738 0.7994103966115" unfolding sin\<phi>_def by (rule f14)
  have f15: "0.9321971294471 \<le> sin_nest ((- 0.6444831583637) * (- 0.6444831583637)) \<and> sin_nest ((- 0.6444831583637) * (- 0.6444831583637)) \<le> 0.9321971294472"
    by (rule sin_nest_bounds[where t="(- 0.6444831583637) * (- 0.6444831583637)" and ta="0.4153585414144" and tb="0.4153585414145" and b6l="0.0000000001602728068908" and b6u="0.0000000001602728068909" and b5l="0.00000002498553770614" and b5u="0.00000002498553770615" and b4l="0.0000027453539659" and b4u="0.000002745353965901" and b3l="0.0001972723921937" and b3u="0.0001972723921938" and b2l="0.00825139456025" and b2u="0.008251394560251" and b1l="0.1632393794574" and b1u="0.1632393794575"]) simp_all
  have f16: "(- 0.6007853502138) \<le> sin_lo (- 0.6444831583637)" by (rule sin_lo_horner[OF _ f15]) simp_all
  have f17: "0.9321971335685 \<le> sin_nest ((- 0.6444831383603) * (- 0.6444831383603)) \<and> sin_nest ((- 0.6444831383603) * (- 0.6444831383603)) \<le> 0.9321971335686"
    by (rule sin_nest_bounds[where t="(- 0.6444831383603) * (- 0.6444831383603)" and ta="0.4153585156307" and tb="0.4153585156308" and b6l="0.0000000001602728069105" and b6u="0.0000000001602728069106" and b5l="0.00000002498553771026" and b5u="0.00000002498553771027" and b4l="0.000002745353966543" and b4u="0.000002745353966544" and b3l="0.0001972723922642" and b3u="0.0001972723922643" and b2l="0.008251394565307" and b2u="0.008251394565308" and b1l="0.1632393796681" and b1u="0.1632393796682"]) simp_all
  have f18: "sin_hi (- 0.6444831383603) \<le> (- 0.6007853342027)" by (rule sin_hi_horner[OF _ f17]) simp_all
  have f19: "fin_in (Cos (\<phi>)) 0.6007853342027 0.6007853502138"
    by (rule fin_in_Cos_b[OF b_phi _ _ _ _ f16 f18]) (simp_all add: pi_lo_def pi_hi_def)
  define cos\<phi> where "cos\<phi> = (Cos (\<phi>))"
  have b_cosphi: "fin_in (cos\<phi>) 0.6007853342027 0.6007853502138" unfolding cos\<phi>_def by (rule f19)
  have f20: "0.9997732282685 \<le> sin_nest ((- 0.03688797858777) * (- 0.03688797858777)) \<and> sin_nest ((- 0.03688797858777) * (- 0.03688797858777)) \<le> 0.9997732282686"
    by (rule sin_nest_bounds[where t="(- 0.03688797858777) * (- 0.03688797858777)" and ta="0.001360722964291" and tb="0.001360722964292" and b6l="0.000000000160589397801" and b6u="0.0000000001605893978011" and b5l="0.00000002505188986776" and b5u="0.00000002505188986777" and b4l="0.000002755697833716" and b4u="0.000002755697833717" and b3l="0.0001984089486713" and b3u="0.0001984089486714" and b2l="0.00833306335372" and b2u="0.008333063353721" and b1l="0.1666553276759" and b1u="0.166655327676"]) simp_all
  have f21: "(- 0.036879613447) \<le> sin_lo (- 0.03688797858777)" by (rule sin_lo_horner[OF _ f20]) simp_all
  have f22: "0.9997732282691 \<le> sin_nest ((- 0.03688797853469) * (- 0.03688797853469)) \<and> sin_nest ((- 0.03688797853469) * (- 0.03688797853469)) \<le> 0.9997732282692"
    by (rule sin_nest_bounds[where t="(- 0.03688797853469) * (- 0.03688797853469)" and ta="0.001360722960375" and tb="0.001360722960376" and b6l="0.000000000160589397801" and b6u="0.0000000001605893978011" and b5l="0.00000002505188986776" and b5u="0.00000002505188986777" and b4l="0.000002755697833716" and b4u="0.000002755697833717" and b3l="0.0001984089486713" and b3u="0.0001984089486714" and b2l="0.008333063353721" and b2u="0.008333063353722" and b1l="0.166655327676" and b1u="0.1666553276761"]) simp_all
  have f23: "sin_hi (- 0.03688797853469) \<le> (- 0.03687961337394)" by (rule sin_hi_horner[OF _ f22]) simp_all
  have f24: "fin_in (Sin (lam)) (- 0.036879613447) (- 0.03687961337394)" by (rule fin_in_Sin[OF b_lam _ _ f21 f23]) simp_all
  define sinlam where "sinlam = (Sin (lam))"
  have b_sinlam: "fin_in (sinlam) (- 0.036879613447) (- 0.03687961337394)" unfolding sinlam_def by (rule f24)
  have f25: "0.6514859357975 \<le> sin_nest (1.533908348206 * 1.533908348206) \<and> sin_nest (1.533908348206 * 1.533908348206) \<le> 0.651485935798"
    by (rule sin_nest_bounds[where t="1.533908348206 * 1.533908348206" and ta="2.352874820696" and tb="2.352874820697" and b6l="0.0000000001587911564687" and b6u="0.0000000001587911564688" and b5l="0.00000002467849267163" and b5u="0.00000002467849267164" and b4l="0.000002697666518378" and b4u="0.000002697666518379" and b3l="0.0001920654267869" and b3u="0.000192065426787" and b2l="0.007881427426719" and b2u="0.007881427426721" and b1l="0.1481226545231" and b1u="0.1481226545232"]) simp_all
  have f26: "0.9993197156485 \<le> sin_lo 1.533908348206" by (rule sin_lo_horner[OF _ f25]) simp_all
  have f27: "0.6514859357755 \<le> sin_nest (1.533908348261 * 1.533908348261) \<and> sin_nest (1.533908348261 * 1.533908348261) \<le> 0.6514859357759"
    by (rule sin_nest_bounds[where t="1.533908348261 * 1.533908348261" and ta="2.352874820864" and tb="2.352874820865" and b6l="0.0000000001587911564686" and b6u="0.0000000001587911564687" and b5l="0.00000002467849267161" and b5u="0.00000002467849267162" and b4l="0.000002697666518374" and b4u="0.000002697666518375" and b3l="0.0001920654267865" and b3u="0.0001920654267866" and b2l="0.007881427426688" and b2u="0.007881427426689" and b1l="0.1481226545219" and b1u="0.148122654522"]) simp_all
  have f28: "sin_hi 1.533908348261 \<le> 0.9993197156713" by (rule sin_hi_horner[OF _ f27]) simp_all
  have f29: "fin_in (Cos (lam)) 0.9993197156485 0.9993197156713"
    by (rule fin_in_Cos_a[OF b_lam _ _ _ _ f26 f28]) (simp_all add: pi_lo_def pi_hi_def)
  define coslam where "coslam = (Cos (lam))"
  have b_coslam: "fin_in (coslam) 0.9993197156485 0.9993197156713" unfolding coslam_def by (rule f29)
  have f30: "fin_in (Fin 1) 1 1" by (rule fin_in_Fin) (simp_all)
  have f31: "fin_in (Fin 2) 2 2" by (rule fin_in_Fin) (simp_all)
  have f32: "fin_in ((Fin 2) * (f)) 0.006681701282994 0.006681701282996" by (rule fin_in_mul[OF f31 b_f]) simp_all
  have f33: "fin_in ((f) * (f)) 0.00001116128300879 0.0000111612830088" by (rule fin_in_mul[OF b_f b_f]) simp_all
  have f34: "fin_in (((Fin 2) * (f)) - ((f) * (f))) 0.006670539999985 0.006670539999988" by (rule fin_in_sub[OF f32 f33]) simp_all
  define eSq where "eSq = (((Fin 2) * (f)) - ((f) * (f)))"
  have b_eSq: "fin_in (eSq) 0.006670539999985 0.006670539999988" unfolding eSq_def by (rule f34)
  have f35: "fin_in ((eSq) * (sin\<phi>)) 0.005332498946702 0.005332499027004" by (rule fin_in_mul[OF b_eSq b_sinphi]) simp_all
  have f36: "fin_in (((eSq) * (sin\<phi>)) * (sin\<phi>)) 0.004262855033722 0.004262855162108" by (rule fin_in_mul[OF f35 b_sinphi]) simp_all
  have f37: "fin_in ((Fin 1) - (((eSq) * (sin\<phi>)) * (sin\<phi>))) 0.9957371448378 0.9957371449663" by (rule fin_in_sub[OF f30 f36]) simp_all
  have f38: "fin_in (Sqrt ((Fin 1) - (((eSq) * (sin\<phi>)) * (sin\<phi>)))) 0.99786629607267 0.99786629613707" by (rule fin_in_Sqrt[OF f37]) simp_all
  have f39: "fin_in ((a) / (Sqrt ((Fin 1) - (((eSq) * (sin\<phi>)) * (sin\<phi>))))) 6391200.324821 6391200.325235" by (rule fin_in_div[OF b_a f38]) simp_all
  define \<nu> where "\<nu> = ((a) / (Sqrt ((Fin 1) - (((eSq) * (sin\<phi>)) * (sin\<phi>)))))"
  have b_nu: "fin_in (\<nu>) 6391200.324821 6391200.325235" unfolding \<nu>_def by (rule f39)
  have f40: "fin_in ((\<nu>) + (h)) 6391200.324821 6391200.325235" by (rule fin_in_add[OF b_nu b_h]) simp_all
  have f41: "fin_in (((\<nu>) + (h)) * (cos\<phi>)) 3839739.423103 3839739.525683" by (rule fin_in_mul[OF f40 b_cosphi]) simp_all
  have f42: "fin_in ((((\<nu>) + (h)) * (cos\<phi>)) * (coslam)) 3837127.308459 3837127.411058" by (rule fin_in_mul[OF f41 b_coslam]) simp_all
  define x where "x = ((((\<nu>) + (h)) * (cos\<phi>)) * (coslam))"
  have b_x: "fin_in (x) 3837127.308459 3837127.411058" unfolding x_def by (rule f42)
  have f43: "fin_in ((\<nu>) + (h)) 6391200.324821 6391200.325235" by (rule fin_in_add[OF b_nu b_h]) simp_all
  have f44: "fin_in (((\<nu>) + (h)) * (cos\<phi>)) 3839739.423103 3839739.525683" by (rule fin_in_mul[OF f43 b_cosphi]) simp_all
  have f45: "fin_in ((((\<nu>) + (h)) * (cos\<phi>)) * (sinlam)) (- 141608.1094444) (- 141608.1053807)" by (rule fin_in_mul[OF f44 b_sinlam]) simp_all
  define y where "y = ((((\<nu>) + (h)) * (cos\<phi>)) * (sinlam))"
  have b_y: "fin_in (y) (- 141608.1094444) (- 141608.1053807)" unfolding y_def by (rule f45)
  have f46: "fin_in ((Fin 1) - (eSq)) 0.99332946 0.9933294600001" by (rule fin_in_sub[OF f30 b_eSq]) simp_all
  have f47: "fin_in ((\<nu>) * ((Fin 1) - (eSq))) 6348567.567406 6348567.567819" by (rule fin_in_mul[OF b_nu f46]) simp_all
  have f48: "fin_in (((\<nu>) * ((Fin 1) - (eSq))) + (h)) 6348567.567406 6348567.567819" by (rule fin_in_add[OF f47 b_h]) simp_all
  have f49: "fin_in ((((\<nu>) * ((Fin 1) - (eSq))) + (h)) * (sin\<phi>)) 5075110.840552 5075110.917306" by (rule fin_in_mul[OF f48 b_sinphi]) simp_all
  define z where "z = ((((\<nu>) * ((Fin 1) - (eSq))) + (h)) * (sin\<phi>))"
  have b_z: "fin_in (z) 5075110.840552 5075110.917306" unfolding z_def by (rule f49)
  have r: "ToCartesian \<lparr>Lat = latd, Lon = lond, Height = Fin 0, Datum = OSGB36\<rparr> = \<lparr>X = x, Y = y, Z = z, Datum = LatLonEllipsoidalDatum.Datum \<lparr>Lat = latd, Lon = lond, Height = Fin 0, Datum = OSGB36\<rparr>\<rparr>"
    unfolding ToCartesian_def Let_def z_def y_def x_def \<nu>_def eSq_def coslam_def sinlam_def cos\<phi>_def sin\<phi>_def f_def a_def h_def lam_def \<phi>_def ellipsoid_def by (rule refl)
  then have "ToCartesian \<lparr>Lat = latd, Lon = lond, Height = Fin 0, Datum = OSGB36\<rparr> = \<lparr>X = x, Y = y, Z = z, Datum = OSGB36\<rparr>" by simp
  with b_x b_y b_z show ?thesis by blast
qed

lemma C2_applyTransform:
  assumes x: "fin_in x 3837127.308459 3837127.411058" and y: "fin_in y (- 141608.1094444) (- 141608.1053807)" and z: "fin_in z 5075110.840552 5075110.917306"
  shows "\<exists>x2 y2 z2. applyTransform \<lparr>X = x, Y = y, Z = z, Datum = OSGB36\<rparr> (map uminus (Transform OSGB36)) = \<lparr>X = x2, Y = y2, Z = z2, Datum = zero_Datum\<rparr>
    \<and> fin_in x2 3837501.791546 3837501.894146 \<and> fin_in y2 (- 141718.3951078) (- 141718.3910434) \<and> fin_in z2 5075544.216536 5075544.293291"
proof -
  have f1: "fin_in (X \<lparr>X = x, Y = y, Z = z, Datum = OSGB36\<rparr>) 3837127.308459 3837127.411058" using x by simp
  define x1 where "x1 = (X \<lparr>X = x, Y = y, Z = z, Datum = OSGB36\<rparr>)"
  have b_x1: "fin_in (x1) 3837127.308459 3837127.411058" unfolding x1_def by (rule f1)
  have f2: "fin_in (Y \<lparr>X = x, Y = y, Z = z, Datum = OSGB36\<rparr>) (- 141608.1094444) (- 141608.1053807)" using y by simp
  define y1 where "y1 = (Y \<lparr>X = x, Y = y, Z = z, Datum = OSGB36\<rparr>)"
  have b_y1: "fin_in (y1) (- 141608.1094444) (- 141608.1053807)" unfolding y1_def by (rule f2)
  have f3: "fin_in (Z \<lparr>X = x, Y = y, Z = z, Datum = OSGB36\<rparr>) 5075110.840552 5075110.917306" using z by simp
  define z1 where "z1 = (Z \<lparr>X = x, Y = y, Z = z, Datum = OSGB36\<rparr>)"
  have b_z1: "fin_in (z1) 5075110.840552 5075110.917306" unfolding z1_def by (rule f3)
  have f4: "fin_in ((map uminus (Transform OSGB36)) ! 0) 446.448 446.448" by (simp add: OSGB36_eq, rule fin_in_Fin, simp_all)
  define tx where "tx = ((map uminus (Transform OSGB36)) ! 0)"
  have b_tx: "fin_in (tx) 446.448 446.448" unfolding tx_def by (rule f4)
  have f5: "fin_in ((map uminus (Transform OSGB36)) ! 1) (- 125.157) (- 125.157)" by (simp add: OSGB36_eq, rule fin_in_Fin, simp_all)
  define ty where "ty = ((map uminus (Transform OSGB36)) ! 1)"
  have b_ty: "fin_in (ty) (- 125.157) (- 125.157)" unfolding ty_def by (rule f5)
  have f6: "fin_in ((map uminus (Transform OSGB36)) ! 2) 542.06 542.06" by (simp add: OSGB36_eq, rule fin_in_Fin, simp_all)
  define tz where "tz = ((map uminus (Transform OSGB36)) ! 2)"
  have b_tz: "fin_in (tz) 542.06 542.06" unfolding tz_def by (rule f6)
  have f7: "fin_in ((map uminus (Transform OSGB36)) ! 3) (- 20.4894) (- 20.4894)" by (simp add: OSGB36_eq, rule fin_in_Fin, simp_all)
  have f8: "fin_in (Fin 1000000) 1000000 1000000" by (rule fin_in_Fin) (simp_all)
  have f9: "fin_in (((map uminus (Transform OSGB36)) ! 3) / (Fin 1000000)) (- 0.0000204894) (- 0.0000204894)" by (rule fin_in_div[OF f7 f8]) simp_all
  have f10: "fin_in (Fin 1) 1 1" by (rule fin_in_Fin) (simp_all)
  have f11: "fin_in ((((map uminus (Transform OSGB36)) ! 3) / (Fin 1000000)) + (Fin 1)) 0.9999795106 0.9999795106" by (rule fin_in_add[OF f9 f10]) simp_all
  define s where "s = ((((map uminus (Transform OSGB36)) ! 3) / (Fin 1000000)) + (Fin 1))"
  have b_s: "fin_in (s) 0.9999795106 0.9999795106" unfolding s_def by (rule f11)
  have f12: "fin_in ((map uminus (Transform OSGB36)) ! 4) 0.1502 0.1502" by (simp add: OSGB36_eq, rule fin_in_Fin, simp_all)
  have f13: "fin_in (Fin 3600) 3600 3600" by (rule fin_in_Fin) (simp_all)
  have f14: "fin_in (((map uminus (Transform OSGB36)) ! 4) / (Fin 3600)) 0.00004172222222222 0.00004172222222223" by (rule fin_in_div[OF f12 f13]) simp_all
  have f15: "fin_in (Fin toRadians) 0.01745329251993 0.01745329251995" by (rule fin_in_toRadians) (simp_all add: pi_lo_def pi_hi_def)
  have f16: "fin_in ((((map uminus (Transform OSGB36)) ! 4) / (Fin 3600)) * (Fin toRadians)) 0.0000007281901490259 0.000000728190149027" by (rule fin_in_mul[OF f14 f15]) simp_all
  define rx where "rx = ((((map uminus (Transform OSGB36)) ! 4) / (Fin 3600)) * (Fin toRadians))"
  have b_rx: "fin_in (rx) 0.0000007281901490259 0.000000728190149027" unfolding rx_def by (rule f16)
  have f17: "fin_in ((map uminus (Transform OSGB36)) ! 5) 0.247 0.247" by (simp add: OSGB36_eq, rule fin_in_Fin, simp_all)
  have f18: "fin_in (Fin 3600) 3600 3600" by (rule fin_in_Fin) (simp_all)
  have f19: "fin_in (((map uminus (Transform OSGB36)) ! 5) / (Fin 3600)) 0.00006861111111111 0.00006861111111112" by (rule fin_in_div[OF f17 f18]) simp_all
  have f20: "fin_in (Fin toRadians) 0.01745329251993 0.01745329251995" by (rule fin_in_toRadians) (simp_all add: pi_lo_def pi_hi_def)
  have f21: "fin_in ((((map uminus (Transform OSGB36)) ! 5) / (Fin 3600)) * (Fin toRadians)) 0.000001197489792339 0.000001197489792342" by (rule fin_in_mul[OF f19 f20]) simp_all
  define ry where "ry = ((((map uminus (Transform OSGB36)) ! 5) / (Fin 3600)) * (Fin toRadians))"
  have b_ry: "fin_in (ry) 0.000001197489792339 0.000001197489792342" unfolding ry_def by (rule f21)
  have f22: "fin_in ((map uminus (Transform OSGB36)) ! 6) 0.8421 0.8421" by (simp add: OSGB36_eq, rule fin_in_Fin, simp_all)
  have f23: "fin_in (Fin 3600) 3600 3600" by (rule fin_in_Fin) (simp_all)
  have f24: "fin_in (((map uminus (Transform OSGB36)) ! 6) / (Fin 3600)) 0.0002339166666666 0.0002339166666667" by (rule fin_in_div[OF f22 f23]) simp_all
  have f25: "fin_in (Fin toRadians) 0.01745329251993 0.01745329251995" by (rule fin_in_toRadians) (simp_all add: pi_lo_def pi_hi_def)
  have f26: "fin_in ((((map uminus (Transform OSGB36)) ! 6) / (Fin 3600)) * (Fin toRadians)) 0.000004082616008619 0.000004082616008626" by (rule fin_in_mul[OF f24 f25]) simp_all
  define rz where "rz = ((((map uminus (Transform OSGB36)) ! 6) / (Fin 3600)) * (Fin toRadians))"
  have b_rz: "fin_in (rz) 0.000004082616008619 0.000004082616008626" unfolding rz_def by (rule f26)
  have f27: "fin_in ((x1) * (s)) 3837048.688022 3837048.79062" by (rule fin_in_mul[OF b_x1 b_s]) simp_all
  have f28: "fin_in ((tx) + ((x1) * (s))) 3837495.136022 3837495.23862" by (rule fin_in_add[OF b_tx f27]) simp_all
  have f29: "fin_in ((y1) * (rz)) (- 0.578131534569) (- 0.5781315179774)" by (rule fin_in_mul[OF b_y1 b_rz]) simp_all
  have f30: "fin_in (((tx) + ((x1) * (s))) - ((y1) * (rz))) 3837495.714153 3837495.816752" by (rule fin_in_sub[OF f28 f29]) simp_all
  have f31: "fin_in ((z1) * (ry)) 6.07739342655 6.077393518478" by (rule fin_in_mul[OF b_z1 b_ry]) simp_all
  have f32: "fin_in ((((tx) + ((x1) * (s))) - ((y1) * (rz))) + ((z1) * (ry))) 3837501.791546 3837501.894146" by (rule fin_in_add[OF f30 f31]) simp_all
  define x2 where "x2 = ((((tx) + ((x1) * (s))) - ((y1) * (rz))) + ((z1) * (ry)))"
  have b_x2: "fin_in (x2) 3837501.791546 3837501.894146" unfolding x2_def by (rule f32)
  have f33: "fin_in ((x1) * (rz)) 15.66551737662 15.66551779553" by (rule fin_in_mul[OF b_x1 b_rz]) simp_all
  have f34: "fin_in ((ty) + ((x1) * (rz))) (- 109.4914826234) (- 109.4914822044)" by (rule fin_in_add[OF b_ty f33]) simp_all
  have f35: "fin_in ((y1) * (s)) (- 141605.2079793) (- 141605.2039155)" by (rule fin_in_mul[OF b_y1 b_s]) simp_all
  have f36: "fin_in (((ty) + ((x1) * (rz))) + ((y1) * (s))) (- 141714.699462) (- 141714.6953977)" by (rule fin_in_add[OF f34 f35]) simp_all
  have f37: "fin_in ((z1) * (rx)) 3.695645719304 3.695645775202" by (rule fin_in_mul[OF b_z1 b_rx]) simp_all
  have f38: "fin_in ((((ty) + ((x1) * (rz))) + ((y1) * (s))) - ((z1) * (rx))) (- 141718.3951078) (- 141718.3910434)" by (rule fin_in_sub[OF f36 f37]) simp_all
  define y2 where "y2 = ((((ty) + ((x1) * (rz))) + ((y1) * (s))) - ((z1) * (rx)))"
  have b_y2: "fin_in (y2) (- 141718.3951078) (- 141718.3910434)" unfolding y2_def by (rule f38)
  have f39: "fin_in ((x1) * (ry)) 4.594920783784 4.594920906658" by (rule fin_in_mul[OF b_x1 b_ry]) simp_all
  have f40: "fin_in ((tz) - ((x1) * (ry))) 537.4650790933 537.4650792163" by (rule fin_in_sub[OF b_tz f39]) simp_all
  have f41: "fin_in ((y1) * (rx)) (- 0.1031176303198) (- 0.1031176273604)" by (rule fin_in_mul[OF b_y1 b_rx]) simp_all
  have f42: "fin_in (((tz) - ((x1) * (ry))) + ((y1) * (rx))) 537.3619614629 537.361961589" by (rule fin_in_add[OF f40 f41]) simp_all
  have f43: "fin_in ((z1) * (s)) 5075006.854575 5075006.931329" by (rule fin_in_mul[OF b_z1 b_s]) simp_all
  have f44: "fin_in ((((tz) - ((x1) * (ry))) + ((y1) * (rx))) + ((z1) * (s))) 5075544.216536 5075544.293291" by (rule fin_in_add[OF f42 f43]) simp_all
  define z2 where "z2 = ((((tz) - ((x1) * (ry))) + ((y1) * (rx))) + ((z1) * (s)))"
  have b_z2: "fin_in (z2) 5075544.216536 5075544.293291" unfolding z2_def by (rule f44)
  have r: "applyTransform \<lparr>X = x, Y = y, Z = z, Datum = OSGB36\<rparr> (map uminus (Transform OSGB36)) = \<lparr>X = x2, Y = y2, Z = z2, Datum = zero_Datum\<rparr>"
    unfolding applyTransform_def Let_def z2_def y2_def x2_def rz_def ry_def rx_def s_def tz_def ty_def tx_def z1_def y1_def x1_def by (rule refl)
  with b_x2 b_y2 b_z2 show ?thesis by blast
qed

lemma C2_ToLatLon:
  assumes x: "fin_in x2 3837501.791546 3837501.894146" and y: "fin_in y2 (- 141718.3951078) (- 141718.3910434)" and z: "fin_in z2 5075544.216536 5075544.293291"
  shows "fin_in (Lat (Cartesian_ToLatLon \<lparr>X = x2, Y = y2, Z = z2, Datum = WGS84\<rparr>)) 53.07413276568 53.07413396606
    \<and> fin_in (Lon (Cartesian_ToLatLon \<lparr>X = x2, Y = y2, Z = z2, Datum = WGS84\<rparr>)) (- 2.114963862189) (- 2.114963743258)"
proof -
  have f1: "fin_in (X \<lparr>X = x2, Y = y2, Z = z2, Datum = WGS84\<rparr>) 3837501.791546 3837501.894146" using x by simp
  define x where "x = (X \<lparr>X = x2, Y = y2, Z = z2, Datum = WGS84\<rparr>)"
  have b_x: "fin_in (x) 3837501.791546 3837501.894146" unfolding x_def by (rule f1)
  have f2: "fin_in (Y \<lparr>X = x2, Y = y2, Z = z2, Datum = WGS84\<rparr>) (- 141718.3951078) (- 141718.3910434)" using y by simp
  define y where "y = (Y \<lparr>X = x2, Y = y2, Z = z2, Datum = WGS84\<rparr>)"
  have b_y: "fin_in (y) (- 141718.3951078) (- 141718.3910434)" unfolding y_def by (rule f2)
  have f3: "fin_in (Z \<lparr>X = x2, Y = y2, Z = z2, Datum = WGS84\<rparr>) 5075544.216536 5075544.293291" using z by simp
  define z where "z = (Z \<lparr>X = x2, Y = y2, Z = z2, Datum = WGS84\<rparr>)"
  have b_z: "fin_in (z) 5075544.216536 5075544.293291" unfolding z_def by (rule f3)
  have f4: "fin_in (ell_a (Ellipsoid (Datum \<lparr>X = x2, Y = y2, Z = z2, Datum = WGS84\<rparr>))) 6378137 6378137" by (simp add: WGS84_eq, rule fin_in_Fin, simp_all)
  define a where "a = (ell_a (Ellipsoid (Datum \<lparr>X = x2, Y = y2, Z = z2, Datum = WGS84\<rparr>)))"
  have b_a: "fin_in (a) 6378137 6378137" unfolding a_def by (rule f4)
  have f5: "fin_in (ell_b (Ellipsoid (Datum \<lparr>X = x2, Y = y2, Z = z2, Datum = WGS84\<rparr>))) 6356752.314245 6356752.314245" by (simp add: WGS84_eq, rule fin_in_Fin, simp_all)
  define b where "b = (ell_b (Ellipsoid (Datum \<lparr>X = x2, Y = y2, Z = z2, Datum = WGS84\<rparr>)))"
  have b_b: "fin_in (b) 6356752.314245 6356752.314245" unfolding b_def by (rule f5)
  have f6: "fin_in (ell_f (Ellipsoid (Datum \<lparr>X = x2, Y = y2, Z = z2, Datum = WGS84\<rparr>))) 0.003352810664747 0.003352810664748" by (simp add: WGS84_eq, rule fin_in_Fin, simp_all)
  define f where "f = (ell_f (Ellipsoid (Datum \<lparr>X = x2, Y = y2, Z = z2, Datum = WGS84\<rparr>)))"
  have b_f: "fin_in (f) 0.003352810664747 0.003352810664748" unfolding f_def by (rule f6)
  have f7: "fin_in (Fin 1) 1 1" by (rule fin_in_Fin) (simp_all)
  have f8: "fin_in (Fin 2) 2 2" by (rule fin_in_Fin) (simp_all)
  have f9: "fin_in ((Fin 2) * (f)) 0.006705621329494 0.006705621329496" by (rule fin_in_mul[OF f8 b_f]) simp_all
  have f10: "fin_in ((f) * (f)) 0.00001124133935364 0.00001124133935365" by (rule fin_in_mul[OF b_f b_f]) simp_all
  have f11: "fin_in (((Fin 2) * (f)) - ((f) * (f))) 0.00669437999014 0.006694379990143" by (rule fin_in_sub[OF f9 f10]) simp_all
  define e2' where "e2' = (((Fin 2) * (f)) - ((f) * (f)))"
  have b_e2p: "fin_in (e2') 0.00669437999014 0.006694379990143" unfolding e2'_def by (rule f11)
  have f12: "fin_in ((Fin 1) - (e2')) 0.9933056200098 0.9933056200099" by (rule fin_in_sub[OF f7 b_e2p]) simp_all
  have f13: "fin_in ((e2') / ((Fin 1) - (e2'))) 0.006739496742274 0.006739496742279" by (rule fin_in_div[OF b_e2p f12]) simp_all
  define \<epsilon>2 where "\<epsilon>2 = ((e2') / ((Fin 1) - (e2')))"
  have b_epsilon2: "fin_in (\<epsilon>2) 0.006739496742274 0.006739496742279" unfolding \<epsilon>2_def by (rule f13)
  have f14: "fin_in ((x) * (x)) 14726420000110 14726420787580" by (rule fin_in_mul[OF b_x b_x]) simp_all
  have f15: "fin_in ((y) * (y)) 20084102359.93 20084103511.94" by (rule fin_in_mul[OF b_y b_y]) simp_all
  have f16: "fin_in (((x) * (x)) + ((y) * (y))) 14746504102460 14746504891100" by (rule fin_in_add[OF f14 f15]) simp_all
  have f17: "fin_in (Sqrt (((x) * (x)) + ((y) * (y)))) 3840117.71987 3840117.8225545" by (rule fin_in_Sqrt[OF f16]) simp_all
  define p where "p = (Sqrt (((x) * (x)) + ((y) * (y))))"
  have b_p: "fin_in (p) 3840117.71987 3840117.8225545" unfolding p_def by (rule f17)
  have f18: "fin_in ((p) * (p)) 14746504102450 14746504891110" by (rule fin_in_mul[OF b_p b_p]) simp_all
  have f19: "fin_in ((z) * (z)) 25761149094010 25761149873160" by (rule fin_in_mul[OF b_z b_z]) simp_all
  have f20: "fin_in (((p) * (p)) + ((z) * (z))) 40507653196460 40507654764270" by (rule fin_in_add[OF f18 f19]) simp_all
  have f21: "fin_in (Sqrt (((p) * (p)) + ((z) * (z)))) 6364562.294177 6364562.4173442" by (rule fin_in_Sqrt[OF f20]) simp_all
  define R where "R = (Sqrt (((p) * (p)) + ((z) * (z))))"
  have b_R: "fin_in (R) 6364562.294177 6364562.4173442" unfolding R_def by (rule f21)
  have f22: "fin_in ((b) * (z)) 32263977444510 32263977932440" by (rule fin_in_mul[OF b_b b_z]) simp_all
  have f23: "fin_in ((a) * (p)) 24492796913450 24492797568400" by (rule fin_in_mul[OF b_a b_p]) simp_all
  have f24: "fin_in (((b) * (z)) / ((a) * (p))) 1.317284289571 1.317284344718" by (rule fin_in_div[OF f22 f23]) simp_all
  have f25: "fin_in ((\<epsilon>2) * (b)) 42841.31151329 42841.31151333" by (rule fin_in_mul[OF b_epsilon2 b_b]) simp_all
  have f26: "fin_in (((\<epsilon>2) * (b)) / (R)) 0.006731226548512 0.006731226678782" by (rule fin_in_div[OF f25 b_R]) simp_all
  have f27: "fin_in ((Fin 1) + (((\<epsilon>2) * (b)) / (R))) 1.006731226548 1.006731226679" by (rule fin_in_add[OF f7 f26]) simp_all
  have f28: "fin_in ((((b) * (z)) / ((a) * (p))) * ((Fin 1) + (((\<epsilon>2) * (b)) / (R)))) 1.326151228552 1.326151284243" by (rule fin_in_mul[OF f24 f27]) simp_all
  define tan\<beta> where "tan\<beta> = ((((b) * (z)) / ((a) * (p))) * ((Fin 1) + (((\<epsilon>2) * (b)) / (R))))"
  have b_tanbeta: "fin_in (tan\<beta>) 1.326151228552 1.326151284243" unfolding tan\<beta>_def by (rule f28)
  have f29: "fin_in ((tan\<beta>) * (tan\<beta>)) 1.758677080989 1.7586772287" by (rule fin_in_mul[OF b_tanbeta b_tanbeta]) simp_all
  have f30: "fin_in ((Fin 1) + ((tan\<beta>) * (tan\<beta>))) 2.758677080989 2.7586772287" by (rule fin_in_add[OF f7 f29]) simp_all
  have f31: "fin_in (Sqrt ((Fin 1) + ((tan\<beta>) * (tan\<beta>)))) 1.6609265730275 1.660926617494" by (rule fin_in_Sqrt[OF f30]) simp_all
  have f32: "fin_in ((tan\<beta>) / (Sqrt ((Fin 1) + ((tan\<beta>) * (tan\<beta>))))) 0.7984405900803 0.7984406449864" by (rule fin_in_div[OF b_tanbeta f31]) simp_all
  define sin\<beta> where "sin\<beta> = ((tan\<beta>) / (Sqrt ((Fin 1) + ((tan\<beta>) * (tan\<beta>)))))"
  have b_sinbeta: "fin_in (sin\<beta>) 0.7984405900803 0.7984406449864" unfolding sin\<beta>_def by (rule f32)
  have f33: "fin_in ((sin\<beta>) / (tan\<beta>)) 0.6020735338171 0.6020736005035" by (rule fin_in_div[OF b_sinbeta b_tanbeta]) simp_all
  define cos\<beta> where "cos\<beta> = ((sin\<beta>) / (tan\<beta>))"
  have b_cosbeta: "fin_in (cos\<beta>) 0.6020735338171 0.6020736005035" unfolding cos\<beta>_def by (rule f33)
  have f34: "fin_in ((\<epsilon>2) * (b)) 42841.31151329 42841.31151333" by (rule fin_in_mul[OF b_epsilon2 b_b]) simp_all
  have f35: "fin_in (((\<epsilon>2) * (b)) * (sin\<beta>)) 34206.24204448 34206.24439677" by (rule fin_in_mul[OF f34 b_sinbeta]) simp_all
  have f36: "fin_in ((((\<epsilon>2) * (b)) * (sin\<beta>)) * (sin\<beta>)) 27311.65208242 27311.65583872" by (rule fin_in_mul[OF f35 b_sinbeta]) simp_all
  have f37: "fin_in (((((\<epsilon>2) * (b)) * (sin\<beta>)) * (sin\<beta>)) * (sin\<beta>)) 21806.73160475 21806.73610352" by (rule fin_in_mul[OF f36 b_sinbeta]) simp_all
  have f38: "fin_in ((z) + (((((\<epsilon>2) * (b)) * (sin\<beta>)) * (sin\<beta>)) * (sin\<beta>))) 5097350.94814 5097351.029395" by (rule fin_in_add[OF b_z f37]) simp_all
  have f39: "fin_in ((e2') * (a)) 42697.67270717 42697.6727072" by (rule fin_in_mul[OF b_e2p b_a]) simp_all
  have f40: "fin_in (((e2') * (a)) * (cos\<beta>)) 25707.13869257 25707.14153995" by (rule fin_in_mul[OF f39 b_cosbeta]) simp_all
  have f41: "fin_in ((((e2') * (a)) * (cos\<beta>)) * (cos\<beta>)) 15477.58783696 15477.59126562" by (rule fin_in_mul[OF f40 b_cosbeta]) simp_all
  have f42: "fin_in (((((e2') * (a)) * (cos\<beta>)) * (cos\<beta>)) * (cos\<beta>)) 9318.646003963 9318.649100414" by (rule fin_in_mul[OF f41 b_cosbeta]) simp_all
  have f43: "fin_in ((p) - (((((e2') * (a)) * (cos\<beta>)) * (cos\<beta>)) * (cos\<beta>))) 3830799.070769 3830799.176551" by (rule fin_in_sub[OF b_p f42]) simp_all
  have f44: "0.8630008180312 \<le> sin_nest (0.92631836440187 * 0.92631836440187) \<and> sin_nest (0.92631836440187 * 0.92631836440187) \<le> 0.8630008180314"
    by (rule sin_nest_bounds[where t="0.92631836440187 * 0.92631836440187" and ta="0.8580657122281" and tb="0.8580657122282" and b6l="0.0000000001599342614688" and b6u="0.0000000001599342614689" and b5l="0.00000002491487427946" and b5u="0.00000002491487427947" and b4l="0.000002734353323054" and b4u="0.000002734353323055" and b3l="0.000196066443581" and b3u="0.0001960664435811" and b2l="0.008165095440777" and b2u="0.008165095440778" and b1l="0.1596604782318" and b1u="0.1596604782319"]) simp_all
  have f45: "0.7994135062261 \<le> sin_lo 0.92631836440187" by (rule sin_lo_horner[OF _ f44]) simp_all
  have f46: "0.8630008180312 \<le> sin_nest (0.92631836440187 * 0.92631836440187) \<and> sin_nest (0.92631836440187 * 0.92631836440187) \<le> 0.8630008180314"
    by (rule sin_nest_bounds[where t="0.92631836440187 * 0.92631836440187" and ta="0.8580657122281" and tb="0.8580657122282" and b6l="0.0000000001599342614688" and b6u="0.0000000001599342614689" and b5l="0.00000002491487427946" and b5u="0.00000002491487427947" and b4l="0.000002734353323054" and b4u="0.000002734353323055" and b3l="0.000196066443581" and b3u="0.0001960664435811" and b2l="0.008165095440777" and b2u="0.008165095440778" and b1l="0.1596604782318" and b1u="0.1596604782319"]) simp_all
  have f47: "sin_hi 0.92631836440187 \<le> 0.7994135062464" by (rule sin_hi_horner[OF _ f46]) simp_all
  have f48: "0.7994135062261 \<le> sin (0.92631836440187::real) \<and> sin (0.92631836440187::real) \<le> 0.7994135062464" by (rule sin_pt[OF _ f45 f47]) simp_all
  have f49: "0.9321982000003 \<le> sin_nest (0.6444779623924 * 0.6444779623924) \<and> sin_nest (0.6444779623924 * 0.6444779623924) \<le> 0.9321982000005"
    by (rule sin_nest_bounds[where t="0.6444779623924 * 0.6444779623924" and ta="0.4153518440094" and tb="0.4153518440095" and b6l="0.0000000001602728120124" and b6u="0.0000000001602728120125" and b5l="0.00000002498553877742" and b5u="0.00000002498553877743" and b4l="0.000002745354132793" and b4u="0.000002745354132794" and b3l="0.0001972724105111" and b3u="0.0001972724105112" and b2l="0.008251395873855" and b2u="0.008251395873856" and b1l="0.1632394341748" and b1u="0.1632394341749"]) simp_all
  have f50: "0.600781196472 \<le> sin_lo 0.6444779623924" by (rule sin_lo_horner[OF _ f49]) simp_all
  have f51: "0.9321982000002 \<le> sin_nest (0.6444779623931 * 0.6444779623931) \<and> sin_nest (0.6444779623931 * 0.6444779623931) \<le> 0.9321982000003"
    by (rule sin_nest_bounds[where t="0.6444779623931 * 0.6444779623931" and ta="0.4153518440103" and tb="0.4153518440104" and b6l="0.0000000001602728120124" and b6u="0.0000000001602728120125" and b5l="0.00000002498553877742" and b5u="0.00000002498553877743" and b4l="0.000002745354132793" and b4u="0.000002745354132794" and b3l="0.0001972724105111" and b3u="0.0001972724105112" and b2l="0.008251395873855" and b2u="0.008251395873856" and b1l="0.1632394341748" and b1u="0.1632394341749"]) simp_all
  have f52: "sin_hi 0.6444779623931 \<le> 0.6007811964928" by (rule sin_hi_horner[OF _ f51]) simp_all
  have f53: "0.600781196472 \<le> cos (0.92631836440187::real) \<and> cos (0.92631836440187::real) \<le> 0.6007811964928"
    by (rule cos_pt_pos[OF _ _ _ _ f50 f52]) (simp_all add: pi_lo_def pi_hi_def)
  have f54: "0.8630008121007 \<le> sin_nest (0.92631838535176 * 0.92631838535176) \<and> sin_nest (0.92631838535176 * 0.92631838535176) \<le> 0.8630008121009"
    by (rule sin_nest_bounds[where t="0.92631838535176 * 0.92631838535176" and ta="0.8580657510406" and tb="0.8580657510407" and b6l="0.0000000001599342614391" and b6u="0.0000000001599342614392" and b5l="0.00000002491487427328" and b5u="0.00000002491487427329" and b4l="0.000002734353322093" and b4u="0.000002734353322094" and b3l="0.0001960664434757" and b3u="0.0001960664434758" and b2l="0.008165095433258" and b2u="0.008165095433259" and b1l="0.1596604779214" and b1u="0.1596604779215"]) simp_all
  have f55: "0.7994135188123 \<le> sin_lo 0.92631838535176" by (rule sin_lo_horner[OF _ f54]) simp_all
  have f56: "0.8630008121007 \<le> sin_nest (0.92631838535176 * 0.92631838535176) \<and> sin_nest (0.92631838535176 * 0.92631838535176) \<le> 0.8630008121009"
    by (rule sin_nest_bounds[where t="0.92631838535176 * 0.92631838535176" and ta="0.8580657510406" and tb="0.8580657510407" and b6l="0.0000000001599342614391" and b6u="0.0000000001599342614392" and b5l="0.00000002491487427328" and b5u="0.00000002491487427329" and b4l="0.000002734353322093" and b4u="0.000002734353322094" and b3l="0.0001960664434757" and b3u="0.0001960664434758" and b2l="0.008165095433258" and b2u="0.008165095433259" and b1l="0.1596604779214" and b1u="0.1596604779215"]) simp_all
  have f57: "sin_hi 0.92631838535176 \<le> 0.7994135188326" by (rule sin_hi_horner[OF _ f56]) simp_all
  have f58: "0.7994135188123 \<le> sin (0.92631838535176::real) \<and> sin (0.92631838535176::real) \<le> 0.7994135188326" by (rule sin_pt[OF _ f55 f57]) simp_all
  have f59: "0.9321982043167 \<le> sin_nest (0.6444779414425 * 0.6444779414425) \<and> sin_nest (0.6444779414425 * 0.6444779414425) \<le> 0.9321982043169"
    by (rule sin_nest_bounds[where t="0.6444779414425 * 0.6444779414425" and ta="0.4153518170059" and tb="0.415351817006" and b6l="0.0000000001602728120331" and b6u="0.0000000001602728120332" and b5l="0.00000002498553878174" and b5u="0.00000002498553878175" and b4l="0.000002745354133466" and b4u="0.000002745354133467" and b3l="0.000197272410585" and b3u="0.0001972724105851" and b2l="0.008251395879151" and b2u="0.008251395879152" and b1l="0.1632394343954" and b1u="0.1632394343955"]) simp_all
  have f60: "0.6007811797244 \<le> sin_lo 0.6444779414425" by (rule sin_lo_horner[OF _ f59]) simp_all
  have f61: "0.9321982043166 \<le> sin_nest (0.6444779414432 * 0.6444779414432) \<and> sin_nest (0.6444779414432 * 0.6444779414432) \<le> 0.9321982043168"
    by (rule sin_nest_bounds[where t="0.6444779414432 * 0.6444779414432" and ta="0.4153518170068" and tb="0.4153518170069" and b6l="0.0000000001602728120331" and b6u="0.0000000001602728120332" and b5l="0.00000002498553878174" and b5u="0.00000002498553878175" and b4l="0.000002745354133466" and b4u="0.000002745354133467" and b3l="0.000197272410585" and b3u="0.0001972724105851" and b2l="0.008251395879151" and b2u="0.008251395879152" and b1l="0.1632394343954" and b1u="0.1632394343955"]) simp_all
  have f62: "sin_hi 0.6444779414432 \<le> 0.6007811797452" by (rule sin_hi_horner[OF _ f61]) simp_all
  have f63: "0.6007811797244 \<le> cos (0.92631838535176::real) \<and> cos (0.92631838535176::real) \<le> 0.6007811797452"
    by (rule cos_pt_pos[OF _ _ _ _ f60 f62]) (simp_all add: pi_lo_def pi_hi_def)
  have f64: "fin_in (Atan2 ((z) + (((((\<epsilon>2) * (b)) * (sin\<beta>)) * (sin\<beta>)) * (sin\<beta>))) ((p) - (((((e2') * (a)) * (cos\<beta>)) * (cos\<beta>)) * (cos\<beta>)))) 0.92631836440187 0.92631838535176"
    by (rule fin_in_Atan2[OF f38 f43 _ _ _ f48 f53 _ f58 f63 _, where P="3062392.601453" and Q="3062392.565026"]) simp_all
  have f65: "fin_in (if \<not> IsNaN (cos\<beta>) then (Atan2 ((z) + (((((\<epsilon>2) * (b)) * (sin\<beta>)) * (sin\<beta>)) * (sin\<beta>))) ((p) - (((((e2') * (a)) * (cos\<beta>)) * (cos\<beta>)) * (cos\<beta>)))) else (Fin 0.0)) 0.92631836440187 0.92631838535176" by (rule fin_in_if_not_NaN[OF b_cosbeta f64])
  define \<phi> where "\<phi> = (if \<not> IsNaN (cos\<beta>) then (Atan2 ((z) + (((((\<epsilon>2) * (b)) * (sin\<beta>)) * (sin\<beta>)) * (sin\<beta>))) ((p) - (((((e2') * (a)) * (cos\<beta>)) * (cos\<beta>)) * (cos\<beta>)))) else (Fin 0.0))"
  have b_phi: "fin_in (\<phi>) 0.92631836440187 0.92631838535176" unfolding \<phi>_def by (rule f65)
  have f66: "0.9997729195223 \<le> sin_nest ((- 0.036913082955873) * (- 0.036913082955873)) \<and> sin_nest ((- 0.036913082955873) * (- 0.036913082955873)) \<le> 0.9997729195224"
    by (rule sin_nest_bounds[where t="(- 0.036913082955873) * (- 0.036913082955873)" and ta="0.001362575693307" and tb="0.001362575693308" and b6l="0.0000000001605893963842" and b6u="0.0000000001605893963843" and b5l="0.00000002505188957023" and b5u="0.00000002505188957024" and b4l="0.000002755697787302" and b4u="0.000002755697787303" and b3l="0.0001984089435658" and b3u="0.0001984089435659" and b2l="0.008333062986129" and b2u="0.00833306298613" and b1l="0.1666553122375" and b1u="0.1666553122376"]) simp_all
  have f67: "(- 0.03690470072537) \<le> sin_lo (- 0.036913082955873)" by (rule sin_lo_horner[OF _ f66]) simp_all
  have f68: "0.9997729195223 \<le> sin_nest ((- 0.036913082955873) * (- 0.036913082955873)) \<and> sin_nest ((- 0.036913082955873) * (- 0.036913082955873)) \<le> 0.9997729195224"
    by (rule sin_nest_bounds[where t="(- 0.036913082955873) * (- 0.036913082955873)" and ta="0.001362575693307" and tb="0.001362575693308" and b6l="0.0000000001605893963842" and b6u="0.0000000001605893963843" and b5l="0.00000002505188957023" and b5u="0.00000002505188957024" and b4l="0.000002755697787302" and b4u="0.000002755697787303" and b3l="0.0001984089435658" and b3u="0.0001984089435659" and b2l="0.008333062986129" and b2u="0.00833306298613" and b1l="0.1666553122375" and b1u="0.1666553122376"]) simp_all
  have f69: "sin_hi (- 0.036913082955873) \<le> (- 0.03690470070536)" by (rule sin_hi_horner[OF _ f68]) simp_all
  have f70: "(- 0.03690470072537) \<le> sin ((- 0.036913082955873)::real) \<and> sin ((- 0.036913082955873)::real) \<le> (- 0.03690470070536)" by (rule sin_pt[OF _ f67 f69]) simp_all
  have f71: "0.6514959945737 \<le> sin_nest (1.533883243838 * 1.533883243838) \<and> sin_nest (1.533883243838 * 1.533883243838) \<le> 0.6514959945742"
    by (rule sin_nest_bounds[where t="1.533883243838 * 1.533883243838" and ta="2.352797805726" and tb="2.352797805727" and b6l="0.0000000001587912153633" and b6u="0.0000000001587912153634" and b5l="0.00000002467850476236" and b5u="0.00000002467850476237" and b4l="0.000002697668390545" and b4u="0.000002697668390546" and b3l="0.0001920656301428" and b3u="0.0001920656301429" and b2l="0.007881441740177" and b2u="0.007881441740178" and b1l="0.1481232278344" and b1u="0.1481232278345"]) simp_all
  have f72: "0.9993187894941 \<le> sin_lo 1.533883243838" by (rule sin_lo_horner[OF _ f71]) simp_all
  have f73: "0.6514959945729 \<le> sin_nest (1.53388324384 * 1.53388324384) \<and> sin_nest (1.53388324384 * 1.53388324384) \<le> 0.6514959945734"
    by (rule sin_nest_bounds[where t="1.53388324384 * 1.53388324384" and ta="2.352797805733" and tb="2.352797805734" and b6l="0.0000000001587912153633" and b6u="0.0000000001587912153634" and b5l="0.00000002467850476236" and b5u="0.00000002467850476237" and b4l="0.000002697668390544" and b4u="0.000002697668390545" and b3l="0.0001920656301428" and b3u="0.0001920656301429" and b2l="0.007881441740176" and b2u="0.007881441740177" and b1l="0.1481232278343" and b1u="0.1481232278344"]) simp_all
  have f74: "sin_hi 1.53388324384 \<le> 0.9993187895151" by (rule sin_hi_horner[OF _ f73]) simp_all
  have f75: "0.9993187894941 \<le> cos ((- 0.036913082955873)::real) \<and> cos ((- 0.036913082955873)::real) \<le> 0.9993187895151"
    by (rule cos_pt_neg[OF _ _ _ _ f72 f74]) (simp_all add: pi_lo_def pi_hi_def)
  have f76: "0.9997729195479 \<le> sin_nest ((- 0.036913080880171) * (- 0.036913080880171)) \<and> sin_nest ((- 0.036913080880171) * (- 0.036913080880171)) \<le> 0.999772919548"
    by (rule sin_nest_bounds[where t="(- 0.036913080880171) * (- 0.036913080880171)" and ta="0.001362575540066" and tb="0.001362575540067" and b6l="0.0000000001605893963843" and b6u="0.0000000001605893963844" and b5l="0.00000002505188957025" and b5u="0.00000002505188957026" and b4l="0.000002755697787306" and b4u="0.000002755697787307" and b3l="0.0001984089435662" and b3u="0.0001984089435663" and b2l="0.008333062986159" and b2u="0.00833306298616" and b1l="0.1666553122388" and b1u="0.1666553122389"]) simp_all
  have f77: "(- 0.03690469865109) \<le> sin_lo (- 0.036913080880171)" by (rule sin_lo_horner[OF _ f76]) simp_all
  have f78: "0.9997729195479 \<le> sin_nest ((- 0.036913080880171) * (- 0.036913080880171)) \<and> sin_nest ((- 0.036913080880171) * (- 0.036913080880171)) \<le> 0.999772919548"
    by (rule sin_nest_bounds[where t="(- 0.036913080880171) * (- 0.036913080880171)" and ta="0.001362575540066" and tb="0.001362575540067" and b6l="0.0000000001605893963843" and b6u="0.0000000001605893963844" and b5l="0.00000002505188957025" and b5u="0.00000002505188957026" and b4l="0.000002755697787306" and b4u="0.000002755697787307" and b3l="0.0001984089435662" and b3u="0.0001984089435663" and b2l="0.008333062986159" and b2u="0.00833306298616" and b1l="0.1666553122388" and b1u="0.1666553122389"]) simp_all
  have f79: "sin_hi (- 0.036913080880171) \<le> (- 0.03690469863107)" by (rule sin_hi_horner[OF _ f78]) simp_all
  have f80: "(- 0.03690469865109) \<le> sin ((- 0.036913080880171)::real) \<and> sin ((- 0.036913080880171)::real) \<le> (- 0.03690469863107)" by (rule sin_pt[OF _ f77 f79]) simp_all
  have f81: "0.6514959937419 \<le> sin_nest (1.533883245914 * 1.533883245914) \<and> sin_nest (1.533883245914 * 1.533883245914) \<le> 0.6514959937426"
    by (rule sin_nest_bounds[where t="1.533883245914 * 1.533883245914" and ta="2.352797812095" and tb="2.352797812096" and b6l="0.0000000001587912153585" and b6u="0.0000000001587912153586" and b5l="0.00000002467850476136" and b5u="0.00000002467850476137" and b4l="0.00000269766839039" and b4u="0.000002697668390391" and b3l="0.000192065630126" and b3u="0.0001920656301261" and b2l="0.007881441738993" and b2u="0.007881441738995" and b1l="0.1481232277869" and b1u="0.1481232277871"]) simp_all
  have f82: "0.9993187895707 \<le> sin_lo 1.533883245914" by (rule sin_lo_horner[OF _ f81]) simp_all
  have f83: "0.6514959937417 \<le> sin_nest (1.533883245915 * 1.533883245915) \<and> sin_nest (1.533883245915 * 1.533883245915) \<le> 0.6514959937421"
    by (rule sin_nest_bounds[where t="1.533883245915 * 1.533883245915" and ta="2.352797812098" and tb="2.352797812099" and b6l="0.0000000001587912153585" and b6u="0.0000000001587912153586" and b5l="0.00000002467850476136" and b5u="0.00000002467850476137" and b4l="0.00000269766839039" and b4u="0.000002697668390391" and b3l="0.000192065630126" and b3u="0.0001920656301261" and b2l="0.007881441738993" and b2u="0.007881441738994" and b1l="0.1481232277869" and b1u="0.148123227787"]) simp_all
  have f84: "sin_hi 1.533883245915 \<le> 0.9993187895918" by (rule sin_hi_horner[OF _ f83]) simp_all
  have f85: "0.9993187895707 \<le> cos ((- 0.036913080880171)::real) \<and> cos ((- 0.036913080880171)::real) \<le> 0.9993187895918"
    by (rule cos_pt_neg[OF _ _ _ _ f82 f84]) (simp_all add: pi_lo_def pi_hi_def)
  have f86: "fin_in (Atan2 (y) (x)) (- 0.036913082955873) (- 0.036913080880171)"
    by (rule fin_in_Atan2[OF b_y b_x _ _ _ f70 f75 _ f80 f85 _, where P="(- 141621.8550732)" and Q="(- 141621.8509765)"]) simp_all
  define lam where "lam = (Atan2 (y) (x))"
  have b_lam: "fin_in (lam) (- 0.036913082955873) (- 0.036913080880171)" unfolding lam_def by (rule f86)
  have f87: "fin_in (Fin toDegrees) 57.29577951308 57.29577951311" by (rule fin_in_toDegrees) (simp_all add: pi_lo_def pi_hi_def)
  have f88: "fin_in ((\<phi>) * (Fin toDegrees)) 53.07413276568 53.07413396606" by (rule fin_in_mul[OF b_phi f87]) simp_all
  have f89: "fin_in (Fin toDegrees) 57.29577951308 57.29577951311" by (rule fin_in_toDegrees) (simp_all add: pi_lo_def pi_hi_def)
  have f90: "fin_in ((lam) * (Fin toDegrees)) (- 2.114963862189) (- 2.114963743258)" by (rule fin_in_mul[OF b_lam f89]) simp_all
  have r1: "Lat (Cartesian_ToLatLon \<lparr>X = x2, Y = y2, Z = z2, Datum = WGS84\<rparr>) = (\<phi>) * (Fin toDegrees)"
    unfolding Cartesian_ToLatLon_def Let_def LatLonEllipsoidalDatum.select_convs lam_def \<phi>_def cos\<beta>_def sin\<beta>_def tan\<beta>_def R_def p_def \<epsilon>2_def e2'_def f_def b_def a_def z_def y_def x_def by (rule refl)
  have r2: "Lon (Cartesian_ToLatLon \<lparr>X = x2, Y = y2, Z = z2, Datum = WGS84\<rparr>) = (lam) * (Fin toDegrees)"
    unfolding Cartesian_ToLatLon_def Let_def LatLonEllipsoidalDatum.select_convs lam_def \<phi>_def cos\<beta>_def sin\<beta>_def tan\<beta>_def R_def p_def \<epsilon>2_def e2'_def f_def b_def a_def z_def y_def x_def by (rule refl)
  show ?thesis unfolding r1 r2 using f88 f90 by blast
qed

lemma Cartesian_ConvertDatum_to_WGS84:
  "Name (Datum c) \<noteq> ''WGS84'' \<Longrightarrow>
   Cartesian_ConvertDatum c WGS84 =
     (applyTransform c (map uminus (Transform (Datum c))))\<lparr>Datum := WGS84\<rparr>"
  by (simp add: Let_def WGS84_eq)

lemma C2_loop:
  "\<exists>\<phi>. latlon_loop (Fin (real_of_int (Northing \<lparr>Easting = 392395, Northing = 352997\<rparr>))) (Fin \<phi>0) (Fin 0) = Some \<phi>
     \<and> fin_in \<phi> 0.9263141134768 0.9263141334773"
proof -
  have "\<bar>352997 - N0 - arc_real \<phi>0\<bar> * contraction ^ 10 < 0.00001"
    by (simp add: arc_real_origin N0_def contraction_def power_divide)
  from latlon_loop_upto_converges[OF _ this] obtain r where
    r: "latlon_loop_upto 10 (Fin 352997) (Fin \<phi>0) (Fin 0) = Some (Fin r)"
       "\<bar>352997 - N0 - arc_real r\<bar> < 0.00001"
    by (auto simp: arc_real_origin)
  have lo: "arc_real (\<phi>0 + 0.07110278) \<le> 452996.9372654"
    using C2_arc_lo by (simp add: meridional_arc_Fin fin_in_def)
  have hi: "452997.0647224 \<le> arc_real (\<phi>0 + 0.0711028)"
    using C2_arc_hi by (simp add: meridional_arc_Fin fin_in_def)
  have "\<phi>0 + 0.07110278 \<le> r"
  proof (rule ccontr)
    assume "\<not> \<phi>0 + 0.07110278 \<le> r"
    then have "arc_real r \<le> arc_real (\<phi>0 + 0.07110278)" by (intro arc_real_mono) simp
    with lo r(2) show False by (simp add: N0_def abs_less_iff)
  qed
  moreover have "r \<le> \<phi>0 + 0.0711028"
  proof (rule ccontr)
    assume "\<not> r \<le> \<phi>0 + 0.0711028"
    then have "arc_real (\<phi>0 + 0.0711028) \<le> arc_real r" by (intro arc_real_mono) simp
    with hi r(2) show False by (simp add: N0_def abs_less_iff)
  qed
  ultimately have "fin_in (Fin r) 0.9263141134768 0.9263141334773"
    using pi_bounds by (intro fin_in_Fin) (simp_all add: \<phi>0_def toRadians_def pi_lo_def pi_hi_def)
  moreover have "latlon_loop (Fin (real_of_int (Northing \<lparr>Easting = 392395, Northing = 352997\<rparr>))) (Fin \<phi>0) (Fin 0) = Some (Fin r)"
    using latlon_loop_upto_imp_loop[OF r(1)] by simp
  ultimately show ?thesis by blast
qed

section \<open>Theorems\<close>

text \<open>
  C7: \<open>Valid\<close> holds exactly when \<open>0 \<le> Easting \<le> 700000\<close> and
  \<open>0 \<le> Northing \<le> 1300000\<close>. The corners \<open>{0, 0}\<close> and \<open>{700000, 1300000}\<close> are valid;
  a reference with easting 700001, or with northing 1300001, is not.
\<close>

theorem Valid_iff_extent:
  "(Valid g \<longleftrightarrow> 0 \<le> Easting g \<and> Easting g \<le> 700000 \<and> 0 \<le> Northing g \<and> Northing g \<le> 1300000)
   \<and> Valid \<lparr>Easting = 0, Northing = 0\<rparr>
   \<and> Valid \<lparr>Easting = 700000, Northing = 1300000\<rparr>
   \<and> \<not> Valid \<lparr>Easting = 700001, Northing = k\<rparr>
   \<and> \<not> Valid \<lparr>Easting = e, Northing = 1300001\<rparr>"
  by (simp add: Valid_def)

text \<open>
  C6: for every point \<open>(x, y, z)\<close> and every parameter vector
  \<open>(tx, ty, tz, s, rx, ry, rz)\<close>, \<open>applyTransform\<close> returns
  \<open>(tx + x s' - y rz' + z ry', ty + x rz' + y s' - z rx', tz - x ry' + y rx' + z s')\<close>,
  where \<open>s' = s / 10\<^sup>6 + 1\<close> and \<open>rx'\<close>, \<open>ry'\<close>, \<open>rz'\<close> are the rotations divided by 3600
  and multiplied by \<open>\<pi> / 180\<close>. The result carries the zero datum.
\<close>

theorem applyTransform_formula:
  "applyTransform \<lparr>X = x, Y = y, Z = z, Datum = d\<rparr> [tx, ty, tz, s, rx, ry, rz] =
     (let s' = s / Fin 1000000 + Fin 1;
          rx' = rx / Fin 3600 * Fin (pi / 180);
          ry' = ry / Fin 3600 * Fin (pi / 180);
          rz' = rz / Fin 3600 * Fin (pi / 180)
      in \<lparr>X = tx + x * s' - y * rz' + z * ry',
          Y = ty + x * rz' + y * s' - z * rx',
          Z = tz - x * ry' + y * rx' + z * s',
          Datum = zero_Datum\<rparr>)"
  by (simp add: applyTransform_def toRadians_def Let_def)

text \<open>
  C3: when the datum names of the point \<open>c\<close> and of the target \<open>d\<close> differ,
  \<open>Cartesian.ConvertDatum\<close> goes through WGS84. From WGS84 it applies the parameters of
  \<open>d\<close>; to WGS84 it applies the negation of each parameter of the datum of \<open>c\<close>; between
  two other datums the result is the conversion of \<open>c\<close> to WGS84 followed by the
  parameters of \<open>d\<close>, which is also the conversion to \<open>d\<close> of the point converted to WGS84.
\<close>

theorem Cartesian_ConvertDatum_routes_through_WGS84:
  assumes "Name (Datum c) \<noteq> Name d"
  shows "Cartesian_ConvertDatum c d =
      (if Name (Datum c) = ''WGS84'' then (applyTransform c (Transform d))\<lparr>Datum := d\<rparr>
       else if Name d = ''WGS84''
         then (applyTransform c (map uminus (Transform (Datum c))))\<lparr>Datum := d\<rparr>
       else (applyTransform (Cartesian_ConvertDatum c WGS84) (Transform d))\<lparr>Datum := d\<rparr>)
    \<and> (Name (Datum c) \<noteq> ''WGS84'' \<and> Name d \<noteq> ''WGS84'' \<longrightarrow>
         Cartesian_ConvertDatum c d = Cartesian_ConvertDatum (Cartesian_ConvertDatum c WGS84) d
       \<and> Cartesian_ConvertDatum c WGS84 =
           (applyTransform c (map uminus (Transform (Datum c))))\<lparr>Datum := WGS84\<rparr>)"
  using assms by (simp add: Let_def WGS84_eq)

theorem Cartesian_ConvertDatum_routes_through_WGS84_witness:
  "Name (Datum \<lparr>X = Fin 1, Y = Fin 2, Z = Fin 3, Datum = OSGB36\<rparr>)
     \<noteq> Name (map_index zero_Datum Datums ''ED50'')
   \<and> Cartesian_ConvertDatum \<lparr>X = Fin 1, Y = Fin 2, Z = Fin 3, Datum = OSGB36\<rparr>
       (map_index zero_Datum Datums ''ED50'')
     = (applyTransform
          ((applyTransform \<lparr>X = Fin 1, Y = Fin 2, Z = Fin 3, Datum = OSGB36\<rparr>
             [Fin 446.448, Fin (- 125.157), Fin 542.060, Fin (- 20.4894), Fin 0.1502,
              Fin 0.2470, Fin 0.8421])
           \<lparr>Datum := WGS84\<rparr>)
          [Fin 89.5, Fin 93.8, Fin 123.1, Fin (- 1.2), Fin 0.0, Fin 0.0, Fin 0.156])
       \<lparr>Datum := map_index zero_Datum Datums ''ED50''\<rparr>"
proof -
  let ?c = "\<lparr>X = Fin 1, Y = Fin 2, Z = Fin 3, Datum = OSGB36\<rparr>"
  let ?d = "map_index zero_Datum Datums ''ED50''"
  have ne: "Name (Datum ?c) \<noteq> Name ?d"
    by (simp add: OSGB36_eq Datums_def map_index_def)
  have dd: "Name ?d = ''ED50''"
    "Transform ?d = [Fin 89.5, Fin 93.8, Fin 123.1, Fin (- 1.2), Fin 0.0, Fin 0.0, Fin 0.156]"
    by (simp_all add: Datums_def map_index_def)
  have w: "Name (Datum ?c) \<noteq> Name WGS84" by (simp add: OSGB36_eq WGS84_eq)
  show ?thesis
    using Cartesian_ConvertDatum_routes_through_WGS84[OF ne]
      Cartesian_ConvertDatum_routes_through_WGS84[OF w] ne
    by (simp add: dd OSGB36_eq WGS84_eq del: Cartesian_ConvertDatum.simps)
qed

text \<open>
  C4, as the code has it: \<open>p.ConvertDatum(p.Datum)\<close> keeps the datum of \<open>p\<close> and applies
  no Helmert transform (\<open>Cartesian.ConvertDatum\<close> returns a point unchanged when asked for
  the datum it is on), so the result is \<open>p.ToCartesian().ToLatLon()\<close>: latitude, longitude
  and height are recomputed from the Cartesian coordinates.
\<close>

theorem LatLon_ConvertDatum_same_datum:
  "LatLon_ConvertDatum p (LatLonEllipsoidalDatum.Datum p) = Cartesian_ToLatLon (ToCartesian p)
   \<and> LatLonEllipsoidalDatum.Datum (LatLon_ConvertDatum p (LatLonEllipsoidalDatum.Datum p))
       = LatLonEllipsoidalDatum.Datum p
   \<and> Cartesian_ConvertDatum c (Datum c) = c"
  by (simp add: LatLon_ConvertDatum_def ToCartesian_Datum Cartesian_ToLatLon_Datum)

text \<open>
  C4 as stated (the point comes back unchanged) fails: the point at latitude 0 and
  longitude 360 on WGS84 does not come back with longitude 360.
\<close>

theorem LatLon_ConvertDatum_same_datum_counterexample:
  "LatLon_ConvertDatum \<lparr>Lat = Fin 0, Lon = Fin 360, Height = Fin 0, Datum = WGS84\<rparr>
      (LatLonEllipsoidalDatum.Datum \<lparr>Lat = Fin 0, Lon = Fin 360, Height = Fin 0, Datum = WGS84\<rparr>)
    \<noteq> \<lparr>Lat = Fin 0, Lon = Fin 360, Height = Fin 0, Datum = WGS84\<rparr>"
  by (simp add: LatLon_ConvertDatum_def ToCartesian_def Cartesian_ToLatLon_def WGS84_eq Let_def
      minus_float64_def atan2_def toRadians_def toDegrees_def cong: let_weak_cong)

text \<open>
  C5 says that a point on the polar axis gets latitude \<open>\<plusminus>90\<close>. The code gives the two
  poles of WGS84 latitude 0, longitude 0 and height \<open>-a\<close>: with \<open>p = 0\<close> the quotient
  \<open>tan\<beta>\<close> is infinite, \<open>sin\<beta>\<close> and \<open>cos\<beta>\<close> are NaN, and the guard on \<open>cos\<beta>\<close> leaves
  \<open>\<phi>\<close> at 0.
\<close>

theorem Cartesian_ToLatLon_poles:
  "Cartesian_ToLatLon \<lparr>X = Fin 0, Y = Fin 0, Z = Fin 6356752.314245, Datum = WGS84\<rparr>
     = \<lparr>Lat = Fin 0, Lon = Fin 0, Height = Fin (- 6378137), Datum = WGS84\<rparr>
   \<and> Cartesian_ToLatLon \<lparr>X = Fin 0, Y = Fin 0, Z = Fin (- 6356752.314245), Datum = WGS84\<rparr>
     = \<lparr>Lat = Fin 0, Lon = Fin 0, Height = Fin (- 6378137), Datum = WGS84\<rparr>"
  by (simp add: Cartesian_ToLatLon_def WGS84_eq Let_def minus_float64_def atan2_def
      cong: let_weak_cong)

text \<open>
  C8 says that \<open>OsGridRef.ToLatLon\<close> reports a reference outside the grid as an error.
  The code does not: \<open>{700001, 0}\<close> is not valid, \<open>assertValid\<close> would panic on it, and
  \<open>ToLatLon\<close>, which never calls \<open>assertValid\<close>, returns a pair of numbers.
\<close>

theorem OsGridRef_ToLatLon_out_of_range_returns:
  "\<not> Valid \<lparr>Easting = 700001, Northing = 0\<rparr>
   \<and> assertValid \<lparr>Easting = 700001, Northing = 0\<rparr> = Inl (Panic ''Invalid OS grid ref'')
   \<and> (\<exists>lat lon. OsGridRef_ToLatLon \<lparr>Easting = 700001, Northing = 0\<rparr> = Some (lat, lon))"
  using OsGridRef_ToLatLon_returns[of "\<lparr>Easting = 700001, Northing = 0\<rparr>"]
  by (simp add: Valid_def assertValid_def)

text \<open>
  C9: for a reference inside the grid the latitude loop of \<open>OsGridRef.ToLatLon\<close> reaches
  its \<open>break\<close>, with the residual \<open>|N - N0 - M|\<close> below \<open>10\<^sup>-\<^sup>5\<close>, within ten executions of
  its body (over exact real arithmetic: rounding is not modelled).
\<close>

theorem latlon_loop_terminates_within_10:
  assumes "Valid g"
  shows "\<exists>\<phi>. latlon_loop_upto 10 (Fin (of_int (Northing g))) (Fin \<phi>0) (Fin 0) = Some (Fin \<phi>)
      \<and> latlon_loop (Fin (of_int (Northing g))) (Fin \<phi>0) (Fin 0) = Some (Fin \<phi>)
      \<and> abs (Fin (of_int (Northing g)) - Fin N0 - meridional_arc (Fin \<phi>)) < Fin 0.00001"
proof -
  define N :: real where "N = of_int (Northing g)"
  have "0 \<le> N" "N \<le> 1300000"
    using assms by (simp_all add: Valid_def N_def)
  then have "\<bar>N - N0 - arc_real \<phi>0\<bar> \<le> 1400000"
    by (simp add: arc_real_origin N0_def)
  then have "\<bar>N - N0 - arc_real \<phi>0\<bar> * contraction ^ 10 \<le> 1400000 * contraction ^ 10"
    by (rule mult_right_mono) (simp add: contraction_def)
  also have "\<dots> < 0.00001"
    by (simp add: contraction_def power_divide)
  finally have "\<bar>N - N0 - arc_real \<phi>0\<bar> * contraction ^ 10 < 0.00001" .
  from latlon_loop_upto_converges[OF _ this] obtain \<phi> where
    \<phi>: "latlon_loop_upto 10 (Fin N) (Fin \<phi>0) (Fin 0) = Some (Fin \<phi>)"
       "\<bar>N - N0 - arc_real \<phi>\<bar> < 0.00001"
    by (auto simp: arc_real_origin)
  then show ?thesis
    unfolding N_def [symmetric]
    by (auto simp: loop_test_Fin meridional_arc_Fin dest: latlon_loop_upto_imp_loop)
qed

theorem latlon_loop_terminates_within_10_witness:
  "Valid \<lparr>Easting = 392395, Northing = 352997\<rparr>
   \<and> (\<exists>\<phi>. latlon_loop_upto 10 (Fin 352997) (Fin \<phi>0) (Fin 0) = Some (Fin \<phi>)
      \<and> latlon_loop (Fin 352997) (Fin \<phi>0) (Fin 0) = Some (Fin \<phi>)
      \<and> abs (Fin 352997 - Fin N0 - meridional_arc (Fin \<phi>)) < Fin 0.00001)"
proof -
  have v: "Valid \<lparr>Easting = 392395, Northing = 352997\<rparr>" by (simp add: Valid_def)
  show ?thesis
    using v latlon_loop_terminates_within_10[OF v] by simp
qed

text \<open>
  C10: \<open>Wrap90\<close> returns a value of \<open>[-90, 90]\<close> as it is, \<open>Wrap180\<close> returns a value of
  \<open>[-180, 180]\<close> as it is, and \<open>Wrap180 (-180) = -180\<close>.
\<close>

theorem Wrap_identity_in_range:
  "(Fin (- 90) \<le> d \<and> d \<le> Fin 90 \<longrightarrow> Wrap90 d = d)
   \<and> (Fin (- 180) \<le> d' \<and> d' \<le> Fin 180 \<longrightarrow> Wrap180 d' = d')
   \<and> Wrap180 (Fin (- 180)) = Fin (- 180)"
  by (simp add: Wrap90_def Wrap180_def)

theorem Wrap_identity_in_range_witness:
  "Fin (- 90) \<le> Fin 45.5 \<and> Fin 45.5 \<le> Fin 90 \<and> Wrap90 (Fin 45.5) = Fin 45.5
   \<and> Fin (- 180) \<le> Fin 180 \<and> Fin 180 \<le> Fin 180 \<and> Wrap180 (Fin 180) = Fin 180"
  using Wrap_identity_in_range[of "Fin 45.5" "Fin 180"] by simp

text \<open>
  C2: \<open>OsGridRef{Easting: 392395, Northing: 352997}.ToLatLon()\<close> returns a latitude within
  0.00005 degrees of 53.074149 and a longitude within 0.00005 degrees of -2.1149638, on
  WGS84 (over exact real arithmetic: rounding is not modelled).
\<close>

theorem OsGridRef_ToLatLon_known_point:
  "\<exists>lat lon. OsGridRef_ToLatLon \<lparr>Easting = 392395, Northing = 352997\<rparr> = Some (Fin lat, Fin lon)
     \<and> \<bar>lat - 53.074149\<bar> \<le> 0.00005 \<and> \<bar>lon - (- 2.1149638)\<bar> \<le> 0.00005"
proof -
  obtain \<phi> where "latlon_loop (Fin (real_of_int (Northing \<lparr>Easting = 392395, Northing = 352997\<rparr>))) (Fin \<phi>0) (Fin 0) = Some \<phi>"
    and "fin_in \<phi> 0.9263141134768 0.9263141334773"
    using C2_loop by blast
  from C2_tail[OF this] obtain latd lond where
    t: "OsGridRef_ToLatLon \<lparr>Easting = 392395, Northing = 352997\<rparr> = Some (osgb36ToWGS84 latd lond)"
    and "fin_in latd 53.07383505855 53.07383620455" and "fin_in lond (- 2.113525487847) (- 2.113525484809)"
    by blast
  from C2_ToCartesian[OF this(2,3)] obtain x y z where
    c: "ToCartesian \<lparr>Lat = latd, Lon = lond, Height = Fin 0, Datum = OSGB36\<rparr>
        = \<lparr>X = x, Y = y, Z = z, Datum = OSGB36\<rparr>"
    and "fin_in x 3837127.308459 3837127.411058" and "fin_in y (- 141608.1094444) (- 141608.1053807)" and "fin_in z 5075110.840552 5075110.917306"
    by blast
  from C2_applyTransform[OF this(2,3,4)] obtain x2 y2 z2 where
    a: "applyTransform \<lparr>X = x, Y = y, Z = z, Datum = OSGB36\<rparr> (map uminus (Transform OSGB36))
        = \<lparr>X = x2, Y = y2, Z = z2, Datum = zero_Datum\<rparr>"
    and "fin_in x2 3837501.791546 3837501.894146" and "fin_in y2 (- 141718.3951078) (- 141718.3910434)" and "fin_in z2 5075544.216536 5075544.293291"
    by blast
  note e = C2_ToLatLon[OF this(2,3,4)]
  have n: "Name (Datum \<lparr>X = x, Y = y, Z = z, Datum = OSGB36\<rparr>) \<noteq> ''WGS84''"
    by (simp add: OSGB36_eq)
  have "LatLon_ConvertDatum \<lparr>Lat = latd, Lon = lond, Height = Fin 0, Datum = OSGB36\<rparr> WGS84
      = Cartesian_ToLatLon \<lparr>X = x2, Y = y2, Z = z2, Datum = WGS84\<rparr>"
    unfolding LatLon_ConvertDatum_def Let_def c Cartesian_ConvertDatum_to_WGS84[OF n]
    by (simp add: a)
  then have "osgb36ToWGS84 latd lond =
      (Lat (Cartesian_ToLatLon \<lparr>X = x2, Y = y2, Z = z2, Datum = WGS84\<rparr>),
       Lon (Cartesian_ToLatLon \<lparr>X = x2, Y = y2, Z = z2, Datum = WGS84\<rparr>))"
    by (simp add: osgb36ToWGS84_def Let_def)
  then have o: "OsGridRef_ToLatLon \<lparr>Easting = 392395, Northing = 352997\<rparr> =
      Some (Lat (Cartesian_ToLatLon \<lparr>X = x2, Y = y2, Z = z2, Datum = WGS84\<rparr>),
            Lon (Cartesian_ToLatLon \<lparr>X = x2, Y = y2, Z = z2, Datum = WGS84\<rparr>))"
    using t by simp
  from e obtain la lo where
    la: "Lat (Cartesian_ToLatLon \<lparr>X = x2, Y = y2, Z = z2, Datum = WGS84\<rparr>) = Fin la"
      "53.07413276568 \<le> la" "la \<le> 53.07413396606"
    and lo: "Lon (Cartesian_ToLatLon \<lparr>X = x2, Y = y2, Z = z2, Datum = WGS84\<rparr>) = Fin lo"
      "(- 2.114963862189) \<le> lo" "lo \<le> (- 2.114963743258)"
    unfolding fin_in_def by blast
  have "\<bar>la - 53.074149\<bar> \<le> 0.00005" using la(2,3) unfolding abs_le_iff by simp
  moreover have "\<bar>lo - (- 2.1149638)\<bar> \<le> 0.00005" using lo(2,3) unfolding abs_le_iff by simp
  ultimately show ?thesis unfolding o la(1) lo(1) by blast
qed

end
